(* ===== verification/Prelude.thy ===== *)
theory Prelude
  imports Complex_Main
begin

text \<open>
  Shared vocabulary of the hand-eye calibration development: the named theorem
  collections the component theories fill, and the generic facts on lists,
  options and sums that the components use to relate the program's parallel
  \<open>std::vector\<close>s (pose lists and the derived motion lists) to each other.
\<close>

named_theorems eigen_defs
  "definitions of the Eigen arithmetic, unfolded by the matrix algebra proofs"

named_theorems motion_simps
  "rewrite rules for the derived relative-motion lists"

named_theorems session_simps
  "rewrite rules for the state of the interactive capture session"

subsection \<open>Results of fallible operations\<close>

text \<open>
  What goes wrong in the program, as values. \<open>Iterator_past_end\<close> and
  \<open>Pop_back_empty\<close> are undefined behaviour of the C++ code (dereferencing an end
  iterator, \<open>pop_back\<close> on an empty vector), \<open>Signed_overflow\<close> an \<open>int\<close>
  addition out of range; \<open>Missing_node\<close> and \<open>Malformed_node\<close> are a file
  entry that the reader does not find or cannot convert, which the program does not
  check.
\<close>

datatype fault =
    Iterator_past_end
  | Pop_back_empty
  | Signed_overflow
  | Missing_node string
  | Malformed_node string

text \<open>
  A fallible operation of the program returns \<open>'e + 'a\<close>, the error on the left.
  \<open>bind_res\<close> sequences two of them the way the C++ code continues only when the
  first call succeeded.
\<close>

definition bind_res :: "'e + 'a \<Rightarrow> ('a \<Rightarrow> 'e + 'b) \<Rightarrow> 'e + 'b" where
  "bind_res r f = (case r of Inl e \<Rightarrow> Inl e | Inr a \<Rightarrow> f a)"

lemma bind_res_Inl [simp]: "bind_res (Inl e) f = Inl e"
  by (simp add: bind_res_def)

lemma bind_res_Inr [simp]: "bind_res (Inr a) f = f a"
  by (simp add: bind_res_def)

lemma bind_res_eq_Inr [simp]:
  "bind_res r f = Inr b \<longleftrightarrow> (\<exists>a. r = Inr a \<and> f a = Inr b)"
  by (cases r) (simp_all add: bind_res_def)

lemma bind_res_Inr_right [simp]: "bind_res r Inr = r"
  by (cases r) simp_all

lemma bind_res_assoc [simp]:
  "bind_res (bind_res r f) g = bind_res r (\<lambda>a. bind_res (f a) g)"
  by (cases r) simp_all

subsection \<open>Lists used as \<open>std::vector\<close>\<close>

text \<open>
  \<open>push_back\<close> is \<open>xs @ [x]\<close> and a \<open>pop_back\<close> on a non-empty vector is
  \<open>butlast\<close>. The derived motion lists are images of the tail of the pose list, so
  popping both keeps them related.
\<close>

lemma map_tl_snoc [simp, motion_simps]:
  "xs \<noteq> [] \<Longrightarrow> map f (tl (xs @ [x])) = map f (tl xs) @ [f x]"
  by simp

lemma map_tl_butlast [motion_simps]:
  "map f (tl (butlast xs)) = butlast (map f (tl xs))"
  by (metis butlast_tl map_butlast)

lemma length_tl_pos [simp]:
  "2 \<le> length xs \<Longrightarrow> tl xs \<noteq> []"
  by (cases xs) auto

lemma hd_butlast_keep [simp]:
  "2 \<le> length xs \<Longrightarrow> hd (butlast xs) = hd xs"
  by (cases xs) auto

lemma nth_tl_Suc [simp]:
  "i < length xs - 1 \<Longrightarrow> tl xs ! i = xs ! Suc i"
  by (cases xs) auto

end
