(* ===== verification/Geometry.thy ===== *)
theory Geometry
  imports Prelude
begin

text \<open>
  The Eigen values the program computes with: \<open>Eigen::Vector3d\<close>,
  \<open>Eigen::Matrix3d\<close> and \<open>Eigen::Affine3d\<close> (a
  \<open>Transform<double,3,Affine>\<close>), with the operations of Eigen that
  \<open>src/src/handeye_calibration.cpp\<close> calls: products of transforms, their
  inverse, the linear and translation parts and the \<open>4\<times>4\<close> matrix view.
  \<open>double\<close> is modelled by \<open>real\<close>: the development proves the algebra of the
  program, not its rounding. Division follows HOL (\<open>x / 0 = 0\<close>), where Eigen
  produces an infinity; the lemmas that use an inverse assume a non-zero
  determinant, which every rigid transform has.
\<close>

section \<open>Vectors and matrices\<close>

record vec3 =
  vx :: real
  vy :: real
  vz :: real

record mat3 =
  e00 :: real  e01 :: real  e02 :: real
  e10 :: real  e11 :: real  e12 :: real
  e20 :: real  e21 :: real  e22 :: real

definition vadd :: "vec3 \<Rightarrow> vec3 \<Rightarrow> vec3" where
  [eigen_defs]: "vadd u v = \<lparr>vx = vx u + vx v, vy = vy u + vy v, vz = vz u + vz v\<rparr>"

definition vscale :: "real \<Rightarrow> vec3 \<Rightarrow> vec3" where
  [eigen_defs]: "vscale c v = \<lparr>vx = c * vx v, vy = c * vy v, vz = c * vz v\<rparr>"

definition vneg :: "vec3 \<Rightarrow> vec3" where
  [eigen_defs]: "vneg v = \<lparr>vx = - vx v, vy = - vy v, vz = - vz v\<rparr>"

definition vzero :: vec3 where
  [eigen_defs]: "vzero = \<lparr>vx = 0, vy = 0, vz = 0\<rparr>"

definition vsqnorm :: "vec3 \<Rightarrow> real" where
  [eigen_defs]: "vsqnorm v = vx v * vx v + vy v * vy v + vz v * vz v"

text \<open>\<open>MatrixBase::norm\<close>: the square root of the squared norm.\<close>

definition vnorm :: "vec3 \<Rightarrow> real" where
  "vnorm v = sqrt (vsqnorm v)"

text \<open>\<open>m.coeff(i, j)\<close> for the indices \<open>0..2\<close>.\<close>

definition mcoeff :: "mat3 \<Rightarrow> nat \<Rightarrow> nat \<Rightarrow> real" where
  "mcoeff m i j =
     (if i = 0 then (if j = 0 then e00 m else if j = 1 then e01 m else e02 m)
      else if i = 1 then (if j = 0 then e10 m else if j = 1 then e11 m else e12 m)
      else (if j = 0 then e20 m else if j = 1 then e21 m else e22 m))"

definition mident :: mat3 where
  [eigen_defs]: "mident = \<lparr>e00 = 1, e01 = 0, e02 = 0,
                          e10 = 0, e11 = 1, e12 = 0,
                          e20 = 0, e21 = 0, e22 = 1\<rparr>"

definition mmul :: "mat3 \<Rightarrow> mat3 \<Rightarrow> mat3" where
  [eigen_defs]: "mmul a b = \<lparr>
     e00 = e00 a * e00 b + e01 a * e10 b + e02 a * e20 b,
     e01 = e00 a * e01 b + e01 a * e11 b + e02 a * e21 b,
     e02 = e00 a * e02 b + e01 a * e12 b + e02 a * e22 b,
     e10 = e10 a * e00 b + e11 a * e10 b + e12 a * e20 b,
     e11 = e10 a * e01 b + e11 a * e11 b + e12 a * e21 b,
     e12 = e10 a * e02 b + e11 a * e12 b + e12 a * e22 b,
     e20 = e20 a * e00 b + e21 a * e10 b + e22 a * e20 b,
     e21 = e20 a * e01 b + e21 a * e11 b + e22 a * e21 b,
     e22 = e20 a * e02 b + e21 a * e12 b + e22 a * e22 b\<rparr>"

definition mvmul :: "mat3 \<Rightarrow> vec3 \<Rightarrow> vec3" where
  [eigen_defs]: "mvmul a v = \<lparr>
     vx = e00 a * vx v + e01 a * vy v + e02 a * vz v,
     vy = e10 a * vx v + e11 a * vy v + e12 a * vz v,
     vz = e20 a * vx v + e21 a * vy v + e22 a * vz v\<rparr>"

definition mtrans :: "mat3 \<Rightarrow> mat3" where
  [eigen_defs]: "mtrans a = \<lparr>e00 = e00 a, e01 = e10 a, e02 = e20 a,
                            e10 = e01 a, e11 = e11 a, e12 = e21 a,
                            e20 = e02 a, e21 = e12 a, e22 = e22 a\<rparr>"

definition mtrace :: "mat3 \<Rightarrow> real" where
  "mtrace a = e00 a + e11 a + e22 a"

text \<open>
  Eigen's \<open>compute_inverse\<close> for \<open>3\<times>3\<close> matrices: \<open>cofactor_3x3<M,i,j>\<close> is
  the signed cofactor written with cyclic indices; the determinant is the
  expansion along column 0; the inverse is the transposed cofactor matrix times
  \<open>1 / det\<close>.
\<close>

definition cofactor3 :: "mat3 \<Rightarrow> nat \<Rightarrow> nat \<Rightarrow> real" where
  "cofactor3 m i j =
     mcoeff m ((i + 1) mod 3) ((j + 1) mod 3) * mcoeff m ((i + 2) mod 3) ((j + 2) mod 3)
   - mcoeff m ((i + 1) mod 3) ((j + 2) mod 3) * mcoeff m ((i + 2) mod 3) ((j + 1) mod 3)"

definition mdet :: "mat3 \<Rightarrow> real" where
  "mdet m = cofactor3 m 0 0 * e00 m + cofactor3 m 1 0 * e10 m + cofactor3 m 2 0 * e20 m"

definition cofactor_matrix :: "mat3 \<Rightarrow> mat3" where
  "cofactor_matrix m = \<lparr>
     e00 = cofactor3 m 0 0, e01 = cofactor3 m 0 1, e02 = cofactor3 m 0 2,
     e10 = cofactor3 m 1 0, e11 = cofactor3 m 1 1, e12 = cofactor3 m 1 2,
     e20 = cofactor3 m 2 0, e21 = cofactor3 m 2 1, e22 = cofactor3 m 2 2\<rparr>"

definition mscale :: "real \<Rightarrow> mat3 \<Rightarrow> mat3" where
  [eigen_defs]: "mscale c a = \<lparr>e00 = e00 a * c, e01 = e01 a * c, e02 = e02 a * c,
                              e10 = e10 a * c, e11 = e11 a * c, e12 = e12 a * c,
                              e20 = e20 a * c, e21 = e21 a * c, e22 = e22 a * c\<rparr>"

definition minverse :: "mat3 \<Rightarrow> mat3" where
  "minverse m = mscale (1 / mdet m) (mtrans (cofactor_matrix m))"

text \<open>A rotation matrix: orthonormal columns and determinant one.\<close>

definition rotation_matrix :: "mat3 \<Rightarrow> bool" where
  "rotation_matrix m \<longleftrightarrow> mmul (mtrans m) m = mident \<and> mdet m = 1"

section \<open>Affine transforms\<close>

text \<open>
  \<open>Eigen::Affine3d\<close> stores a \<open>4\<times>4\<close> matrix whose last row is \<open>[0 0 0 1]\<close>;
  its content is the linear part and the translation.
\<close>

record affine3 =
  aff_linear :: mat3
  aff_translation :: vec3

definition affine_ident :: affine3 where
  "affine_ident = \<lparr>aff_linear = mident, aff_translation = vzero\<rparr>"

text \<open>\<open>operator*\<close> of two affine transforms (\<open>transform_transform_product_impl\<close>).\<close>

definition affine_mul :: "affine3 \<Rightarrow> affine3 \<Rightarrow> affine3" where
  "affine_mul a b = \<lparr>aff_linear = mmul (aff_linear a) (aff_linear b),
     aff_translation = vadd (mvmul (aff_linear a) (aff_translation b)) (aff_translation a)\<rparr>"

text \<open>
  \<open>Transform::inverse()\<close> with the default hint \<open>Affine\<close>: the linear part is
  inverted as a general matrix and the translation is \<open>-(L\<^sup>-\<^sup>1 t)\<close>.
\<close>

definition affine_inverse :: "affine3 \<Rightarrow> affine3" where
  "affine_inverse a = (let li = minverse (aff_linear a) in
     \<lparr>aff_linear = li, aff_translation = vneg (mvmul li (aff_translation a))\<rparr>)"

text \<open>
  \<open>Transform::rotation()\<close> returns the rotation factor of the polar decomposition
  of the linear part; for a rigid transform that factor is the linear part itself,
  and every transform the program builds is rigid (lemmas \<open>rigid_affine_mul\<close>,
  \<open>rigid_affine_inverse\<close>), so it is modelled as the linear part.
\<close>

definition affine_rotation :: "affine3 \<Rightarrow> mat3" where
  "affine_rotation a = aff_linear a"

definition rigid :: "affine3 \<Rightarrow> bool" where
  "rigid a \<longleftrightarrow> rotation_matrix (aff_linear a)"

text \<open>\<open>Transform::matrix()\<close>: the four rows of the homogeneous matrix.\<close>

definition affine_matrix :: "affine3 \<Rightarrow> real list list" where
  "affine_matrix a = (let l = aff_linear a; t = aff_translation a in
     [[e00 l, e01 l, e02 l, vx t],
      [e10 l, e11 l, e12 l, vy t],
      [e20 l, e21 l, e22 l, vz t],
      [0, 0, 0, 1]])"

text \<open>
  \<open>cv::cv2eigen(mat, t.matrix())\<close> for a \<open>4\<times>4\<close> matrix given by its rows: the
  upper three rows are the linear part and the translation.
\<close>

fun affine_of_rows :: "real list list \<Rightarrow> affine3 option" where
  "affine_of_rows [[a00, a01, a02, t0], [a10, a11, a12, t1], [a20, a21, a22, t2], [_, _, _, _]] =
     Some \<lparr>aff_linear = \<lparr>e00 = a00, e01 = a01, e02 = a02,
                         e10 = a10, e11 = a11, e12 = a12,
                         e20 = a20, e21 = a21, e22 = a22\<rparr>,
           aff_translation = \<lparr>vx = t0, vy = t1, vz = t2\<rparr>\<rparr>"
| "affine_of_rows _ = None"

section \<open>Algebra of the Eigen operations\<close>

text \<open>
  Matrices form a monoid under \<open>mmul\<close>, the Eigen inverse is a two-sided inverse
  when the determinant is not zero, and rotation matrices are closed under product
  and inverse; hence affine transforms form a group on which rigid transforms are a
  subgroup. These are the facts the relative-motion derivation relies on.
\<close>

lemma mmul_assoc: "mmul (mmul a b) c = mmul a (mmul b c)"
  by (simp add: eigen_defs algebra_simps)

lemma mdet_mmul: "mdet (mmul a b) = mdet a * mdet b"
  by (simp add: mdet_def cofactor3_def mcoeff_def eigen_defs algebra_simps)

lemma adjugate_left: "mmul (mtrans (cofactor_matrix m)) m = mscale (mdet m) mident"
  by (simp add: cofactor_matrix_def mdet_def cofactor3_def mcoeff_def eigen_defs algebra_simps)

lemma adjugate_right: "mmul m (mtrans (cofactor_matrix m)) = mscale (mdet m) mident"
  by (simp add: cofactor_matrix_def mdet_def cofactor3_def mcoeff_def eigen_defs algebra_simps)

lemma mmul_mscale_left: "mmul (mscale c a) b = mscale c (mmul a b)"
  by (simp add: eigen_defs algebra_simps)

lemma mmul_mscale_right: "mmul a (mscale c b) = mscale c (mmul a b)"
  by (simp add: eigen_defs algebra_simps)

lemma mscale_mscale: "mscale c (mscale d a) = mscale (d * c) a"
  by (simp add: eigen_defs algebra_simps)

lemma mscale_one: "mscale 1 a = a"
  by (simp add: eigen_defs)

lemma minverse_left: "mdet m \<noteq> 0 \<Longrightarrow> mmul (minverse m) m = mident"
  by (simp add: minverse_def mmul_mscale_left adjugate_left mscale_mscale mscale_one)

lemma minverse_right: "mdet m \<noteq> 0 \<Longrightarrow> mmul m (minverse m) = mident"
  by (simp add: minverse_def mmul_mscale_right adjugate_right mscale_mscale mscale_one)


lemma mvmul_mmul: "mvmul (mmul a b) v = mvmul a (mvmul b v)"
  by (simp add: eigen_defs algebra_simps)

lemma mvmul_vadd: "mvmul a (vadd u v) = vadd (mvmul a u) (mvmul a v)"
  by (simp add: eigen_defs algebra_simps)

lemma mvmul_vneg: "mvmul a (vneg v) = vneg (mvmul a v)"
  by (simp add: eigen_defs)

lemma mvmul_mident: "mvmul mident v = v"
  by (simp add: eigen_defs)

lemma mvmul_vzero: "mvmul a vzero = vzero"
  by (simp add: eigen_defs)

lemma mmul_mident_left: "mmul mident a = a"
  by (simp add: eigen_defs)

lemma mmul_mident_right: "mmul a mident = a"
  by (simp add: eigen_defs)

lemma vadd_assoc: "vadd (vadd u v) w = vadd u (vadd v w)"
  by (simp add: eigen_defs algebra_simps)

lemma vadd_vzero_left: "vadd vzero v = v"
  by (simp add: eigen_defs)
lemma vadd_vzero_right: "vadd v vzero = v"
  by (simp add: eigen_defs)
lemma vadd_vneg_left: "vadd (vneg v) v = vzero"
  by (simp add: eigen_defs)
lemma vadd_vneg_right: "vadd v (vneg v) = vzero"
  by (simp add: eigen_defs)

lemma affine_mul_assoc: "affine_mul (affine_mul a b) c = affine_mul a (affine_mul b c)"
  by (simp add: affine_mul_def mmul_assoc mvmul_mmul mvmul_vadd vadd_assoc)

lemma affine_mul_ident_left: "affine_mul affine_ident a = a"
  by (simp add: affine_mul_def affine_ident_def mmul_mident_left mvmul_mident vadd_vzero_right)

lemma affine_mul_ident_right: "affine_mul a affine_ident = a"
  by (simp add: affine_mul_def affine_ident_def mmul_mident_right mvmul_vzero vadd_vzero_left)

lemma affine_inverse_left:
  "mdet (aff_linear a) \<noteq> 0 \<Longrightarrow> affine_mul (affine_inverse a) a = affine_ident"
  by (simp add: affine_mul_def affine_inverse_def affine_ident_def Let_def minverse_left vadd_vneg_right)

lemma affine_inverse_right:
  "mdet (aff_linear a) \<noteq> 0 \<Longrightarrow> affine_mul a (affine_inverse a) = affine_ident"
  by (simp add: affine_mul_def affine_inverse_def affine_ident_def Let_def minverse_right
      mvmul_vneg mvmul_mmul [symmetric] mvmul_mident vadd_vneg_left)

lemma mdet_mtrans: "mdet (mtrans a) = mdet a"
  by (simp add: mdet_def cofactor3_def mcoeff_def eigen_defs algebra_simps)

lemma mdet_mident: "mdet mident = 1"
  by (simp add: mdet_def cofactor3_def mcoeff_def eigen_defs)

lemma mtrans_mmul: "mtrans (mmul a b) = mmul (mtrans b) (mtrans a)"
  by (simp add: eigen_defs algebra_simps)

lemma mtrans_mtrans: "mtrans (mtrans a) = a"
  by (simp add: eigen_defs)

lemma rotation_minverse: "rotation_matrix m \<Longrightarrow> minverse m = mtrans m"
proof -
  assume r: "rotation_matrix m"
  then have d: "mdet m \<noteq> 0" by (simp add: rotation_matrix_def)
  have "mtrans m = mmul (mtrans m) (mmul m (minverse m))"
    using d by (simp add: minverse_right mmul_mident_right)
  also have "\<dots> = minverse m"
    using r by (simp add: rotation_matrix_def mmul_assoc [symmetric] mmul_mident_left)
  finally show ?thesis by simp
qed

lemma rotation_matrix_mmul:
  "rotation_matrix a \<Longrightarrow> rotation_matrix b \<Longrightarrow> rotation_matrix (mmul a b)"
proof -
  assume a: "rotation_matrix a" and b: "rotation_matrix b"
  have "mmul (mtrans (mmul a b)) (mmul a b) = mmul (mtrans b) (mmul (mmul (mtrans a) a) b)"
    by (simp add: mtrans_mmul mmul_assoc)
  also have "\<dots> = mident"
    using a b by (simp add: rotation_matrix_def mmul_mident_left)
  finally show ?thesis
    using a b by (simp add: rotation_matrix_def mdet_mmul)
qed

lemma rotation_matrix_minverse:
  "rotation_matrix a \<Longrightarrow> rotation_matrix (minverse a)"
proof -
  assume a: "rotation_matrix a"
  then have inv: "minverse a = mtrans a" by (rule rotation_minverse)
  from a have "mdet a \<noteq> 0" by (simp add: rotation_matrix_def)
  then have "mmul a (mtrans a) = mident"
    using inv minverse_right by metis
  then show ?thesis
    using a by (simp add: rotation_matrix_def inv mtrans_mtrans mdet_mtrans)
qed

lemma affine_of_rows_matrix: "affine_of_rows (affine_matrix a) = Some a"
  by (simp add: affine_matrix_def Let_def)


lemma rigid_affine_mul [intro]:
  "rigid a \<Longrightarrow> rigid b \<Longrightarrow> rigid (affine_mul a b)"
  by (simp add: rigid_def affine_mul_def rotation_matrix_mmul)

lemma rigid_affine_inverse [intro]:
  "rigid a \<Longrightarrow> rigid (affine_inverse a)"
  by (simp add: rigid_def affine_inverse_def Let_def rotation_matrix_minverse)

lemma rigid_det_nonzero [simp]:
  "rigid a \<Longrightarrow> mdet (aff_linear a) \<noteq> 0"
  by (simp add: rigid_def rotation_matrix_def)

lemma rotation_matrix_mident [simp]: "rotation_matrix mident"
  by (simp add: rotation_matrix_def mdet_mident mmul_mident_left) (simp add: eigen_defs)

lemma rigid_affine_ident [simp, intro]: "rigid affine_ident"
  by (simp add: rigid_def affine_ident_def)

lemma rigid_translation [simp]: "rigid \<lparr>aff_linear = mident, aff_translation = t\<rparr>"
  by (simp add: rigid_def)

lemmas affine_group =
  affine_mul_assoc affine_mul_ident_left affine_mul_ident_right
  affine_inverse_left affine_inverse_right

end
