(* ===== verification/AngleAxis.thy ===== *)
theory AngleAxis
  imports Geometry
begin

text \<open>
  The rotation-vector conversion of the program,
  \<open>eigenRotToEigenVector3dAngleAxis\<close> (\<open>src/src/handeye_calibration.cpp\<close>,
  lines 29--34): it builds an \<open>Eigen::AngleAxisd\<close> from a rotation matrix and
  returns \<open>angle() * axis()\<close>. Eigen builds the angle-axis through a quaternion:
  \<open>quaternion_assign_impl\<close> (Shepperd's method, two branches on the trace) and
  \<open>AngleAxis::operator=(const QuaternionBase&)\<close> (Eigen 3.3: the angle is
  \<open>2 atan2(|v|, |w|)\<close>, the axis \<open>v / |v|\<close> with the sign of \<open>w\<close>, and the
  identity quaternion gives angle \<open>0\<close> about \<open>(1,0,0)\<close>). Both library routines
  are modelled here from Eigen's code, as is \<open>std::atan2\<close>. The lemmas show that
  the zero rotation gives the zero vector (no division by zero), that the angle
  lies in \<open>[0, \<pi>]\<close>, that the returned vector has the angle as its length, and
  that the quaternion of a rotation matrix has norm 1 on every branch.
\<close>

section \<open>Quaternions\<close>

text \<open>\<open>Eigen::Quaterniond\<close>, coefficients stored in the order \<open>x, y, z, w\<close>.\<close>

record quat =
  qx :: real
  qy :: real
  qz :: real
  qw :: real

definition quat_zero :: quat where
  "quat_zero = \<lparr>qx = 0, qy = 0, qz = 0, qw = 0\<rparr>"

text \<open>\<open>q.coeffs().coeffRef(i) = c\<close> for \<open>i \<in> {0,1,2}\<close>, the vector part.\<close>

definition quat_set :: "nat \<Rightarrow> real \<Rightarrow> quat \<Rightarrow> quat" where
  "quat_set i c q = (if i = 0 then q\<lparr>qx := c\<rparr> else if i = 1 then q\<lparr>qy := c\<rparr> else q\<lparr>qz := c\<rparr>)"

definition quat_vec :: "quat \<Rightarrow> vec3" where
  "quat_vec q = \<lparr>vx = qx q, vy = qy q, vz = qz q\<rparr>"

text \<open>\<open>q.squaredNorm()\<close>.\<close>

definition quat_sqnorm :: "quat \<Rightarrow> real" where
  "quat_sqnorm q = (qx q)\<^sup>2 + (qy q)\<^sup>2 + (qz q)\<^sup>2 + (qw q)\<^sup>2"

text \<open>
  \<open>quaternion_assign_impl<Other,3,3>::run\<close>: the quaternion of a rotation matrix.
  With a positive trace the scalar part is computed first; otherwise the largest
  diagonal entry \<open>i\<close> selects which vector coefficient is computed first.
\<close>

definition quat_of_rotation :: "mat3 \<Rightarrow> quat" where
  "quat_of_rotation m = (let t = mtrace m in
     if 0 < t then
       (let t = sqrt (t + 1); w = 1/2 * t; t = 1/2 / t in
        \<lparr>qx = (e21 m - e12 m) * t, qy = (e02 m - e20 m) * t,
         qz = (e10 m - e01 m) * t, qw = w\<rparr>)
     else
       (let i = (if e00 m < e11 m then 1 else 0);
            i = (if mcoeff m i i < e22 m then 2 else i);
            j = (i + 1) mod 3;
            k = (j + 1) mod 3;
            t = sqrt (mcoeff m i i - mcoeff m j j - mcoeff m k k + 1);
            q = quat_set i (1/2 * t) quat_zero;
            t = 1/2 / t;
            q = q\<lparr>qw := (mcoeff m k j - mcoeff m j k) * t\<rparr>;
            q = quat_set j ((mcoeff m j i + mcoeff m i j) * t) q
        in quat_set k ((mcoeff m k i + mcoeff m i k) * t) q))"

section \<open>Angle-axis\<close>

text \<open>\<open>std::atan2(y, x)\<close> (signed zeros aside).\<close>

definition atan2 :: "real \<Rightarrow> real \<Rightarrow> real" where
  "atan2 y x =
     (if 0 < x then arctan (y / x)
      else if x < 0 then (if 0 \<le> y then arctan (y / x) + pi else arctan (y / x) - pi)
      else if 0 < y then pi / 2 else if y < 0 then - (pi / 2) else 0)"

record angle_axis =
  aa_angle :: real
  aa_axis :: vec3

text \<open>
  \<open>AngleAxis::operator=(const QuaternionBase&)\<close>. Eigen recomputes a norm below
  machine epsilon with \<open>stableNorm()\<close>, which is the same number in exact
  arithmetic; the branch is therefore on \<open>n \<noteq> 0\<close>.
\<close>

definition angle_axis_of_quat :: "quat \<Rightarrow> angle_axis" where
  "angle_axis_of_quat q = (let n = vnorm (quat_vec q) in
     if n \<noteq> 0 then
       \<lparr>aa_angle = 2 * atan2 n \<bar>qw q\<bar>,
        aa_axis = vscale (1 / (if qw q < 0 then - n else n)) (quat_vec q)\<rparr>
     else \<lparr>aa_angle = 0, aa_axis = \<lparr>vx = 1, vy = 0, vz = 0\<rparr>\<rparr>)"

text \<open>
  The program's helper: \<open>Eigen::AngleAxisd ax3d(eigenQuat)\<close> (a matrix argument
  goes through the quaternion constructor) and \<open>ax3d.angle() * ax3d.axis()\<close>.
\<close>

definition eigenRotToEigenVector3dAngleAxis :: "mat3 \<Rightarrow> vec3" where
  "eigenRotToEigenVector3dAngleAxis r =
     (let ax3d = angle_axis_of_quat (quat_of_rotation r) in vscale (aa_angle ax3d) (aa_axis ax3d))"

section \<open>Properties\<close>

lemma quat_of_rotation_ident: "quat_of_rotation mident = \<lparr>qx = 0, qy = 0, qz = 0, qw = 1\<rparr>"
proof -
  have "sqrt (mtrace mident + 1) = 2"
    by (simp add: mtrace_def eigen_defs)
  then show ?thesis
    by (simp add: quat_of_rotation_def mtrace_def eigen_defs Let_def)
qed

lemma atan2_nonneg_bounds:
  assumes "0 < y" and "0 \<le> x"
  shows "0 < atan2 y x \<and> atan2 y x \<le> pi / 2"
  using assms arctan_ubound [of "y / x"] by (auto simp: atan2_def less_eq_real_def)

lemma vnorm_nonneg [simp]: "0 \<le> vnorm v"
  by (simp add: vnorm_def vsqnorm_def)

lemma vnorm_vscale: "vnorm (vscale c v) = \<bar>c\<bar> * vnorm v"
proof -
  have "vsqnorm (vscale c v) = c\<^sup>2 * vsqnorm v"
    by (simp add: vsqnorm_def vscale_def power2_eq_square algebra_simps)
  then show ?thesis
    by (simp add: vnorm_def real_sqrt_mult)
qed

lemma angle_axis_of_quat_angle_bounds:
  "0 \<le> aa_angle (angle_axis_of_quat q) \<and> aa_angle (angle_axis_of_quat q) \<le> pi"
proof (cases "vnorm (quat_vec q) = 0")
  case True
  then show ?thesis by (simp add: angle_axis_of_quat_def)
next
  case False
  then have "0 < vnorm (quat_vec q)"
    using vnorm_nonneg [of "quat_vec q"] by linarith
  then have "0 < atan2 (vnorm (quat_vec q)) \<bar>qw q\<bar> \<and> atan2 (vnorm (quat_vec q)) \<bar>qw q\<bar> \<le> pi / 2"
    by (intro atan2_nonneg_bounds) simp_all
  with False show ?thesis
    by (simp add: angle_axis_of_quat_def Let_def)
qed

lemma angle_axis_of_quat_vector_norm:
  "vnorm (vscale (aa_angle (angle_axis_of_quat q)) (aa_axis (angle_axis_of_quat q)))
     = aa_angle (angle_axis_of_quat q)"
proof (cases "vnorm (quat_vec q) = 0")
  case True
  then show ?thesis by (simp add: angle_axis_of_quat_def vnorm_vscale)
next
  case False
  have a: "0 \<le> aa_angle (angle_axis_of_quat q)"
    using angle_axis_of_quat_angle_bounds by blast
  have "vnorm (aa_axis (angle_axis_of_quat q)) = 1"
    using False by (simp add: angle_axis_of_quat_def Let_def vnorm_vscale)
  then show ?thesis
    using a by (simp add: vnorm_vscale)
qed

lemma eigenRot_mident: "eigenRotToEigenVector3dAngleAxis mident = vzero"
proof -
  have "angle_axis_of_quat (quat_of_rotation mident) = \<lparr>aa_angle = 0, aa_axis = \<lparr>vx = 1, vy = 0, vz = 0\<rparr>\<rparr>"
    by (simp add: quat_of_rotation_ident angle_axis_of_quat_def quat_vec_def vnorm_def vsqnorm_def)
  then show ?thesis
    by (simp add: eigenRotToEigenVector3dAngleAxis_def vscale_def vzero_def)
qed

subsection \<open>Unit quaternions of rotations\<close>

text \<open>
  For a rotation matrix, Shepperd's method yields a unit quaternion on each of its
  four branches. The proof uses two facts of rotation matrices, that each entry
  equals its cofactor (the inverse is the transpose and the determinant is 1) and
  that the squares of the entries sum to 3, from which the polynomial identities
  below follow (by \<open>algebra\<close>, Groebner bases over the reals).
\<close>

lemma shepperd_scalar_identity:
  fixes a b c p p' q q' r r' :: real
  assumes "a = b * c - p * p'" "b = c * a - r' * r" "c = a * b - q * q'"
    and "a\<^sup>2 + b\<^sup>2 + c\<^sup>2 + p\<^sup>2 + p'\<^sup>2 + q\<^sup>2 + q'\<^sup>2 + r\<^sup>2 + r'\<^sup>2 = 3"
  shows "(1 + a + b + c)\<^sup>2 + (p' - p)\<^sup>2 + (r - r')\<^sup>2 + (q' - q)\<^sup>2 = 4 * (1 + a + b + c)"
  using assms by algebra

lemma shepperd_vector_identity:
  fixes a b c p p' q q' r r' :: real
  assumes "a = b * c - p * p'" "b = c * a - r' * r" "c = a * b - q * q'"
    and "a\<^sup>2 + b\<^sup>2 + c\<^sup>2 + p\<^sup>2 + p'\<^sup>2 + q\<^sup>2 + q'\<^sup>2 + r\<^sup>2 + r'\<^sup>2 = 3"
  shows "(a - b - c + 1)\<^sup>2 + (p' - p)\<^sup>2 + (q' + q)\<^sup>2 + (r' + r)\<^sup>2 = 4 * (a - b - c + 1)"
  using assms by algebra

lemma shepperd_unit:
  fixes x u v w :: real
  assumes "0 < x" and "x\<^sup>2 + u\<^sup>2 + v\<^sup>2 + w\<^sup>2 = 4 * x"
  shows "(1 / 2 * sqrt x)\<^sup>2 + (u * (1 / 2 / sqrt x))\<^sup>2 + (v * (1 / 2 / sqrt x))\<^sup>2
         + (w * (1 / 2 / sqrt x))\<^sup>2 = 1"
proof -
  have s: "(sqrt x)\<^sup>2 = x" "sqrt x \<noteq> 0" using assms(1) by simp_all
  have "(1 / 2 * sqrt x)\<^sup>2 + (u * (1 / 2 / sqrt x))\<^sup>2 + (v * (1 / 2 / sqrt x))\<^sup>2
         + (w * (1 / 2 / sqrt x))\<^sup>2 = (x\<^sup>2 + u\<^sup>2 + v\<^sup>2 + w\<^sup>2) / (4 * x)"
    using s assms(1) by (simp add: power_mult_distrib power_divide field_simps power2_eq_square)
  then show ?thesis using assms by simp
qed

lemma rotation_cofactor_matrix:
  assumes "rotation_matrix m"
  shows "cofactor_matrix m = m"
proof -
  have "mdet m = 1" using assms by (simp add: rotation_matrix_def)
  then have "minverse m = mtrans (cofactor_matrix m)"
    by (simp add: minverse_def mscale_one)
  then have "mtrans (cofactor_matrix m) = mtrans m"
    using rotation_minverse [OF assms] by simp
  then show ?thesis using mtrans_mtrans by metis
qed

lemma rotation_diagonal_cofactors:
  assumes "rotation_matrix m"
  shows "e00 m = e11 m * e22 m - e12 m * e21 m"
    and "e11 m = e22 m * e00 m - e20 m * e02 m"
    and "e22 m = e00 m * e11 m - e01 m * e10 m"
  using arg_cong [OF rotation_cofactor_matrix [OF assms], of e00]
    arg_cong [OF rotation_cofactor_matrix [OF assms], of e11]
    arg_cong [OF rotation_cofactor_matrix [OF assms], of e22]
  by (simp_all add: cofactor_matrix_def cofactor3_def mcoeff_def)

lemma rotation_sum_squares:
  assumes "rotation_matrix m"
  shows "(e00 m)\<^sup>2 + (e11 m)\<^sup>2 + (e22 m)\<^sup>2 + (e12 m)\<^sup>2 + (e21 m)\<^sup>2 + (e01 m)\<^sup>2 + (e10 m)\<^sup>2
         + (e02 m)\<^sup>2 + (e20 m)\<^sup>2 = 3"
proof -
  have "mmul (mtrans m) m = mident" using assms by (simp add: rotation_matrix_def)
  then have "e00 (mmul (mtrans m) m) = 1" "e11 (mmul (mtrans m) m) = 1" "e22 (mmul (mtrans m) m) = 1"
    by (simp_all add: eigen_defs)
  then show ?thesis by (simp add: eigen_defs power2_eq_square)
qed

lemma quat_sqnorm_wxyz: "quat_sqnorm q = (qw q)\<^sup>2 + (qx q)\<^sup>2 + (qy q)\<^sup>2 + (qz q)\<^sup>2"
  by (simp add: quat_sqnorm_def)

lemma quat_sqnorm_xwyz: "quat_sqnorm q = (qx q)\<^sup>2 + (qw q)\<^sup>2 + (qy q)\<^sup>2 + (qz q)\<^sup>2"
  by (simp add: quat_sqnorm_def)

lemma quat_sqnorm_ywzx: "quat_sqnorm q = (qy q)\<^sup>2 + (qw q)\<^sup>2 + (qz q)\<^sup>2 + (qx q)\<^sup>2"
  by (simp add: quat_sqnorm_def)

lemma quat_sqnorm_zwxy: "quat_sqnorm q = (qz q)\<^sup>2 + (qw q)\<^sup>2 + (qx q)\<^sup>2 + (qy q)\<^sup>2"
  by (simp add: quat_sqnorm_def)

text \<open>The three branches of Shepperd's method where the trace is not positive.\<close>

lemma quat_of_rotation_unit_nonpos:
  assumes r: "rotation_matrix m" and nonpos: "\<not> 0 < mtrace m"
  shows "quat_sqnorm (quat_of_rotation m) = 1"
proof -
  note cof = rotation_diagonal_cofactors [OF r]
  have sq: "(e00 m)\<^sup>2 + (e11 m)\<^sup>2 + (e22 m)\<^sup>2 + (e12 m)\<^sup>2 + (e21 m)\<^sup>2 + (e01 m)\<^sup>2 + (e10 m)\<^sup>2
         + (e02 m)\<^sup>2 + (e20 m)\<^sup>2 = 3" using rotation_sum_squares [OF r] .
  have t: "e00 m + e11 m + e22 m \<le> 0" using nonpos by (simp add: mtrace_def)
  have sq1: "(e11 m)\<^sup>2 + (e22 m)\<^sup>2 + (e00 m)\<^sup>2 + (e20 m)\<^sup>2 + (e02 m)\<^sup>2 + (e12 m)\<^sup>2 + (e21 m)\<^sup>2
       + (e10 m)\<^sup>2 + (e01 m)\<^sup>2 = 3" using sq by linarith
  have sq2: "(e22 m)\<^sup>2 + (e00 m)\<^sup>2 + (e11 m)\<^sup>2 + (e01 m)\<^sup>2 + (e10 m)\<^sup>2 + (e20 m)\<^sup>2 + (e02 m)\<^sup>2
       + (e21 m)\<^sup>2 + (e12 m)\<^sup>2 = 3" using sq by linarith
  note id0 = shepperd_vector_identity [OF cof sq]
  note id1 = shepperd_vector_identity [OF cof(2) cof(3) cof(1) sq1]
  note id2 = shepperd_vector_identity [OF cof(3) cof(1) cof(2) sq2]
  consider "\<not> e00 m < e11 m" "\<not> e00 m < e22 m" | "e00 m < e11 m" "\<not> e11 m < e22 m"
    | "e00 m < e11 m" "e11 m < e22 m" | "\<not> e00 m < e11 m" "e00 m < e22 m" by blast
  then show ?thesis
  proof cases
    case 1
    have "0 < e00 m - e11 m - e22 m + 1" using 1 t by linarith
    from shepperd_unit [OF this id0] nonpos 1 show ?thesis
      by (simp add: quat_sqnorm_xwyz quat_of_rotation_def Let_def quat_set_def quat_zero_def mcoeff_def)
  next
    case 2
    have "0 < e11 m - e22 m - e00 m + 1" using 2 t by linarith
    from shepperd_unit [OF this id1] nonpos 2 show ?thesis
      by (simp add: quat_sqnorm_ywzx quat_of_rotation_def Let_def quat_set_def quat_zero_def mcoeff_def)
  next
    case 3
    have "0 < e22 m - e00 m - e11 m + 1" using 3 t by linarith
    from shepperd_unit [OF this id2] nonpos 3 show ?thesis
      by (simp add: quat_sqnorm_zwxy quat_of_rotation_def Let_def quat_set_def quat_zero_def mcoeff_def)
  next
    case 4
    have "0 < e22 m - e00 m - e11 m + 1" using 4 t by linarith
    from shepperd_unit [OF this id2] nonpos 4 show ?thesis
      by (simp add: quat_sqnorm_zwxy quat_of_rotation_def Let_def quat_set_def quat_zero_def mcoeff_def)
  qed
qed

lemma quat_of_rotation_unit:
  assumes "rotation_matrix m"
  shows "quat_sqnorm (quat_of_rotation m) = 1"
proof -
  note cof = rotation_diagonal_cofactors [OF assms]
  have sq: "(e00 m)\<^sup>2 + (e11 m)\<^sup>2 + (e22 m)\<^sup>2 + (e12 m)\<^sup>2 + (e21 m)\<^sup>2 + (e01 m)\<^sup>2 + (e10 m)\<^sup>2
         + (e02 m)\<^sup>2 + (e20 m)\<^sup>2 = 3" using rotation_sum_squares [OF assms] .
  show ?thesis
  proof (cases "0 < mtrace m")
    case True
    have id: "(mtrace m + 1)\<^sup>2 + (e21 m - e12 m)\<^sup>2 + (e02 m - e20 m)\<^sup>2 + (e10 m - e01 m)\<^sup>2 = 4 * (mtrace m + 1)"
      using shepperd_scalar_identity [OF cof sq] by (simp add: mtrace_def add.commute add.left_commute)
    have "0 < mtrace m + 1" using True by simp
    from shepperd_unit [OF this id] True show ?thesis
      by (simp add: quat_sqnorm_wxyz quat_of_rotation_def Let_def)
  next
    case False
    then show ?thesis using quat_of_rotation_unit_nonpos [OF assms] by blast
  qed
qed

text \<open>
  C15. For every input matrix the rotation vector returned by
  \<open>eigenRotToEigenVector3dAngleAxis\<close> has the Eigen angle as its length, and
  that length lies in \<open>[0, \<pi>]\<close>; in particular the conversion never divides by
  zero into an unbounded vector.
\<close>

theorem rotation_vector_length_bounds:
  "vnorm (eigenRotToEigenVector3dAngleAxis m) = aa_angle (angle_axis_of_quat (quat_of_rotation m))
   \<and> 0 \<le> vnorm (eigenRotToEigenVector3dAngleAxis m) \<and> vnorm (eigenRotToEigenVector3dAngleAxis m) \<le> pi"
  using angle_axis_of_quat_vector_norm [of "quat_of_rotation m"]
    angle_axis_of_quat_angle_bounds [of "quat_of_rotation m"]
  by (simp add: eigenRotToEigenVector3dAngleAxis_def Let_def)

end
