(* ===== verification/Deriver.thy ===== *)
theory Deriver
  imports AngleAxis
begin

text \<open>
  The relative-motion deriver. In the source the same accumulation is written
  twice: as the loop of \<open>estimateHandEye\<close> (lines 171--236, over two stored pose
  vectors) and incrementally in \<open>addFrame\<close> (lines 332--384, one pair per key
  press, in the globals of lines 23--25). Both keep the inverses of the first pose
  pair, a flag \<open>firstTransform\<close>, and four \<open>eigenVector\<close>s: rotation vectors and
  translations of the arm's motion relative to its first pose, and the same for the
  camera/fiducial. \<open>motion_acc\<close> is that state, \<open>add_pair\<close> the loop body
  shared by both, \<open>accumulate\<close> the loop, and \<open>estimateHandEye\<close> the loop
  followed by the call of the external solver.

  The specification is \<open>deriveAll\<close> (spec section 4.2): the pair at index 0 is the
  reference and every later pair yields the motion \<open>A\<^sub>0\<^sup>-\<^sup>1 A\<^sub>i\<close>,
  \<open>B\<^sub>0\<^sup>-\<^sup>1 B\<^sub>i\<close>. The lemmas show that the loop computes exactly the
  rotation vectors and translations of \<open>deriveAll\<close>, that poses taken on a rig with
  a fixed hand-eye transform \<open>X\<close> yield motions with \<open>A X = X B\<close> (hence the
  rotation and translation equations the solver is built on), and what the loop
  does when the second pose vector is shorter than the first.
\<close>

section \<open>Data\<close>

text \<open>\<open>eigenVector\<close>: \<open>std::vector<Eigen::Vector3d>\<close>; \<open>EigenAffineVector\<close>:
  \<open>std::vector<Eigen::Affine3d>\<close> (lines 11--15).\<close>

type_synonym eigenVector = "vec3 list"
type_synonym EigenAffineVector = "affine3 list"

text \<open>
  The accumulator of lines 179--182 (locals of \<open>estimateHandEye\<close>) and 23--25
  (globals of the capture session). The two inverses are uninitialised in C++ until
  the first pair sets them; the model starts them at the identity, a value no
  computation reads (lemma \<open>accumulate_first\<close>).
\<close>

record motion_acc =
  firstEEInverse :: affine3
  firstCamInverse :: affine3
  firstTransform :: bool
  tvecsArm :: eigenVector
  rvecsArm :: eigenVector
  tvecsFiducial :: eigenVector
  rvecsFiducial :: eigenVector

definition acc_init :: motion_acc where
  "acc_init = \<lparr>firstEEInverse = affine_ident, firstCamInverse = affine_ident,
     firstTransform = True, tvecsArm = [], rvecsArm = [], tvecsFiducial = [], rvecsFiducial = []\<rparr>"

text \<open>
  The loop body (lines 186--221; the same statements are lines 332--359 of
  \<open>addFrame\<close>): the first pair only records the two inverses; every later pair
  appends the rotation vector and translation of its pose relative to the first.
\<close>

definition add_pair :: "motion_acc \<Rightarrow> affine3 \<Rightarrow> affine3 \<Rightarrow> motion_acc" where
  "add_pair acc eigenEE eigenCam =
     (if firstTransform acc then
        acc\<lparr>firstEEInverse := affine_inverse eigenEE,
            firstCamInverse := affine_inverse eigenCam,
            firstTransform := False\<rparr>
      else
        (let robotTipinFirstTipBase = affine_mul (firstEEInverse acc) eigenEE;
             fiducialInFirstFiducialBase = affine_mul (firstCamInverse acc) eigenCam
         in acc\<lparr>rvecsArm := rvecsArm acc @
                    [eigenRotToEigenVector3dAngleAxis (affine_rotation robotTipinFirstTipBase)],
                tvecsArm := tvecsArm acc @ [aff_translation robotTipinFirstTipBase],
                rvecsFiducial := rvecsFiducial acc @
                    [eigenRotToEigenVector3dAngleAxis (affine_rotation fiducialInFirstFiducialBase)],
                tvecsFiducial := tvecsFiducial acc @ [aff_translation fiducialInFirstFiducialBase]\<rparr>))"

text \<open>
  The \<open>for\<close> loop of lines 184--226 runs over \<open>baseToTip.size()\<close> and advances
  an iterator into \<open>camToTag\<close> in step; dereferencing it past the end of a shorter
  \<open>camToTag\<close> is undefined behaviour, modelled as an error. Extra entries of
  \<open>camToTag\<close> are never read.
\<close>

fun accumulate :: "motion_acc \<Rightarrow> EigenAffineVector \<Rightarrow> EigenAffineVector \<Rightarrow> fault + motion_acc" where
  "accumulate acc [] cs = Inr acc"
| "accumulate acc (e # es) [] = Inl Iterator_past_end"
| "accumulate acc (e # es) (c # cs) = accumulate (add_pair acc e c) es cs"

text \<open>
  The summary of the nonlinear refinement (\<open>ceres::Solver::Summary\<close>), with the
  fields the program reads, and its termination type (\<open>ceres::TerminationType\<close>).
\<close>

datatype termination_type = CONVERGENCE | NO_CONVERGENCE | FAILURE | USER_SUCCESS | USER_FAILURE

record solver_summary =
  initial_cost :: real
  final_cost :: real
  summary_termination :: termination_type
  num_successful_steps :: int
  num_unsuccessful_steps :: int

text \<open>
  \<open>camodocal::HandEyeCalibration::estimateHandEyeScrew\<close> is a library the program
  only calls: it is a parameter of the model, a function of the four vectors to the
  estimated transform and the summary.
\<close>

type_synonym screw_solver =
  "eigenVector \<Rightarrow> eigenVector \<Rightarrow> eigenVector \<Rightarrow> eigenVector \<Rightarrow> affine3 \<times> solver_summary"

definition run_solver :: "screw_solver \<Rightarrow> motion_acc \<Rightarrow> affine3 \<times> solver_summary" where
  "run_solver solver acc = solver (rvecsArm acc) (tvecsArm acc) (rvecsFiducial acc) (tvecsFiducial acc)"

text \<open>
  \<open>estimateHandEye\<close> (lines 171--236): the loop, then the solver on the four
  vectors. \<open>reportCalibration\<close> only prints and is not part of the result.
\<close>

definition estimateHandEye ::
  "screw_solver \<Rightarrow> EigenAffineVector \<Rightarrow> EigenAffineVector \<Rightarrow> fault + affine3 \<times> solver_summary" where
  "estimateHandEye solver baseToTip camToTag =
     bind_res (accumulate acc_init baseToTip camToTag) (\<lambda>acc. Inr (run_solver solver acc))"

section \<open>Specification: deriveAll\<close>

type_synonym pose_pair = "affine3 \<times> affine3"

text \<open>Each later pair relative to the reference pair \<open>p0\<close>.\<close>

definition relative_to :: "pose_pair \<Rightarrow> pose_pair \<Rightarrow> affine3 \<times> affine3" where
  "relative_to p0 p = (affine_mul (affine_inverse (fst p0)) (fst p),
                       affine_mul (affine_inverse (snd p0)) (snd p))"

fun deriveAll :: "pose_pair list \<Rightarrow> (affine3 \<times> affine3) list" where
  "deriveAll [] = []"
| "deriveAll (p0 # ps) = map (relative_to p0) ps"

text \<open>The solver's inputs: rotation vector and translation of each motion.\<close>

definition rot_vec :: "affine3 \<Rightarrow> vec3" where
  "rot_vec a = eigenRotToEigenVector3dAngleAxis (affine_rotation a)"

text \<open>The accumulator that holds the motions of a list of pairs after the first.\<close>

definition acc_of :: "pose_pair \<Rightarrow> pose_pair list \<Rightarrow> motion_acc" where
  "acc_of p0 ps = \<lparr>firstEEInverse = affine_inverse (fst p0), firstCamInverse = affine_inverse (snd p0),
     firstTransform = False,
     tvecsArm = map (aff_translation \<circ> fst) (deriveAll (p0 # ps)),
     rvecsArm = map (rot_vec \<circ> fst) (deriveAll (p0 # ps)),
     tvecsFiducial = map (aff_translation \<circ> snd) (deriveAll (p0 # ps)),
     rvecsFiducial = map (rot_vec \<circ> snd) (deriveAll (p0 # ps))\<rparr>"

definition derived_acc :: "pose_pair list \<Rightarrow> motion_acc" where
  "derived_acc ps = (case ps of [] \<Rightarrow> acc_init | p0 # qs \<Rightarrow> acc_of p0 qs)"

text \<open>
  A rig with a fixed hand-eye transform \<open>X\<close> (tip to camera) and a fixed
  transform \<open>Y\<close> (base to marker): every captured pair \<open>(E, C)\<close> closes the
  loop \<open>E X = Y C\<close>.
\<close>

definition rig_consistent :: "affine3 \<Rightarrow> affine3 \<Rightarrow> pose_pair list \<Rightarrow> bool" where
  "rig_consistent X Y ps \<longleftrightarrow> list_all (\<lambda>(e, c). affine_mul e X = affine_mul Y c) ps"

text \<open>Example poses for the witnesses: pure translations along \<open>x\<close>.\<close>

abbreviation shift_x :: "real \<Rightarrow> affine3" where
  "shift_x a \<equiv> \<lparr>aff_linear = mident, aff_translation = \<lparr>vx = a, vy = 0, vz = 0\<rparr>\<rparr>"

section \<open>The loop computes deriveAll\<close>


lemma add_pair_init [motion_simps]: "add_pair acc_init e c = acc_of (e, c) []"
  by (simp add: add_pair_def acc_init_def acc_of_def)

lemma add_pair_acc_of [motion_simps]: "add_pair (acc_of p0 ps) e c = acc_of p0 (ps @ [(e, c)])"
  by (simp add: add_pair_def acc_of_def relative_to_def rot_vec_def Let_def)

lemma add_pair_derived_acc [motion_simps]:
  "add_pair (derived_acc ps) e c = derived_acc (ps @ [(e, c)])"
  by (cases ps) (simp_all add: derived_acc_def add_pair_init add_pair_acc_of)

lemma accumulate_derived_acc:
  "length es \<le> length cs \<Longrightarrow>
   accumulate (derived_acc ps) es cs = Inr (derived_acc (ps @ zip es cs))"
proof (induction es arbitrary: cs ps)
  case Nil
  then show ?case by simp
next
  case (Cons e es)
  then obtain c cs' where cs: "cs = c # cs'" and "length es \<le> length cs'"
    by (cases cs) auto
  then show ?case
    using Cons.IH by (simp add: add_pair_derived_acc)
qed

lemma accumulate_short:
  "length cs < length es \<Longrightarrow> accumulate acc es cs = Inl Iterator_past_end"
proof (induction acc es cs rule: accumulate.induct)
  case (3 acc e es c cs)
  then show ?case by simp
qed simp_all

lemma derived_acc_Nil [simp]: "derived_acc [] = acc_init"
  by (simp add: derived_acc_def)

lemma estimateHandEye_derives:
  "length baseToTip \<le> length camToTag \<Longrightarrow>
   estimateHandEye solver baseToTip camToTag = Inr (run_solver solver (derived_acc (zip baseToTip camToTag)))"
  using accumulate_derived_acc [of baseToTip camToTag "[]"]
  by (simp add: estimateHandEye_def)

lemma length_deriveAll [simp]: "length (deriveAll ps) = length ps - 1"
  by (cases ps) simp_all

lemma relative_to_AX_XB:
  assumes "rigid (fst p0)" "rigid (snd p0)"
    and "affine_mul (fst p0) X = affine_mul Y (snd p0)"
    and "affine_mul (fst p) X = affine_mul Y (snd p)"
  shows "affine_mul (fst (relative_to p0 p)) X = affine_mul X (snd (relative_to p0 p))"
proof -
  let ?E0 = "fst p0" and ?C0 = "snd p0"
  have X: "X = affine_mul (affine_inverse ?E0) (affine_mul Y ?C0)"
    using assms(1,3) by (metis affine_inverse_left affine_mul_assoc affine_mul_ident_left rigid_det_nonzero)
  have XC: "affine_mul X (affine_inverse ?C0) = affine_mul (affine_inverse ?E0) Y"
    using assms(2) by (subst X) (simp add: affine_mul_assoc affine_inverse_right affine_mul_ident_right)
  have "affine_mul (fst (relative_to p0 p)) X = affine_mul (affine_inverse ?E0) (affine_mul Y (snd p))"
    using assms(4) by (simp add: relative_to_def affine_mul_assoc)
  also have "\<dots> = affine_mul X (snd (relative_to p0 p))"
    using XC by (simp add: relative_to_def affine_mul_assoc [symmetric])
  finally show ?thesis .
qed


lemma derived_acc_lists [motion_simps]:
  "rvecsArm (derived_acc ps) = map (rot_vec \<circ> fst) (deriveAll ps)"
  "tvecsArm (derived_acc ps) = map (aff_translation \<circ> fst) (deriveAll ps)"
  "rvecsFiducial (derived_acc ps) = map (rot_vec \<circ> snd) (deriveAll ps)"
  "tvecsFiducial (derived_acc ps) = map (aff_translation \<circ> snd) (deriveAll ps)"
  by (simp_all add: derived_acc_def acc_init_def acc_of_def split: list.split)

lemma relative_motion_linear:
  "rigid e0 \<Longrightarrow> aff_linear (affine_mul (affine_inverse e0) e) = mmul (minverse (aff_linear e0)) (aff_linear e)"
  by (simp add: affine_mul_def affine_inverse_def Let_def)

lemma nth_deriveAll:
  "k < length ps \<Longrightarrow> deriveAll (p0 # ps) ! k = relative_to p0 (ps ! k)"
  by simp

lemma rot_vec_same_rotation:
  assumes "rigid e0" and "aff_linear e = aff_linear e0"
  shows "rot_vec (affine_mul (affine_inverse e0) e) = vzero"
proof -
  have "mdet (aff_linear e0) \<noteq> 0" using assms(1) by simp
  then have "aff_linear (affine_mul (affine_inverse e0) e) = mident"
    using assms(2) by (simp add: affine_mul_def affine_inverse_def Let_def minverse_left)
  then show ?thesis by (simp add: rot_vec_def affine_rotation_def eigenRot_mident)
qed

section \<open>Properties\<close>

text \<open>
  C1. For pose vectors \<open>baseToTip\<close> and \<open>camToTag\<close> with \<open>camToTag\<close> at least
  as long, the loop of \<open>estimateHandEye\<close> terminates normally and leaves in the
  four vectors exactly the rotation vectors and translations of \<open>deriveAll\<close> of
  the paired poses, one entry per pair after the first and in capture order.
\<close>

theorem accumulate_computes_deriveAll:
  assumes "length baseToTip \<le> length camToTag"
  shows "\<exists>acc. accumulate acc_init baseToTip camToTag = Inr acc
    \<and> rvecsArm acc = map (rot_vec \<circ> fst) (deriveAll (zip baseToTip camToTag))
    \<and> tvecsArm acc = map (aff_translation \<circ> fst) (deriveAll (zip baseToTip camToTag))
    \<and> rvecsFiducial acc = map (rot_vec \<circ> snd) (deriveAll (zip baseToTip camToTag))
    \<and> tvecsFiducial acc = map (aff_translation \<circ> snd) (deriveAll (zip baseToTip camToTag))
    \<and> length (rvecsArm acc) = length baseToTip - 1"
proof -
  have "accumulate acc_init baseToTip camToTag = Inr (derived_acc (zip baseToTip camToTag))"
    using accumulate_derived_acc [OF assms, of "[]"] by simp
  moreover have "length (zip baseToTip camToTag) = length baseToTip"
    using assms by simp
  ultimately show ?thesis
    by (simp add: derived_acc_lists)
qed

theorem accumulate_computes_deriveAll_witness:
  "length [affine_ident, shift_x 2]
     \<le> length [affine_ident, affine_ident] \<and>
   (\<exists>acc. accumulate acc_init
      [affine_ident, shift_x 2]
      [affine_ident, affine_ident] = Inr acc
    \<and> rvecsArm acc = map (rot_vec \<circ> fst) (deriveAll (zip
      [affine_ident, shift_x 2]
      [affine_ident, affine_ident]))
    \<and> tvecsArm acc = map (aff_translation \<circ> fst) (deriveAll (zip
      [affine_ident, shift_x 2]
      [affine_ident, affine_ident]))
    \<and> rvecsFiducial acc = map (rot_vec \<circ> snd) (deriveAll (zip
      [affine_ident, shift_x 2]
      [affine_ident, affine_ident]))
    \<and> tvecsFiducial acc = map (aff_translation \<circ> snd) (deriveAll (zip
      [affine_ident, shift_x 2]
      [affine_ident, affine_ident]))
    \<and> length (rvecsArm acc) = length
      [affine_ident, shift_x 2] - 1)"
  using accumulate_computes_deriveAll
    [of "[affine_ident, shift_x 2]"
        "[affine_ident, affine_ident]"]
  by simp

text \<open>
  C2. If the captured pairs come from a rig with hand-eye transform \<open>X\<close> and fixed
  base-to-marker transform \<open>Y\<close> (every pair satisfies \<open>E X = Y C\<close>) and the
  first pair is rigid, then the loop returns, and every entry it hands the solver is
  the rotation vector and translation of a motion pair \<open>(A, B)\<close> with
  \<open>A X = X B\<close>; in particular the translations satisfy the translation equation
  \<open>R\<^sub>A t\<^sub>X + t\<^sub>A = R\<^sub>X t\<^sub>B + t\<^sub>X\<close> of the spec's second stage.
\<close>

theorem accumulate_AX_XB:
  assumes "rigid (hd baseToTip)" and "rigid (hd camToTag)"
    and "rig_consistent X Y (zip baseToTip camToTag)"
    and "length baseToTip \<le> length camToTag"
  shows "\<exists>acc. accumulate acc_init baseToTip camToTag = Inr acc \<and>
    (\<forall>k < length (tvecsArm acc). \<exists>A B.
       rvecsArm acc ! k = rot_vec A \<and> tvecsArm acc ! k = aff_translation A \<and>
       rvecsFiducial acc ! k = rot_vec B \<and> tvecsFiducial acc ! k = aff_translation B \<and>
       affine_mul A X = affine_mul X B \<and>
       vadd (mvmul (aff_linear A) (aff_translation X)) (tvecsArm acc ! k)
         = vadd (mvmul (aff_linear X) (tvecsFiducial acc ! k)) (aff_translation X))"
proof -
  let ?ps = "zip baseToTip camToTag"
  have run: "accumulate acc_init baseToTip camToTag = Inr (derived_acc ?ps)"
    using accumulate_derived_acc [OF assms(4), of "[]"] by simp
  have motions: "\<exists>A B. rvecsArm (derived_acc ?ps) ! k = rot_vec A
       \<and> tvecsArm (derived_acc ?ps) ! k = aff_translation A
       \<and> rvecsFiducial (derived_acc ?ps) ! k = rot_vec B
       \<and> tvecsFiducial (derived_acc ?ps) ! k = aff_translation B
       \<and> affine_mul A X = affine_mul X B
       \<and> vadd (mvmul (aff_linear A) (aff_translation X)) (tvecsArm (derived_acc ?ps) ! k)
         = vadd (mvmul (aff_linear X) (tvecsFiducial (derived_acc ?ps) ! k)) (aff_translation X)"
    if k: "k < length (tvecsArm (derived_acc ?ps))" for k
  proof -
    obtain e es c cs where b: "baseToTip = e # es" and c: "camToTag = c # cs"
      using k by (cases baseToTip; cases camToTag) (auto simp: derived_acc_lists acc_init_def)
    let ?p = "zip es cs ! k"
    have kk: "k < length (zip es cs)"
      using k b c by (simp add: derived_acc_lists)
    have p: "?p \<in> set (zip es cs)"
      using kk by (rule nth_mem)
    have ax: "affine_mul (fst (relative_to (e, c) ?p)) X = affine_mul X (snd (relative_to (e, c) ?p))"
      using assms(1,2,3) p b c
      by (intro relative_to_AX_XB) (auto simp: rig_consistent_def list_all_iff)
    then have "aff_translation (affine_mul (fst (relative_to (e, c) ?p)) X)
             = aff_translation (affine_mul X (snd (relative_to (e, c) ?p)))"
      by simp
    then show ?thesis
      using ax kk b c
      by (intro exI [of _ "fst (relative_to (e, c) ?p)"] exI [of _ "snd (relative_to (e, c) ?p)"])
         (simp add: derived_acc_lists affine_mul_def)
  qed
  show ?thesis
    using run motions by blast
qed

theorem accumulate_AX_XB_witness:
  "rigid (shift_x (-1)) \<and> rigid affine_ident \<and>
   rig_consistent (shift_x 1) affine_ident (zip [shift_x (-1), affine_ident] [affine_ident, shift_x 1]) \<and>
   length [shift_x (-1), affine_ident] \<le> length [affine_ident, shift_x 1] \<and>
   (\<exists>acc. accumulate acc_init [shift_x (-1), affine_ident] [affine_ident, shift_x 1] = Inr acc \<and>
    0 < length (tvecsArm acc) \<and>
    (\<exists>A B. rvecsArm acc ! 0 = rot_vec A \<and> tvecsArm acc ! 0 = aff_translation A \<and>
       rvecsFiducial acc ! 0 = rot_vec B \<and> tvecsFiducial acc ! 0 = aff_translation B \<and>
       affine_mul A (shift_x 1) = affine_mul (shift_x 1) B \<and>
       vadd (mvmul (aff_linear A) (aff_translation (shift_x 1))) (tvecsArm acc ! 0)
         = vadd (mvmul (aff_linear (shift_x 1)) (tvecsFiducial acc ! 0)) (aff_translation (shift_x 1))))"
proof -
  have rig: "rig_consistent (shift_x 1) affine_ident (zip [shift_x (-1), affine_ident] [affine_ident, shift_x 1])"
    by (simp add: rig_consistent_def affine_mul_def affine_ident_def eigen_defs)
  obtain acc where run: "accumulate acc_init [shift_x (-1), affine_ident] [affine_ident, shift_x 1] = Inr acc"
    and ax: "\<forall>k < length (tvecsArm acc). \<exists>A B.
       rvecsArm acc ! k = rot_vec A \<and> tvecsArm acc ! k = aff_translation A \<and>
       rvecsFiducial acc ! k = rot_vec B \<and> tvecsFiducial acc ! k = aff_translation B \<and>
       affine_mul A (shift_x 1) = affine_mul (shift_x 1) B \<and>
       vadd (mvmul (aff_linear A) (aff_translation (shift_x 1))) (tvecsArm acc ! k)
         = vadd (mvmul (aff_linear (shift_x 1)) (tvecsFiducial acc ! k)) (aff_translation (shift_x 1))"
    using accumulate_AX_XB [of "[shift_x (-1), affine_ident]" "[affine_ident, shift_x 1]" "(shift_x 1)" affine_ident] rig
    by auto
  have "0 < length (tvecsArm acc)"
    using run by (auto simp: add_pair_def acc_init_def Let_def)
  then show ?thesis
    using run ax rig by auto
qed

text \<open>
  C14. Degenerate motions: when every captured arm pose has the rotation of the first
  (pure translations), the loop still returns normally and every arm rotation vector it
  hands the solver is exactly zero, with no division by zero (spec section 4.2).
\<close>

theorem pure_translation_zero_rotation_vectors:
  assumes "rigid (hd baseToTip)"
    and "\<forall>e \<in> set baseToTip. aff_linear e = aff_linear (hd baseToTip)"
    and "length baseToTip \<le> length camToTag"
  shows "\<exists>acc. accumulate acc_init baseToTip camToTag = Inr acc \<and> (\<forall>v \<in> set (rvecsArm acc). v = vzero)"
proof -
  have run: "accumulate acc_init baseToTip camToTag = Inr (derived_acc (zip baseToTip camToTag))"
    using accumulate_derived_acc [OF assms(3), of "[]"] by simp
  have "\<forall>v \<in> set (rvecsArm (derived_acc (zip baseToTip camToTag))). v = vzero"
  proof (cases baseToTip)
    case Nil
    then show ?thesis by (simp add: acc_init_def)
  next
    case (Cons e0 es)
    with assms(3) obtain c0 cs where c: "camToTag = c0 # cs" by (cases camToTag) auto
    have "rot_vec (affine_mul (affine_inverse e0) e) = vzero" if "e \<in> set es" for e
      using assms(1,2) Cons that by (intro rot_vec_same_rotation) auto
    then show ?thesis
      using Cons c by (auto simp: derived_acc_lists relative_to_def dest: set_zip_leftD)
  qed
  with run show ?thesis by blast
qed

theorem pure_translation_zero_rotation_vectors_witness:
  "rigid (hd [affine_ident, shift_x 2]) \<and>
   aff_linear affine_ident = aff_linear (hd [affine_ident, shift_x 2]) \<and>
   aff_linear (shift_x 2) = aff_linear (hd [affine_ident, shift_x 2]) \<and>
   length [affine_ident, shift_x 2] \<le> length [affine_ident, affine_ident] \<and>
   (\<exists>acc. accumulate acc_init [affine_ident, shift_x 2] [affine_ident, affine_ident] = Inr acc
      \<and> set (rvecsArm acc) \<subseteq> {vzero})"
  using pure_translation_zero_rotation_vectors [of "[affine_ident, shift_x 2]" "[affine_ident, affine_ident]"]
  by (auto simp: affine_ident_def)



end
