(* ===== verification/Storage.thy ===== *)
theory Storage
  imports Deriver "HOL-Library.Word"
begin

text \<open>
  The two files of the program, written and read through \<open>cv::FileStorage\<close>:
  the pose-pair file (\<open>writeTransformPairsToFile\<close>, lines 37--74, and
  \<open>readTransformPairsFromFile\<close>, lines 77--122) and the calibration result
  (\<open>writeCalibration\<close>, lines 238--279). A file is modelled by its top-level
  mapping: the list of keys and nodes in the order they were written
  (\<open>fs_doc\<close>); the YAML text itself is not modelled (OpenCV prints a
  \<open>double\<close> with 17 significant digits, which reads back exactly). The file
  system maps names to documents and says which names can be opened for writing.
  Keys such as \<open>T1_12\<close> are built with a \<open>std::stringstream\<close>; their decimal
  rendering is modelled and shown to be injective.
\<close>

section \<open>Files\<close>

text \<open>A node: an integer, a real, or a matrix of \<open>rows \<times> cols\<close> doubles, row-major.\<close>

datatype fs_node = FInt int | FReal real | FMat nat nat "real list"

type_synonym fs_doc = "(string \<times> fs_node) list"

record file_system =
  fs_files :: "string \<rightharpoonup> fs_doc"
  fs_writable :: "string \<Rightarrow> bool"

text \<open>\<open>cv::FileStorage(filename, READ)\<close> is opened when the file exists.\<close>

definition fs_open_read :: "file_system \<Rightarrow> string \<Rightarrow> fs_doc option" where
  "fs_open_read fsys filename = fs_files fsys filename"

text \<open>
  \<open>fs.release()\<close> after writing: the file holds exactly the written entries
  (\<open>WRITE\<close> truncates).
\<close>

definition fs_store :: "file_system \<Rightarrow> string \<Rightarrow> fs_doc \<Rightarrow> file_system" where
  "fs_store fsys filename doc = fsys\<lparr>fs_files := (fs_files fsys)(filename \<mapsto> doc)\<rparr>"

section \<open>Decimal keys\<close>

text \<open>\<open>ss << i\<close> for an \<open>int\<close>: decimal digits, a minus sign when negative.\<close>

definition digit_char :: "nat \<Rightarrow> char" where
  "digit_char d = char_of (48 + d)"

fun string_of_nat :: "nat \<Rightarrow> string" where
  "string_of_nat n = (if n < 10 then [digit_char n] else string_of_nat (n div 10) @ [digit_char (n mod 10)])"

declare string_of_nat.simps [simp del]

definition string_of_int :: "int \<Rightarrow> string" where
  "string_of_int i = (if 0 \<le> i then string_of_nat (nat i) else CHR ''-'' # string_of_nat (nat (- i)))"

text \<open>The keys of pair \<open>i\<close> (lines 58--64 and 95--107).\<close>

definition key_T1 :: "int \<Rightarrow> string" where
  "key_T1 i = ''T1_'' @ string_of_int i"

definition key_T2 :: "int \<Rightarrow> string" where
  "key_T2 i = ''T2_'' @ string_of_int i"

text \<open>Reading digits back, the inverse of \<open>string_of_nat\<close>.\<close>

definition nat_of_digits :: "string \<Rightarrow> nat" where
  "nat_of_digits s = foldl (\<lambda>acc c. 10 * acc + (of_char c - 48)) 0 s"

section \<open>The pose-pair file\<close>

text \<open>
  \<open>int frameCount = t1.size()\<close> (line 43): the \<open>size_t\<close> is narrowed to a 32-bit
  \<open>int\<close>, modulo \<open>2\<^sup>3\<^sup>2\<close>.
\<close>

definition int_of_size :: "nat \<Rightarrow> int" where
  "int_of_size n = sint (word_of_nat n :: 32 word)"

text \<open>\<open>cv::eigen2cv(t.matrix(), tcv)\<close>: a \<open>4\<times>4\<close> node.\<close>

definition mat_node :: "affine3 \<Rightarrow> fs_node" where
  "mat_node a = FMat 4 4 (concat (affine_matrix a))"

text \<open>
  The loop of lines 51--65, from index \<open>i\<close>: two entries per pair. The iterator
  into \<open>t2\<close> advances with the one into \<open>t1\<close>; a shorter \<open>t2\<close> is read past its
  end.
\<close>

fun write_pairs :: "int \<Rightarrow> EigenAffineVector \<Rightarrow> EigenAffineVector \<Rightarrow> fault + fs_doc" where
  "write_pairs i [] t2 = Inr []"
| "write_pairs i (a # t1) [] = Inl Iterator_past_end"
| "write_pairs i (a # t1) (b # t2) =
     bind_res (write_pairs (i + 1) t1 t2)
       (\<lambda>rest. Inr ((key_T1 i, mat_node a) # (key_T2 i, mat_node b) # rest))"

text \<open>
  \<open>writeTransformPairsToFile\<close>: returns \<open>0\<close> and the updated file system on
  success, \<open>1\<close> and the unchanged one when the file cannot be opened. The
  \<open>frameCount\<close> entry is written before the open check; an unopened
  \<open>FileStorage\<close> drops it.
\<close>

definition writeTransformPairsToFile ::
  "EigenAffineVector \<Rightarrow> EigenAffineVector \<Rightarrow> string \<Rightarrow> file_system \<Rightarrow> fault + int \<times> file_system" where
  "writeTransformPairsToFile t1 t2 filename fsys =
     (let frameCount = int_of_size (length t1) in
      if fs_writable fsys filename then
        bind_res (write_pairs 0 t1 t2)
          (\<lambda>entries. Inr (0, fs_store fsys filename ((''frameCount'', FInt frameCount) # entries)))
      else Inr (1, fsys))"

text \<open>
  \<open>fs["frameCount"] >> frameCount\<close>: an integer node; OpenCV gives the default
  \<open>0\<close> for a missing node.
\<close>

definition read_int :: "fs_doc \<Rightarrow> string \<Rightarrow> int" where
  "read_int doc key = (case map_of doc key of Some (FInt k) \<Rightarrow> k | _ \<Rightarrow> 0)"

definition rows4 :: "real list \<Rightarrow> real list list" where
  "rows4 xs = [take 4 xs, take 4 (drop 4 xs), take 4 (drop 8 xs), drop 12 xs]"

text \<open>
  \<open>fs[key] >> tcv; cv::cv2eigen(tcv, t.matrix())\<close>: a \<open>4\<times>4\<close> matrix node. A
  missing or differently shaped node leaves \<open>tcv\<close> empty or of the wrong size, which
  \<open>cv2eigen\<close> does not check; the model reports it.
\<close>

definition read_mat :: "fs_doc \<Rightarrow> string \<Rightarrow> fault + affine3" where
  "read_mat doc key =
     (case map_of doc key of
        Some (FMat r c xs) \<Rightarrow>
          (if r = 4 \<and> c = 4 \<and> length xs = 16
           then (case affine_of_rows (rows4 xs) of Some a \<Rightarrow> Inr a | None \<Rightarrow> Inl (Malformed_node key))
           else Inl (Malformed_node key))
      | Some _ \<Rightarrow> Inl (Malformed_node key)
      | None \<Rightarrow> Inl (Missing_node key))"

text \<open>The loop of lines 90--113: \<open>n\<close> pairs from index \<open>i\<close>, frame one first.\<close>

fun read_pairs :: "fs_doc \<Rightarrow> int \<Rightarrow> nat \<Rightarrow> fault + EigenAffineVector \<times> EigenAffineVector" where
  "read_pairs doc i 0 = Inr ([], [])"
| "read_pairs doc i (Suc n) =
     bind_res (read_mat doc (key_T1 i)) (\<lambda>a.
     bind_res (read_mat doc (key_T2 i)) (\<lambda>b.
     bind_res (read_pairs doc (i + 1) n) (\<lambda>(t1, t2). Inr (a # t1, b # t2))))"

text \<open>
  \<open>readTransformPairsFromFile\<close>: appends what it reads to \<open>t1\<close> and \<open>t2\<close>
  (\<open>std::back_inserter\<close>); a negative \<open>frameCount\<close> runs the loop zero times.
\<close>

definition readTransformPairsFromFile ::
  "string \<Rightarrow> EigenAffineVector \<Rightarrow> EigenAffineVector \<Rightarrow> file_system
     \<Rightarrow> fault + int \<times> EigenAffineVector \<times> EigenAffineVector" where
  "readTransformPairsFromFile filename t1 t2 fsys =
     (case fs_open_read fsys filename of
        None \<Rightarrow> Inr (1, t1, t2)
      | Some doc \<Rightarrow>
          (let frameCount = read_int doc ''frameCount'' in
           bind_res (read_pairs doc 0 (nat frameCount))
             (\<lambda>(r1, r2). Inr (0, t1 @ r1, t2 @ r2))))"

section \<open>The calibration result file\<close>

text \<open>\<open>ceres::TerminationType\<close> is written as its enumerator value.\<close>

fun termination_code :: "termination_type \<Rightarrow> int" where
  "termination_code CONVERGENCE = 0"
| "termination_code NO_CONVERGENCE = 1"
| "termination_code FAILURE = 2"
| "termination_code USER_SUCCESS = 3"
| "termination_code USER_FAILURE = 4"

text \<open>\<open>a + b\<close> on two \<open>int\<close>s: undefined behaviour out of the 32-bit range.\<close>

definition int32_add :: "int \<Rightarrow> int \<Rightarrow> fault + int" where
  "int32_add a b = (let s = a + b in if - (2 ^ 31) \<le> s \<and> s < 2 ^ 31 then Inr s else Inl Signed_overflow)"

text \<open>
  \<open>writeCalibration\<close> (lines 238--279): when the file opens, the transform as a
  \<open>1\<times>7\<close> row \<open>(x, y, z, qx, qy, qz, qw)\<close> with the quaternion of its rotation,
  as the \<open>4\<times>4\<close> matrix, and the summary's costs and step counts. A file that does
  not open is silently skipped (the function returns \<open>void\<close>).
\<close>

definition writeCalibration ::
  "affine3 \<Rightarrow> string \<Rightarrow> solver_summary \<Rightarrow> file_system \<Rightarrow> fault + file_system" where
  "writeCalibration resultAffine filename summary fsys =
     (if fs_writable fsys filename then
        (let resultQuat = quat_of_rotation (affine_rotation resultAffine);
             t = aff_translation resultAffine
         in bind_res (int32_add (num_unsuccessful_steps summary) (num_successful_steps summary))
              (\<lambda>num_iteration. Inr (fs_store fsys filename
                 [(''handToEyeTF'', FMat 1 7 [vx t, vy t, vz t,
                      qx resultQuat, qy resultQuat, qz resultQuat, qw resultQuat]),
                  (''handToEyeTransform'', mat_node resultAffine),
                  (''initial_cost'', FReal (initial_cost summary)),
                  (''final_cost'', FReal (final_cost summary)),
                  (''change_cost'', FReal (initial_cost summary - final_cost summary)),
                  (''termination_type'', FInt (termination_code (summary_termination summary))),
                  (''num_successful_iteration'', FInt (num_successful_steps summary)),
                  (''num_unsuccessful_iteration'', FInt (num_unsuccessful_steps summary)),
                  (''num_iteration'', FInt num_iteration)])))
      else Inr fsys)"

section \<open>Lemmas\<close>

subsection \<open>Decimal keys\<close>

lemma int_of_size_small: "n < 2 ^ 31 \<Longrightarrow> int_of_size n = int n"
  by (simp add: int_of_size_def sint_uint unsigned_of_nat take_bit_nat_eq_self signed_take_bit_int_eq_self)

lemma nat_of_digits_snoc: "nat_of_digits (s @ [c]) = 10 * nat_of_digits s + (of_char c - 48)"
  by (simp add: nat_of_digits_def)

lemma of_char_digit: "d < 10 \<Longrightarrow> of_char (digit_char d) - 48 = d"
  by (simp add: digit_char_def)

lemma nat_of_digits_string_of_nat: "nat_of_digits (string_of_nat n) = n"
proof (induction n rule: string_of_nat.induct)
  case (1 n)
  show ?case
  proof (cases "n < 10")
    case True
    then show ?thesis by (simp add: string_of_nat.simps [of n] nat_of_digits_def of_char_digit)
  next
    case False
    then have "nat_of_digits (string_of_nat (n div 10)) = n div 10" using "1.IH" by simp
    with False show ?thesis by (simp add: string_of_nat.simps [of n] nat_of_digits_snoc of_char_digit)
  qed
qed


lemma string_of_nat_inj: "string_of_nat m = string_of_nat n \<Longrightarrow> m = n"
  by (metis nat_of_digits_string_of_nat)

lemma digit_char_code: "d < 10 \<Longrightarrow> of_char (digit_char d) = (48 + d :: nat)"
  by (simp add: digit_char_def)

lemma string_of_nat_digits: "c \<in> set (string_of_nat n) \<Longrightarrow> 48 \<le> (of_char c :: nat) \<and> (of_char c :: nat) < 58"
proof (induction n rule: string_of_nat.induct)
  case (1 n)
  show ?case
  proof (cases "n < 10")
    case True
    with "1.prems" have "c = digit_char n" by (simp add: string_of_nat.simps [of n])
    with True show ?thesis by (simp add: digit_char_code)
  next
    case False
    with "1.prems" have "c \<in> set (string_of_nat (n div 10)) \<or> c = digit_char (n mod 10)"
      by (auto simp: string_of_nat.simps [of n])
    then show ?thesis
    proof
      assume "c \<in> set (string_of_nat (n div 10))"
      with False show ?thesis using "1.IH" by blast
    next
      assume "c = digit_char (n mod 10)"
      then show ?thesis by (simp add: digit_char_code)
    qed
  qed
qed

lemma string_of_nat_not_minus: "string_of_nat n \<noteq> CHR ''-'' # s"
proof
  assume "string_of_nat n = CHR ''-'' # s"
  then have "CHR ''-'' \<in> set (string_of_nat n)" by simp
  from string_of_nat_digits [OF this] show False by simp
qed

lemma string_of_int_inj: "string_of_int i = string_of_int j \<longleftrightarrow> i = j"
proof
  assume eq: "string_of_int i = string_of_int j"
  show "i = j"
  proof (cases "0 \<le> i \<longleftrightarrow> 0 \<le> j")
    case True
    then have "nat (if 0 \<le> i then i else - i) = nat (if 0 \<le> j then j else - j)"
      using eq by (auto simp: string_of_int_def intro: string_of_nat_inj)
    with True show ?thesis by (auto split: if_splits)
  next
    case False
    with eq show ?thesis
      by (auto simp: string_of_int_def string_of_nat_not_minus dest: sym)
  qed
qed simp

lemma key_T1_inj [simp]: "key_T1 i = key_T1 j \<longleftrightarrow> i = j"
  by (simp add: key_T1_def string_of_int_inj)

lemma key_T2_inj [simp]: "key_T2 i = key_T2 j \<longleftrightarrow> i = j"
  by (simp add: key_T2_def string_of_int_inj)

lemma key_T1_T2 [simp]: "key_T1 i \<noteq> key_T2 j" "key_T2 j \<noteq> key_T1 i"
  by (simp_all add: key_T1_def key_T2_def)

lemma key_frameCount [simp]: "key_T1 i \<noteq> ''frameCount''" "key_T2 i \<noteq> ''frameCount''"
  by (simp_all add: key_T1_def key_T2_def)

lemma write_pairs_keys:
  "write_pairs i t1 t2 = Inr d \<Longrightarrow>
   map_of d (key_T1 j) = (if i \<le> j \<and> j < i + int (length t1) then Some (mat_node (t1 ! nat (j - i))) else None) \<and>
   map_of d (key_T2 j) = (if i \<le> j \<and> j < i + int (length t1) then Some (mat_node (t2 ! nat (j - i))) else None)"
proof (induction i t1 t2 arbitrary: d rule: write_pairs.induct)
  case (3 i a t1 b t2)
  then obtain rest where rest: "write_pairs (i + 1) t1 t2 = Inr rest"
    and d: "d = (key_T1 i, mat_node a) # (key_T2 i, mat_node b) # rest" by auto
  have nth: "nat (j - i) = Suc (nat (j - (i + 1)))" if "i < j" for j
    using that by simp
  show ?case
    using "3.IH" [OF rest] d by (auto simp: nth)
qed auto


lemma write_pairs_total:
  "length t1 \<le> length t2 \<Longrightarrow> \<exists>d. write_pairs i t1 t2 = Inr d"
proof (induction i t1 t2 rule: write_pairs.induct)
  case (3 i a t1 b t2)
  then show ?case by auto
qed auto

lemma write_pairs_short:
  "length t2 < length t1 \<Longrightarrow> write_pairs i t1 t2 = Inl Iterator_past_end"
proof (induction i t1 t2 rule: write_pairs.induct)
  case (3 i a t1 b t2)
  then show ?case by simp
qed auto

lemma read_mat_mat_node:
  "map_of doc key = Some (mat_node a) \<Longrightarrow> read_mat doc key = Inr a"
  by (simp add: read_mat_def mat_node_def affine_matrix_def Let_def rows4_def)

lemma read_pairs_from:
  assumes "\<forall>k < n. map_of doc (key_T1 (i + int k)) = Some (mat_node (as ! k))
                 \<and> map_of doc (key_T2 (i + int k)) = Some (mat_node (bs ! k))"
    and "length as = n" and "length bs = n"
  shows "read_pairs doc i n = Inr (as, bs)"
  using assms
proof (induction n arbitrary: i as bs)
  case 0
  then show ?case by simp
next
  case (Suc n)
  then obtain a as' b bs' where as: "as = a # as'" and bs: "bs = b # bs'"
    by (cases as; cases bs) auto
  have rest: "read_pairs doc (i + 1) n = Inr (as', bs')"
  proof (rule Suc.IH)
    show "\<forall>k < n. map_of doc (key_T1 (i + 1 + int k)) = Some (mat_node (as' ! k))
                 \<and> map_of doc (key_T2 (i + 1 + int k)) = Some (mat_node (bs' ! k))"
    proof (intro allI impI)
      fix k assume "k < n"
      then show "map_of doc (key_T1 (i + 1 + int k)) = Some (mat_node (as' ! k))
                 \<and> map_of doc (key_T2 (i + 1 + int k)) = Some (mat_node (bs' ! k))"
        using Suc.prems(1) [rule_format, of "Suc k"] as bs by (simp add: add.assoc)
    qed
  qed (use Suc.prems as bs in simp_all)
  have "map_of doc (key_T1 i) = Some (mat_node a)" "map_of doc (key_T2 i) = Some (mat_node b)"
    using Suc.prems(1) [rule_format, of 0] as bs by simp_all
  then show ?case
    by (simp add: read_mat_mat_node rest as bs)
qed

lemma read_after_write:
  assumes d: "write_pairs 0 t1 t2 = Inr d"
    and "length t1 \<le> length t2" and "length t1 < 2 ^ 31"
    and "fs_files fsys filename = Some ((''frameCount'', FInt (int_of_size (length t1))) # d)"
  shows "readTransformPairsFromFile filename [] [] fsys = Inr (0, t1, take (length t1) t2)"
proof -
  let ?doc = "(''frameCount'', FInt (int (length t1))) # d"
  have keys: "\<forall>k < length t1. map_of ?doc (key_T1 (0 + int k)) = Some (mat_node (t1 ! k))
              \<and> map_of ?doc (key_T2 (0 + int k)) = Some (mat_node (take (length t1) t2 ! k))"
    using write_pairs_keys [OF d] by simp
  have "read_pairs ?doc 0 (length t1) = Inr (t1, take (length t1) t2)"
    by (rule read_pairs_from [OF keys]) (use assms(2) in simp_all)
  then show ?thesis
    using assms(3,4)
    by (simp add: readTransformPairsFromFile_def fs_open_read_def read_int_def int_of_size_small)
qed

text \<open>What a successful \<open>writeCalibration\<close> leaves under the pose keys.\<close>

lemma writeCalibration_doc:
  assumes "writeCalibration r f s fsys = Inr fsys'" and "fs_writable fsys f"
  shows "\<exists>doc. fs_files fsys' f = Some doc
    \<and> map_of doc ''handToEyeTF'' = Some (FMat 1 7 [vx (aff_translation r), vy (aff_translation r), vz (aff_translation r),
         qx (quat_of_rotation (affine_rotation r)), qy (quat_of_rotation (affine_rotation r)),
         qz (quat_of_rotation (affine_rotation r)), qw (quat_of_rotation (affine_rotation r))])
    \<and> map_of doc ''handToEyeTransform'' = Some (mat_node r)"
  using assms by (auto simp: writeCalibration_def Let_def fs_store_def bind_res_eq_Inr)

section \<open>Properties\<close>

text \<open>
  C5. Writing the pose pairs to a file that opens and reading that file back into
  empty vectors returns \<open>0\<close> both times and reproduces the first vector and the
  paired prefix of the second, as long as the pair count fits the \<open>int\<close>
  \<open>frameCount\<close>.
\<close>

theorem pairs_file_roundtrip:
  assumes "fs_writable fsys filename"
    and "length t1 \<le> length t2" and "length t1 < 2 ^ 31"
  shows "\<exists>fsys'. writeTransformPairsToFile t1 t2 filename fsys = Inr (0, fsys')
    \<and> readTransformPairsFromFile filename [] [] fsys' = Inr (0, t1, take (length t1) t2)"
proof -
  obtain d where d: "write_pairs 0 t1 t2 = Inr d"
    using write_pairs_total [OF assms(2)] by blast
  have "readTransformPairsFromFile filename [] [] (fs_store fsys filename
          ((''frameCount'', FInt (int_of_size (length t1))) # d)) = Inr (0, t1, take (length t1) t2)"
    by (rule read_after_write [OF d assms(2,3)]) (simp add: fs_store_def)
  then show ?thesis
    using assms(1) d by (simp add: writeTransformPairsToFile_def)
qed

theorem pairs_file_roundtrip_witness:
  "fs_writable \<lparr>fs_files = Map.empty, fs_writable = (\<lambda>_. True)\<rparr> ''pairs.yml'' \<and>
   length [affine_ident] \<le> length [affine_ident, affine_ident] \<and> length [affine_ident] < 2 ^ 31 \<and>
   (\<exists>fsys'. writeTransformPairsToFile [affine_ident] [affine_ident, affine_ident] ''pairs.yml''
       \<lparr>fs_files = Map.empty, fs_writable = (\<lambda>_. True)\<rparr> = Inr (0, fsys')
     \<and> readTransformPairsFromFile ''pairs.yml'' [] [] fsys'
       = Inr (0, [affine_ident], take (length [affine_ident]) [affine_ident, affine_ident]))"
  using pairs_file_roundtrip [of "\<lparr>fs_files = Map.empty, fs_writable = (\<lambda>_. True)\<rparr>" "''pairs.yml''"
      "[affine_ident]" "[affine_ident, affine_ident]"]
  by simp

text \<open>
  C9. The result file holds the estimated transform as a \<open>4\<times>4\<close> matrix that reads
  back as the same transform, the cost change \<open>initial - final\<close>, and, when the
  two step counts are below \<open>2\<^sup>3\<^sup>0\<close> (so their \<open>int\<close> sum cannot overflow), their
  sum as the iteration count.
\<close>

theorem writeCalibration_record:
  assumes "fs_writable fsys filename"
    and "0 \<le> num_successful_steps summary" "num_successful_steps summary < 2 ^ 30"
    and "0 \<le> num_unsuccessful_steps summary" "num_unsuccessful_steps summary < 2 ^ 30"
  shows "\<exists>doc. writeCalibration x filename summary fsys = Inr (fs_store fsys filename doc)
    \<and> read_mat doc ''handToEyeTransform'' = Inr x
    \<and> map_of doc ''change_cost'' = Some (FReal (initial_cost summary - final_cost summary))
    \<and> map_of doc ''num_iteration''
        = Some (FInt (num_successful_steps summary + num_unsuccessful_steps summary))"
  using assms unfolding writeCalibration_def int32_add_def Let_def
  by (auto intro!: read_mat_mat_node)

theorem writeCalibration_record_witness:
  "fs_writable \<lparr>fs_files = Map.empty, fs_writable = (\<lambda>_. True)\<rparr> ''out.yml'' \<and>
   (0::int) \<le> 7 \<and> (7::int) < 2 ^ 30 \<and> (0::int) \<le> 2 \<and> (2::int) < 2 ^ 30 \<and>
   (\<exists>doc. writeCalibration affine_ident ''out.yml''
        \<lparr>initial_cost = 3, final_cost = 1, summary_termination = CONVERGENCE,
         num_successful_steps = 7, num_unsuccessful_steps = 2\<rparr>
        \<lparr>fs_files = Map.empty, fs_writable = (\<lambda>_. True)\<rparr>
      = Inr (fs_store \<lparr>fs_files = Map.empty, fs_writable = (\<lambda>_. True)\<rparr> ''out.yml'' doc)
    \<and> read_mat doc ''handToEyeTransform'' = Inr affine_ident
    \<and> map_of doc ''change_cost'' = Some (FReal (3 - 1))
    \<and> map_of doc ''num_iteration'' = Some (FInt (7 + 2)))"
  using writeCalibration_record [of "\<lparr>fs_files = Map.empty, fs_writable = (\<lambda>_. True)\<rparr>" "''out.yml''"
      "\<lparr>initial_cost = 3, final_cost = 1, summary_termination = CONVERGENCE,
         num_successful_steps = 7, num_unsuccessful_steps = 2\<rparr>" affine_ident]
  by simp


text \<open>
  C17. Files that cannot be opened for writing: \<open>writeTransformPairsToFile\<close>
  returns \<open>1\<close> and \<open>writeCalibration\<close> silently returns, both leaving the file
  system unchanged.
\<close>

theorem files_not_writable:
  assumes "\<not> fs_writable fsys filename"
  shows "writeTransformPairsToFile t1 t2 filename fsys = Inr (1, fsys)
    \<and> writeCalibration x filename summary fsys = Inr fsys"
  using assms by (simp add: writeTransformPairsToFile_def writeCalibration_def)

theorem files_not_writable_witness:
  "\<not> fs_writable \<lparr>fs_files = Map.empty, fs_writable = (\<lambda>_. False)\<rparr> ''out.yml'' \<and>
   writeTransformPairsToFile [affine_ident] [affine_ident] ''out.yml'' \<lparr>fs_files = Map.empty, fs_writable = (\<lambda>_. False)\<rparr> = Inr (1, \<lparr>fs_files = Map.empty, fs_writable = (\<lambda>_. False)\<rparr>) \<and>
   writeCalibration affine_ident ''out.yml''
     \<lparr>initial_cost = 1, final_cost = 0, summary_termination = CONVERGENCE,
      num_successful_steps = 3, num_unsuccessful_steps = 1\<rparr> \<lparr>fs_files = Map.empty, fs_writable = (\<lambda>_. False)\<rparr> = Inr \<lparr>fs_files = Map.empty, fs_writable = (\<lambda>_. False)\<rparr>"
  using files_not_writable [of "\<lparr>fs_files = Map.empty, fs_writable = (\<lambda>_. False)\<rparr>" "''out.yml''" "[affine_ident]" "[affine_ident]" affine_ident
      "\<lparr>initial_cost = 1, final_cost = 0, summary_termination = CONVERGENCE,
        num_successful_steps = 3, num_unsuccessful_steps = 1\<rparr>"]
  by simp





end
