(* ===== verification/EulerAngles.thy ===== *)
theory EulerAngles
  imports AngleAxis
begin

text \<open>
  The roll-pitch-yaw angles that \<open>reportCalibration\<close> prints
  (\<open>src/src/handeye_calibration.cpp\<close>, lines 144--151):
  \<open>resultAffine.rotation().eulerAngles(2, 1, 0)\<close>, Eigen's Euler angles about the
  axes z, y, x, printed in the reverse order. Eigen's routine is modelled from its
  code (Eigen 3.3, the Tait-Bryan branch). The meaning of the angles is the product
  \<open>Rz(yaw) Ry(pitch) Rx(roll)\<close> (\<open>euler_matrix\<close>). The lemmas show that for every
  rotation matrix the printed angles rebuild it exactly, including the gimbal-lock
  case \<open>|pitch| = \<pi>/2\<close>; that the yaw lies in \<open>[0, \<pi>]\<close>; and that a rotation with a
  negative yaw is printed with the yaw moved by \<open>\<pi>\<close> and roll and pitch of \<open>\<pi>\<close>.
\<close>

section \<open>Eigen's Euler angles\<close>

text \<open>
  \<open>MatrixBase::eulerAngles(a0, a1, a2)\<close> of Eigen 3.3 (Graphics Gems IV), the
  branch \<open>a0 \<noteq> a2\<close> (Tait-Bryan angles), which is the one the program calls with
  \<open>(2, 1, 0)\<close>. The first angle is folded into \<open>[0, \<pi>]\<close> (for an odd axis
  order) by adding or subtracting \<open>\<pi>\<close>, and the second one is then taken on the other
  side. \<open>Vector2(a, b).norm()\<close> is \<open>sqrt (a\<^sup>2 + b\<^sup>2)\<close>.
\<close>

definition eulerAngles_tait_bryan :: "mat3 \<Rightarrow> nat \<Rightarrow> nat \<Rightarrow> vec3" where
  "eulerAngles_tait_bryan m a0 a1 =
     (let odd = ((a0 + 1) mod 3 \<noteq> a1);
          i = a0; j = (a0 + 1 + (if odd then 1 else 0)) mod 3;
          k = (a0 + 2 - (if odd then 1 else 0)) mod 3;
          r0 = atan2 (mcoeff m j k) (mcoeff m k k);
          c2 = sqrt ((mcoeff m i i)\<^sup>2 + (mcoeff m i j)\<^sup>2);
          flip = (odd \<and> r0 < 0 \<or> \<not> odd \<and> 0 < r0);
          res0 = (if flip then (if 0 < r0 then r0 - pi else r0 + pi) else r0);
          res1 = (if flip then atan2 (- mcoeff m i k) (- c2) else atan2 (- mcoeff m i k) c2);
          s1 = sin res0; c1 = cos res0;
          res2 = atan2 (s1 * mcoeff m k i - c1 * mcoeff m j i) (c1 * mcoeff m j j - s1 * mcoeff m k j)
      in if odd then \<lparr>vx = res0, vy = res1, vz = res2\<rparr> else \<lparr>vx = - res0, vy = - res1, vz = - res2\<rparr>)"

text \<open>
  Lines 144--151: \<open>rpy = resultAffine.rotation().eulerAngles(2, 1, 0)\<close>, printed as
  \<open>(roll, pitch, yaw) = (rpy[2], rpy[1], rpy[0])\<close>.
\<close>

definition rpy_of_rotation :: "mat3 \<Rightarrow> vec3" where
  "rpy_of_rotation r = (let rpy = eulerAngles_tait_bryan r 2 1 in \<lparr>vx = vz rpy, vy = vy rpy, vz = vx rpy\<rparr>)"

section \<open>Meaning of the angles\<close>

text \<open>The elementary rotations and the z-y-x product the printed angles stand for.\<close>

definition rot_z :: "real \<Rightarrow> mat3" where
  "rot_z a = \<lparr>e00 = cos a, e01 = - sin a, e02 = 0, e10 = sin a, e11 = cos a, e12 = 0,
              e20 = 0, e21 = 0, e22 = 1\<rparr>"

definition rot_y :: "real \<Rightarrow> mat3" where
  "rot_y a = \<lparr>e00 = cos a, e01 = 0, e02 = sin a, e10 = 0, e11 = 1, e12 = 0,
              e20 = - sin a, e21 = 0, e22 = cos a\<rparr>"

definition rot_x :: "real \<Rightarrow> mat3" where
  "rot_x a = \<lparr>e00 = 1, e01 = 0, e02 = 0, e10 = 0, e11 = cos a, e12 = - sin a,
              e20 = 0, e21 = sin a, e22 = cos a\<rparr>"

definition euler_matrix :: "real \<Rightarrow> real \<Rightarrow> real \<Rightarrow> mat3" where
  "euler_matrix yaw pitch roll = mmul (rot_z yaw) (mmul (rot_y pitch) (rot_x roll))"

section \<open>Lemmas\<close>

subsection \<open>\<open>atan2\<close>\<close>

lemma atan2_range: "- pi < atan2 y x \<and> atan2 y x \<le> pi"
proof -
  have b: "- (pi / 2) < arctan (y / x)" "arctan (y / x) < pi / 2"
    using arctan_lbound arctan_ubound by auto
  consider "0 < x" | "x < 0" "0 \<le> y" | "x < 0" "y < 0" | "x = 0" by linarith
  then show ?thesis
  proof cases
    case 2
    then have "arctan (y / x) \<le> 0" by (simp add: arctan_le_zero_iff divide_nonneg_neg)
    then have "- pi < arctan (y / x) + pi" "arctan (y / x) + pi \<le> pi" using b by linarith+
    with 2 show ?thesis by (simp add: atan2_def)
  next
    case 3
    then have "0 < arctan (y / x)" by (simp add: zero_less_arctan_iff divide_neg_neg)
    then have "- pi < arctan (y / x) - pi" "arctan (y / x) - pi \<le> pi" using b by linarith+
    with 3 show ?thesis by (simp add: atan2_def)
  next
    case 1
    with b show ?thesis by (simp add: atan2_def)
  next
    case 4
    then show ?thesis using pi_gt_zero by (auto simp: atan2_def; linarith)
  qed
qed

lemma atan2_cos_sin:
  assumes "x \<noteq> 0 \<or> y \<noteq> 0"
  shows "cos (atan2 y x) = x / sqrt (x\<^sup>2 + y\<^sup>2) \<and> sin (atan2 y x) = y / sqrt (x\<^sup>2 + y\<^sup>2)"
proof -
  consider "0 < x" | "x < 0" "0 \<le> y" | "x < 0" "y < 0" | "x = 0" "0 < y" | "x = 0" "y < 0"
    using assms by linarith
  then show ?thesis
  proof cases
    case 1
    have "sqrt (1 + (y / x)\<^sup>2) = sqrt (x\<^sup>2 + y\<^sup>2) / x"
      using 1 by (simp add: power_divide field_simps real_sqrt_divide real_sqrt_abs)
    then show ?thesis using 1 by (simp add: atan2_def cos_arctan sin_arctan)
  next
    case 2
    have "sqrt (1 + (y / x)\<^sup>2) = - sqrt (x\<^sup>2 + y\<^sup>2) / x"
      using 2 by (simp add: power_divide field_simps real_sqrt_divide real_sqrt_abs)
    then show ?thesis using 2 by (simp add: atan2_def cos_arctan sin_arctan)
  next
    case 3
    have "sqrt (1 + (y / x)\<^sup>2) = - sqrt (x\<^sup>2 + y\<^sup>2) / x"
      using 3 by (simp add: power_divide field_simps real_sqrt_divide real_sqrt_abs)
    then show ?thesis using 3 by (simp add: atan2_def cos_arctan sin_arctan)
  next
    case 4
    then show ?thesis by (simp add: atan2_def real_sqrt_abs)
  next
    case 5
    then show ?thesis by (simp add: atan2_def real_sqrt_abs)
  qed
qed

lemma atan2_sin_cos_neg:
  assumes "- pi < a" "a < 0"
  shows "atan2 (sin a) (cos a) = a"
proof -
  consider "- pi / 2 < a" | "a = - pi / 2" | "a < - pi / 2" by linarith
  then show ?thesis
  proof cases
    case 1
    then have "0 < cos a" using assms by (intro cos_gt_zero_pi) auto
    moreover have "arctan (tan a) = a" using 1 assms by (intro arctan_tan) auto
    ultimately show ?thesis by (simp add: atan2_def tan_def)
  next
    case 2
    then show ?thesis by (simp add: atan2_def)
  next
    case 3
    have c: "cos a < 0"
      using 3 assms cos_gt_zero_pi [of "a + pi"] by simp
    have s: "sin a < 0" using assms sin_gt_zero [of "- a"] by simp
    have "tan a = tan (a + pi)" by (simp add: tan_def)
    moreover have "arctan (tan (a + pi)) = a + pi" using 3 assms by (intro arctan_tan) auto
    ultimately show ?thesis using c s by (simp add: atan2_def tan_def)
  qed
qed

subsection \<open>The angles of \<open>eulerAngles(2, 1, 0)\<close>\<close>

lemma rpy_of_rotation_210:
  "rpy_of_rotation m =
     (let r0 = atan2 (e10 m) (e00 m);
          c2 = sqrt ((e22 m)\<^sup>2 + (e21 m)\<^sup>2);
          res0 = (if r0 < 0 then r0 + pi else r0);
          res1 = (if r0 < 0 then atan2 (- e20 m) (- c2) else atan2 (- e20 m) c2)
      in \<lparr>vx = atan2 (sin res0 * e02 m - cos res0 * e12 m) (cos res0 * e11 m - sin res0 * e01 m),
          vy = res1, vz = res0\<rparr>)"
  by (simp add: rpy_of_rotation_def eulerAngles_tait_bryan_def mcoeff_def Let_def)

lemma euler_matrix_entries:
  "euler_matrix z y x =
     \<lparr>e00 = cos z * cos y, e01 = cos z * sin y * sin x - sin z * cos x,
      e02 = cos z * sin y * cos x + sin z * sin x,
      e10 = sin z * cos y, e11 = sin z * sin y * sin x + cos z * cos x,
      e12 = sin z * sin y * cos x - cos z * sin x,
      e20 = - sin y, e21 = cos y * sin x, e22 = cos y * cos x\<rparr>"
  by (simp add: euler_matrix_def rot_x_def rot_y_def rot_z_def eigen_defs algebra_simps)

text \<open>
  The polynomial core: under the identities of a rotation matrix (each entry is its
  cofactor, unit first column and last row), cosines and sines of the form the
  three angles have make the z-y-x product equal to the matrix; \<open>e = \<plusminus>1\<close> is the
  fold of the yaw.
\<close>

lemma euler_entries:
  fixes m00 m01 m02 m10 m11 m12 m20 m21 m22 cz sz cy sy cx sx c e :: real
  assumes cof: "m00 = m11 * m22 - m12 * m21" "m01 = m12 * m20 - m10 * m22" "m02 = m10 * m21 - m11 * m20"
      "m10 = m21 * m02 - m22 * m01" "m11 = m22 * m00 - m20 * m02" "m12 = m20 * m01 - m21 * m00"
      "m20 = m01 * m12 - m02 * m11" "m21 = m02 * m10 - m00 * m12" "m22 = m00 * m11 - m01 * m10"
    and col: "m00\<^sup>2 + m10\<^sup>2 + m20\<^sup>2 = 1"
    and row: "m20\<^sup>2 + m21\<^sup>2 + m22\<^sup>2 = 1"
    and e: "e\<^sup>2 = 1" and c: "c \<noteq> 0" "c\<^sup>2 = m21\<^sup>2 + m22\<^sup>2"
    and v: "cz * c = e * m00" "sz * c = e * m10" "cy = e * c" "sy = - m20" "cx * c = e * m22" "sx * c = e * m21"
  shows "cz * cy = m00" "cz * sy * sx - sz * cx = m01" "cz * sy * cx + sz * sx = m02"
    "sz * cy = m10" "sz * sy * sx + cz * cx = m11" "sz * sy * cx - cz * sx = m12"
    "- sy = m20" "cy * sx = m21" "cy * cx = m22"
  using assms by algebra+

lemma euler_entries_gimbal:
  fixes m00 m01 m02 m10 m11 m12 m20 m21 m22 cy sy cx sx :: real
  assumes cof: "m01 = m12 * m20 - m10 * m22" "m02 = m10 * m21 - m11 * m20"
    and z: "m00 = 0" "m10 = 0" "m21 = 0" "m22 = 0"
    and v: "cy = 0" "sy = - m20" "cx = m11" "sx = - m12"
  shows "1 * cy = m00" "1 * sy * sx - 0 * cx = m01" "1 * sy * cx + 0 * sx = m02"
    "0 * cy = m10" "0 * sy * sx + 1 * cx = m11" "0 * sy * cx - 1 * sx = m12"
    "- sy = m20" "cy * sx = m21" "cy * cx = m22"
  using assms by simp_all

lemma rotation_facts:
  assumes "rotation_matrix m"
  shows "e00 m = e11 m * e22 m - e12 m * e21 m" "e01 m = e12 m * e20 m - e10 m * e22 m"
    "e02 m = e10 m * e21 m - e11 m * e20 m" "e10 m = e21 m * e02 m - e22 m * e01 m"
    "e11 m = e22 m * e00 m - e20 m * e02 m" "e12 m = e20 m * e01 m - e21 m * e00 m"
    "e20 m = e01 m * e12 m - e02 m * e11 m" "e21 m = e02 m * e10 m - e00 m * e12 m"
    "e22 m = e00 m * e11 m - e01 m * e10 m"
    and "(e00 m)\<^sup>2 + (e10 m)\<^sup>2 + (e20 m)\<^sup>2 = 1"
    and "(e20 m)\<^sup>2 + (e21 m)\<^sup>2 + (e22 m)\<^sup>2 = 1" "(e10 m)\<^sup>2 + (e11 m)\<^sup>2 + (e12 m)\<^sup>2 = 1"
proof -
  have cof: "cofactor_matrix m = m" by (rule rotation_cofactor_matrix [OF assms])
  show "e00 m = e11 m * e22 m - e12 m * e21 m" "e01 m = e12 m * e20 m - e10 m * e22 m"
    "e02 m = e10 m * e21 m - e11 m * e20 m" "e10 m = e21 m * e02 m - e22 m * e01 m"
    "e11 m = e22 m * e00 m - e20 m * e02 m" "e12 m = e20 m * e01 m - e21 m * e00 m"
    "e20 m = e01 m * e12 m - e02 m * e11 m" "e21 m = e02 m * e10 m - e00 m * e12 m"
    "e22 m = e00 m * e11 m - e01 m * e10 m"
    using arg_cong [OF cof, of e00] arg_cong [OF cof, of e01] arg_cong [OF cof, of e02]
      arg_cong [OF cof, of e10] arg_cong [OF cof, of e11] arg_cong [OF cof, of e12]
      arg_cong [OF cof, of e20] arg_cong [OF cof, of e21] arg_cong [OF cof, of e22]
    by (simp_all add: cofactor_matrix_def cofactor3_def mcoeff_def)
  have "mmul (mtrans m) m = mident" using assms by (simp add: rotation_matrix_def)
  then show "(e00 m)\<^sup>2 + (e10 m)\<^sup>2 + (e20 m)\<^sup>2 = 1"
    using arg_cong [of _ _ e00] by (fastforce simp: eigen_defs power2_eq_square)
  have d: "mdet m \<noteq> 0" using assms by (simp add: rotation_matrix_def)
  have "mmul m (mtrans m) = mident"
    using minverse_right [OF d] rotation_minverse [OF assms] by simp
  then show "(e20 m)\<^sup>2 + (e21 m)\<^sup>2 + (e22 m)\<^sup>2 = 1" "(e10 m)\<^sup>2 + (e11 m)\<^sup>2 + (e12 m)\<^sup>2 = 1"
    using arg_cong [of _ _ e22] arg_cong [of _ _ e11] by (fastforce simp: eigen_defs power2_eq_square)+
qed

lemma euler_case:
  assumes r: "rotation_matrix m" and c: "0 < c" "c\<^sup>2 = (e21 m)\<^sup>2 + (e22 m)\<^sup>2" and e: "e\<^sup>2 = 1"
    and z: "cos z * c = e * e00 m" "sin z * c = e * e10 m"
    and y: "cos y = e * c" "sin y = - e20 m"
  shows "euler_matrix z y (atan2 (sin z * e02 m - cos z * e12 m) (cos z * e11 m - sin z * e01 m)) = m"
proof -
  note f = rotation_facts [OF r]
  have a: "(sin z * e02 m - cos z * e12 m) * c = e * e21 m"
    using z f(8) by algebra
  have b: "(cos z * e11 m - sin z * e01 m) * c = e * e22 m"
    using z f(9) by algebra
  have n: "sqrt ((cos z * e11 m - sin z * e01 m)\<^sup>2 + (sin z * e02 m - cos z * e12 m)\<^sup>2) = 1"
  proof -
    have "((cos z * e11 m - sin z * e01 m)\<^sup>2 + (sin z * e02 m - cos z * e12 m)\<^sup>2) * c\<^sup>2 = c\<^sup>2"
      using a b c(2) e by algebra
    then show ?thesis using c(1) by simp
  qed
  have "cos z * e11 m - sin z * e01 m \<noteq> 0 \<or> sin z * e02 m - cos z * e12 m \<noteq> 0"
    using n by auto
  note x = atan2_cos_sin [OF this, unfolded n]
  show ?thesis
    unfolding euler_matrix_entries
    using euler_entries [OF f(1-11) e, of c, OF _ c(2) z y] c(1) x a b
    by (simp add: mat3.equality)
qed

text \<open>Gimbal lock: the last row is \<open>(\<plusminus>1, 0, 0)\<close>, Eigen returns yaw \<open>0\<close>.\<close>

lemma rpy_reconstructs_gimbal:
  assumes r: "rotation_matrix m" and z: "e21 m = 0" "e22 m = 0"
  shows "euler_matrix (vz (rpy_of_rotation m)) (vy (rpy_of_rotation m)) (vx (rpy_of_rotation m)) = m"
proof -
  note f = rotation_facts [OF r]
  have "(e20 m)\<^sup>2 = 1" using f(11) z by simp
  with f(10) have z2: "e00 m = 0" "e10 m = 0" by simp_all
  have "e20 m \<noteq> 0" using \<open>(e20 m)\<^sup>2 = 1\<close> by auto
  then have y: "cos (atan2 (- e20 m) 0) = 0" "sin (atan2 (- e20 m) 0) = - e20 m"
    using atan2_cos_sin [of 0 "- e20 m"] \<open>(e20 m)\<^sup>2 = 1\<close> by simp_all
  have "(e11 m)\<^sup>2 + (e12 m)\<^sup>2 = 1" using f(12) z2 by simp
  moreover have "e11 m \<noteq> 0 \<or> - e12 m \<noteq> 0" using calculation by auto
  ultimately have x: "cos (atan2 (- e12 m) (e11 m)) = e11 m" "sin (atan2 (- e12 m) (e11 m)) = - e12 m"
    using atan2_cos_sin [of "e11 m" "- e12 m"] by simp_all
  have "atan2 (e10 m) (e00 m) = 0" by (simp add: z2 atan2_def)
  then show ?thesis
    unfolding rpy_of_rotation_210 Let_def euler_matrix_entries
    using euler_entries_gimbal [OF f(2,3) z2 z y x] z
    by (simp add: mat3.equality)
qed

text \<open>The regular case: \<open>c2 > 0\<close>; the yaw is folded (\<open>e = -1\<close>) or not (\<open>e = 1\<close>).\<close>

lemma rpy_reconstructs_regular:
  assumes r: "rotation_matrix m" and p: "0 < (e21 m)\<^sup>2 + (e22 m)\<^sup>2"
  shows "euler_matrix (vz (rpy_of_rotation m)) (vy (rpy_of_rotation m)) (vx (rpy_of_rotation m)) = m"
proof -
  note f = rotation_facts [OF r]
  define c where "c = sqrt ((e22 m)\<^sup>2 + (e21 m)\<^sup>2)"
  define r0 where "r0 = atan2 (e10 m) (e00 m)"
  have rpy: "rpy_of_rotation m =
     (let res0 = (if r0 < 0 then r0 + pi else r0) in
      \<lparr>vx = atan2 (sin res0 * e02 m - cos res0 * e12 m) (cos res0 * e11 m - sin res0 * e01 m),
       vy = (if r0 < 0 then atan2 (- e20 m) (- c) else atan2 (- e20 m) c), vz = res0\<rparr>)"
    by (simp add: rpy_of_rotation_210 Let_def c_def r0_def)
  have c0: "0 < c" using p by (simp add: c_def add.commute)
  have c2: "c\<^sup>2 = (e21 m)\<^sup>2 + (e22 m)\<^sup>2" by (simp add: c_def add.commute)
  have cs: "(e00 m)\<^sup>2 + (e10 m)\<^sup>2 = c\<^sup>2" using f(10,11) c2 by linarith
  then have "e00 m \<noteq> 0 \<or> e10 m \<noteq> 0" using c0 by auto
  then have zc: "cos r0 * c = e00 m" "sin r0 * c = e10 m"
    using atan2_cos_sin [of "e00 m" "e10 m"] cs c0 by (simp_all add: r0_def)
  have n: "sqrt (c\<^sup>2 + (e20 m)\<^sup>2) = 1" using c2 f(11) by (simp add: add.commute)
  show ?thesis
  proof (cases "r0 < 0")
    case True
    have z: "cos (r0 + pi) * c = (-1) * e00 m" "sin (r0 + pi) * c = (-1) * e10 m"
      using zc by simp_all
    have y: "cos (atan2 (- e20 m) (- c)) = (-1) * c" "sin (atan2 (- e20 m) (- c)) = - e20 m"
      using atan2_cos_sin [of "- c" "- e20 m"] c0 n by simp_all
    show ?thesis
      unfolding rpy using True euler_case [OF r c0 c2 _ z y] by simp
  next
    case False
    have z: "cos r0 * c = 1 * e00 m" "sin r0 * c = 1 * e10 m" using zc by simp_all
    have y: "cos (atan2 (- e20 m) c) = 1 * c" "sin (atan2 (- e20 m) c) = - e20 m"
      using atan2_cos_sin [of c "- e20 m"] c0 n by simp_all
    show ?thesis
      unfolding rpy using False euler_case [OF r c0 c2 _ z y] by simp
  qed
qed

lemma rotation_matrix_rot_z: "rotation_matrix (rot_z a)"
  by (simp add: rotation_matrix_def rot_z_def mdet_def cofactor3_def mcoeff_def eigen_defs
      power2_eq_square [symmetric])

section \<open>Properties\<close>

text \<open>
  C26. The roll-pitch-yaw triple the report prints describes the result's rotation:
  for every rotation matrix \<open>R\<close>, \<open>Rz(yaw) Ry(pitch) Rx(roll) = R\<close>, also at gimbal
  lock, where Eigen fixes the yaw to \<open>0\<close>.
\<close>

theorem rpy_reconstructs:
  assumes r: "rotation_matrix m"
  shows "euler_matrix (vz (rpy_of_rotation m)) (vy (rpy_of_rotation m)) (vx (rpy_of_rotation m)) = m"
proof (cases "e21 m = 0 \<and> e22 m = 0")
  case True
  then show ?thesis using rpy_reconstructs_gimbal [OF r] by blast
next
  case False
  then have "0 < (e21 m)\<^sup>2 + (e22 m)\<^sup>2" by (auto simp: add_pos_nonneg add_nonneg_pos)
  then show ?thesis using rpy_reconstructs_regular [OF r] by blast
qed

theorem rpy_reconstructs_witness:
  "rotation_matrix (rot_z (pi / 2)) \<and>
   euler_matrix (vz (rpy_of_rotation (rot_z (pi / 2)))) (vy (rpy_of_rotation (rot_z (pi / 2))))
     (vx (rpy_of_rotation (rot_z (pi / 2)))) = rot_z (pi / 2)"
  using rpy_reconstructs [OF rotation_matrix_rot_z] rotation_matrix_rot_z by blast

text \<open>
  C27. Bounds of the printed angles, for every matrix: the yaw lies in \<open>[0, \<pi>]\<close>,
  the pitch and the roll in \<open>(-\<pi>, \<pi>]\<close>.
\<close>

theorem rpy_bounds:
  "0 \<le> vz (rpy_of_rotation m) \<and> vz (rpy_of_rotation m) \<le> pi
   \<and> - pi < vy (rpy_of_rotation m) \<and> vy (rpy_of_rotation m) \<le> pi
   \<and> - pi < vx (rpy_of_rotation m) \<and> vx (rpy_of_rotation m) \<le> pi"
proof -
  define r0 where "r0 = atan2 (e10 m) (e00 m)"
  have r0: "- pi < r0" "r0 \<le> pi" using atan2_range unfolding r0_def by blast+
  have yaw: "0 \<le> (if r0 < 0 then r0 + pi else r0) \<and> (if r0 < 0 then r0 + pi else r0) \<le> pi"
    using r0 by auto
  have "\<And>y x. - pi < atan2 y x \<and> atan2 y x \<le> pi" by (rule atan2_range)
  with yaw show ?thesis by (simp add: rpy_of_rotation_210 Let_def r0_def [symmetric])
qed

text \<open>
  C28. A rotation about z by a negative angle \<open>a\<close> in \<open>(-\<pi>, 0)\<close> is printed as
  roll \<open>\<pi>\<close>, pitch \<open>\<pi>\<close>, yaw \<open>a + \<pi>\<close>, not as \<open>(0, 0, a)\<close>: the
  representation is valid (C26) but not the conventional one with
  \<open>|pitch| \<le> \<pi>/2\<close>.
\<close>

theorem rpy_negative_yaw:
  assumes "- pi < a" and "a < 0"
  shows "rpy_of_rotation (rot_z a) = \<lparr>vx = pi, vy = pi, vz = a + pi\<rparr>"
proof -
  have r0: "atan2 (sin a) (cos a) = a" using atan2_sin_cos_neg [OF assms] .
  have "atan2 0 (- 1) = pi" by (simp add: atan2_def)
  moreover have "atan2 0 (- (cos a * cos a) - sin a * sin a) = pi"
  proof -
    have "- (cos a * cos a) - sin a * sin a = - 1"
      using sin_cos_squared_add3 [of a] by (simp add: algebra_simps)
    then show ?thesis by (simp add: atan2_def)
  qed
  ultimately show ?thesis
    using assms by (simp add: rpy_of_rotation_210 rot_z_def Let_def r0)
qed

theorem rpy_negative_yaw_witness:
  "- pi < - pi / 2 \<and> - pi / 2 < (0::real)
   \<and> rpy_of_rotation (rot_z (- pi / 2)) = \<lparr>vx = pi, vy = pi, vz = - pi / 2 + pi\<rparr>"
  using rpy_negative_yaw [of "- pi / 2"] by simp

end
