(* ===== verification/Report.thy ===== *)
theory Report
  imports EulerAngles
begin

text \<open>
  The reporter, \<open>reportCalibration\<close> (\<open>src/src/handeye_calibration.cpp\<close>, lines
  124--169): it prints the estimated transform as a matrix, as a translation and a
  quaternion \<open>(x, y, z, w)\<close>, as roll-pitch-yaw angles, and the translation and
  quaternion of its inverse. The model returns the printed values as a record; the
  roll-pitch-yaw triple is Eigen's \<open>eulerAngles(2, 1, 0)\<close>.
  The lemmas show that the printed inverse translation is \<open>-R\<^sup>T t\<close> and that the
  printed inverse quaternion is the conjugate of the printed quaternion up to sign, for
  every rigid transform: the two halves of the report describe the same transform.
\<close>

record calibration_report =
  rep_frames :: "string \<times> string"
  rep_matrix :: "real list list"
  rep_translation :: vec3
  rep_quaternion :: quat
  rep_rpy :: vec3
  rep_inv_translation :: vec3
  rep_inv_quaternion :: quat

text \<open>
  Lines 128--167: \<open>Eigen::Quaternion<double> quaternionResult(resultAffine.rotation())\<close>,
  then \<open>resultAffineInv = resultAffine.inverse()\<close> and the quaternion of its rotation.
\<close>

definition reportCalibration :: "string \<Rightarrow> string \<Rightarrow> affine3 \<Rightarrow> calibration_report" where
  "reportCalibration EETFname cameraTFname resultAffine =
     (let quaternionResult = quat_of_rotation (affine_rotation resultAffine);
          resultAffineInv = affine_inverse resultAffine
      in \<lparr>rep_frames = (EETFname, cameraTFname),
          rep_matrix = affine_matrix resultAffine,
          rep_translation = aff_translation resultAffine,
          rep_quaternion = quaternionResult,
          rep_rpy = rpy_of_rotation (affine_rotation resultAffine),
          rep_inv_translation = aff_translation resultAffineInv,
          rep_inv_quaternion = quat_of_rotation (affine_rotation resultAffineInv)\<rparr>)"

text \<open>The conjugate quaternion, the rotation by the opposite angle.\<close>

definition quat_conj :: "quat \<Rightarrow> quat" where
  "quat_conj q = \<lparr>qx = - qx q, qy = - qy q, qz = - qz q, qw = qw q\<rparr>"

definition quat_neg :: "quat \<Rightarrow> quat" where
  "quat_neg q = \<lparr>qx = - qx q, qy = - qy q, qz = - qz q, qw = - qw q\<rparr>"

section \<open>Properties\<close>

lemma mcoeff_mtrans: "mcoeff (mtrans m) i j = mcoeff m j i"
  by (simp add: mcoeff_def eigen_defs)

lemma mtrace_mtrans: "mtrace (mtrans m) = mtrace m"
  by (simp add: mtrace_def eigen_defs)

lemma mtrans_diag [simp]: "e00 (mtrans m) = e00 m" "e11 (mtrans m) = e11 m" "e22 (mtrans m) = e22 m"
  by (simp_all add: mtrans_def)

lemma quat_set_qw [simp]: "qw (quat_set i c q) = qw q"
  by (simp add: quat_set_def)

lemma quat_set_update_qw: "quat_set i c (q\<lparr>qw := w\<rparr>) = (quat_set i c q)\<lparr>qw := w\<rparr>"
  by (simp add: quat_set_def)

lemma quat_neg_conj: "quat_neg (quat_conj q) = q\<lparr>qw := - qw q\<rparr>"
  by (simp add: quat_neg_def quat_conj_def)

text \<open>
  The quaternion of the transposed matrix is the conjugate quaternion: exactly so
  on the positive-trace branch of Shepperd's method, and up to the sign of the
  whole quaternion on the other branch (there the vector part is computed first and
  keeps its sign, so the scalar part changes sign instead). Both represent the same
  rotation.
\<close>

lemma quat_of_rotation_mtrans:
  "quat_of_rotation (mtrans m) = quat_conj (quat_of_rotation m)
   \<or> quat_of_rotation (mtrans m) = quat_neg (quat_conj (quat_of_rotation m))"
proof (cases "0 < mtrace m")
  case True
  then have "quat_of_rotation (mtrans m) = quat_conj (quat_of_rotation m)"
    unfolding quat_of_rotation_def Let_def mtrace_mtrans
    by (simp add: mtrans_def quat_conj_def minus_divide_left)
  then show ?thesis ..
next
  case False
  then have "quat_of_rotation (mtrans m) = quat_neg (quat_conj (quat_of_rotation m))"
    unfolding quat_of_rotation_def Let_def mtrace_mtrans mcoeff_mtrans quat_neg_conj
    by (simp add: quat_set_update_qw add.commute minus_divide_left)
  then show ?thesis ..
qed

text \<open>A rotation by a quarter turn about the z axis, shifted by \<open>(1, 2, 3)\<close>.\<close>

abbreviation quarter_turn_z :: affine3 where
  "quarter_turn_z \<equiv> \<lparr>aff_linear = \<lparr>e00 = 0, e01 = -1, e02 = 0, e10 = 1, e11 = 0, e12 = 0,
                                    e20 = 0, e21 = 0, e22 = 1\<rparr>,
                     aff_translation = \<lparr>vx = 1, vy = 2, vz = 3\<rparr>\<rparr>"

lemma rigid_quarter_turn_z: "rigid quarter_turn_z"
  by (simp add: rigid_def rotation_matrix_def mdet_def cofactor3_def mcoeff_def eigen_defs)

text \<open>
  C19. The two halves of the report describe the same transform: for every rigid
  result the printed inverse translation is \<open>-R\<^sup>T t\<close>, and the printed inverse
  quaternion is the conjugate of the printed quaternion, possibly negated as a whole
  (the same rotation).
\<close>

theorem report_inverse_consistent:
  assumes "rigid x"
  shows "rep_inv_translation (reportCalibration a b x) = vneg (mvmul (mtrans (aff_linear x)) (aff_translation x))
    \<and> (rep_inv_quaternion (reportCalibration a b x) = quat_conj (rep_quaternion (reportCalibration a b x))
       \<or> rep_inv_quaternion (reportCalibration a b x) = quat_neg (quat_conj (rep_quaternion (reportCalibration a b x))))"
proof -
  have inv: "minverse (aff_linear x) = mtrans (aff_linear x)"
    using assms by (simp add: rigid_def rotation_minverse)
  then show ?thesis
    using quat_of_rotation_mtrans [of "aff_linear x"]
    by (simp add: reportCalibration_def affine_inverse_def affine_rotation_def Let_def)
qed

theorem report_inverse_consistent_witness:
  "rigid quarter_turn_z \<and>
   rep_inv_translation (reportCalibration ''base'' ''cam'' quarter_turn_z) = \<lparr>vx = -2, vy = 1, vz = -3\<rparr> \<and>
   (rep_inv_quaternion (reportCalibration ''base'' ''cam'' quarter_turn_z)
      = quat_conj (rep_quaternion (reportCalibration ''base'' ''cam'' quarter_turn_z))
    \<or> rep_inv_quaternion (reportCalibration ''base'' ''cam'' quarter_turn_z)
      = quat_neg (quat_conj (rep_quaternion (reportCalibration ''base'' ''cam'' quarter_turn_z))))"
  using report_inverse_consistent [OF rigid_quarter_turn_z, of "''base''" "''cam''"] rigid_quarter_turn_z
  by (simp add: vneg_def mvmul_def mtrans_def)

end
