(* ===== verification/Session.thy ===== *)
theory Session
  imports Storage Report
begin

text \<open>
  The interactive capture session of \<open>main\<close> (lines 396--496): the global pose
  vectors and motion accumulator (lines 20--27), \<open>addFrame\<close> (lines 297--394)
  and the key loop (lines 444--492), together with the offline branch of
  \<open>main\<close> that loads a pair file (lines 420--430). The state is the record
  \<open>session\<close>; tf lookups and key presses are inputs; the file system and the
  console log are part of the state. \<open>main_step\<close> is one turn of the loop,
  \<open>reachable\<close> the states a session can reach from the start, and the lemmas show
  the invariant that the accumulator always holds \<open>deriveAll\<close> of the stored
  pairs, and what undo, failed lookups and finalize do.
\<close>

section \<open>State\<close>

text \<open>What the program prints that matters for the error paths.\<close>

datatype message =
    Warn_cam_tf_failed
  | Warn_ee_tf_failed
  | Warn_tf_missing
  | Info_first_added
  | Info_pair_added
  | Info_deleted nat
  | Warn_few_pairs
  | Info_key_pressed int
  | Info_report calibration_report

text \<open>The globals of lines 20--27 (frame names are configuration), the files, the log.\<close>

record session =
  baseToTip :: EigenAffineVector
  cameraToTag :: EigenAffineVector
  globals :: motion_acc
  files :: file_system
  log :: "message list"

text \<open>
  The parameters read at lines 406--416: the frame names (globals \<open>EETFname\<close> and
  \<open>cameraTFname\<close> of lines 20--21, printed by the reporter) and the file names.
\<close>

record node_config =
  EETFname :: string
  cameraTFname :: string
  transformPairsRecordFile :: string
  transformPairsLoadFile :: string
  calibratedTransformFile :: string

definition session_init :: "file_system \<Rightarrow> session" where
  "session_init fsys = \<lparr>baseToTip = [], cameraToTag = [], globals = acc_init, files = fsys, log = []\<rparr>"

text \<open>
  The two tf lookups of one capture (lines 303--320): \<open>None\<close> when
  \<open>waitForTransform\<close> times out.
\<close>

record tf_reading =
  cam_lookup :: "affine3 option"
  ee_lookup :: "affine3 option"

section \<open>Operations\<close>

text \<open>
  \<open>addFrame\<close>: with both poses, push them and run the loop body of
  \<open>estimateHandEye\<close> on the globals (lines 329--359 repeat lines 186--208);
  otherwise only warnings.
\<close>

definition addFrame :: "session \<Rightarrow> tf_reading \<Rightarrow> session" where
  "addFrame st rd =
     (let warns = (if cam_lookup rd = None then [Warn_cam_tf_failed] else [])
                @ (if ee_lookup rd = None then [Warn_ee_tf_failed] else [])
      in case (ee_lookup rd, cam_lookup rd) of
           (Some eigenEE, Some eigenCam) \<Rightarrow>
             st\<lparr>baseToTip := baseToTip st @ [eigenEE],
                cameraToTag := cameraToTag st @ [eigenCam],
                globals := add_pair (globals st) eigenEE eigenCam,
                log := log st @ warns @
                  [if firstTransform (globals st) then Info_first_added else Info_pair_added]\<rparr>
         | _ \<Rightarrow> st\<lparr>log := log st @ warns @ [Warn_tf_missing]\<rparr>)"

text \<open>\<open>v.pop_back()\<close>: undefined on an empty vector.\<close>

definition pop_back :: "'a list \<Rightarrow> fault + 'a list" where
  "pop_back xs = (if xs = [] then Inl Pop_back_empty else Inr (butlast xs))"

text \<open>
  Key \<open>d\<close> (lines 453--464): log the count, then six \<open>pop_back\<close>s in the source's
  order. The pair file is not rewritten.
\<close>

definition delete_last :: "session \<Rightarrow> fault + session" where
  "delete_last st =
     (let g = globals st; st = st\<lparr>log := log st @ [Info_deleted (length (rvecsArm g))]\<rparr> in
      bind_res (pop_back (rvecsArm g)) (\<lambda>r1.
      bind_res (pop_back (tvecsArm g)) (\<lambda>t1.
      bind_res (pop_back (rvecsFiducial g)) (\<lambda>r2.
      bind_res (pop_back (tvecsFiducial g)) (\<lambda>t2.
      bind_res (pop_back (baseToTip st)) (\<lambda>b.
      bind_res (pop_back (cameraToTag st)) (\<lambda>c.
        Inr (st\<lparr>baseToTip := b, cameraToTag := c,
                globals := g\<lparr>rvecsArm := r1, tvecsArm := t1, rvecsFiducial := r2, tvecsFiducial := t2\<rparr>\<rparr>))))))))"

text \<open>
  Key \<open>s\<close> (lines 447--452): \<open>addFrame\<close>, then the pair file is rewritten from the
  stored vectors; its return code is ignored.
\<close>

definition capture :: "node_config \<Rightarrow> session \<Rightarrow> tf_reading \<Rightarrow> fault + session" where
  "capture cfg st rd =
     (let st = addFrame st rd in
      bind_res (writeTransformPairsToFile (baseToTip st) (cameraToTag st) (transformPairsRecordFile cfg) (files st))
        (\<lambda>(code, fsys). Inr (st\<lparr>files := fsys\<rparr>)))"

text \<open>
  Key \<open>q\<close> (lines 465--486): warn below five motions but go on, run the solver on
  the global vectors, print the report (\<open>reportCalibration\<close>, logged as
  \<open>Info_report\<close>), write the result; the loop ends.
\<close>

definition finalize :: "screw_solver \<Rightarrow> node_config \<Rightarrow> session \<Rightarrow> fault + session" where
  "finalize solver cfg st =
     (let st = (if length (rvecsArm (globals st)) < 5 then st\<lparr>log := log st @ [Warn_few_pairs]\<rparr> else st);
          (resultAffine, summary) = run_solver solver (globals st);
          st = st\<lparr>log := log st @ [Info_report (reportCalibration (EETFname cfg) (cameraTFname cfg) resultAffine)]\<rparr>
      in bind_res (writeCalibration resultAffine (calibratedTransformFile cfg) summary (files st))
           (\<lambda>fsys. Inr (st\<lparr>files := fsys\<rparr>)))"

text \<open>The characters the loop tests (\<open>getch()\<close> returns an \<open>int\<close>).\<close>

definition is_key :: "char \<Rightarrow> char \<Rightarrow> int \<Rightarrow> bool" where
  "is_key lower upper key \<longleftrightarrow> key = of_char lower \<or> key = of_char upper"

text \<open>
  One turn of the loop of lines 444--492: the new state and whether the loop goes
  on (\<open>break\<close> after \<open>q\<close>). The tf reading is used by \<open>s\<close> only.
\<close>

definition main_step ::
  "screw_solver \<Rightarrow> node_config \<Rightarrow> session \<Rightarrow> int \<Rightarrow> tf_reading \<Rightarrow> fault + session \<times> bool" where
  "main_step solver cfg st key rd =
     (if is_key CHR ''s'' CHR ''S'' key then bind_res (capture cfg st rd) (\<lambda>st. Inr (st, True))
      else if is_key CHR ''d'' CHR ''D'' key then bind_res (delete_last st) (\<lambda>st. Inr (st, True))
      else if is_key CHR ''q'' CHR ''Q'' key then bind_res (finalize solver cfg st) (\<lambda>st. Inr (st, False))
      else Inr (st\<lparr>log := log st @ [Info_key_pressed key]\<rparr>, True))"

text \<open>
  The loop over a sequence of key presses with their tf readings; it stops at the
  first \<open>q\<close> (\<open>False\<close> in the result) or when the input ends (\<open>ros::ok()\<close>
  turning false).
\<close>

fun run_keys ::
  "screw_solver \<Rightarrow> node_config \<Rightarrow> session \<Rightarrow> (int \<times> tf_reading) list \<Rightarrow> fault + session \<times> bool" where
  "run_keys solver cfg st [] = Inr (st, True)"
| "run_keys solver cfg st ((key, rd) # ks) =
     bind_res (main_step solver cfg st key rd)
       (\<lambda>(st', go). if go then run_keys solver cfg st' ks else Inr (st', False))"

text \<open>
  The offline branch of \<open>main\<close> (lines 420--430): read the pairs (the return code
  is ignored), estimate, write the result.
\<close>

definition main_from_file :: "screw_solver \<Rightarrow> node_config \<Rightarrow> file_system \<Rightarrow> fault + file_system" where
  "main_from_file solver cfg fsys =
     bind_res (readTransformPairsFromFile (transformPairsLoadFile cfg) [] [] fsys) (\<lambda>(code, t1, t2).
     bind_res (estimateHandEye solver t1 t2) (\<lambda>(result, summary).
       writeCalibration result (calibratedTransformFile cfg) summary fsys))"

text \<open>The states the loop can be in: from the start, any turn that goes on.\<close>

inductive reachable :: "screw_solver \<Rightarrow> node_config \<Rightarrow> file_system \<Rightarrow> session \<Rightarrow> bool"
  for solver cfg fsys0 where
  start: "reachable solver cfg fsys0 (session_init fsys0)"
| step: "reachable solver cfg fsys0 st \<Longrightarrow> main_step solver cfg st key rd = Inr (st', True)
         \<Longrightarrow> reachable solver cfg fsys0 st'"

text \<open>The invariant: both pose vectors have one entry per pair, and the globals hold
  \<open>deriveAll\<close> of the stored pairs.\<close>

definition session_inv :: "session \<Rightarrow> bool" where
  "session_inv st \<longleftrightarrow> length (cameraToTag st) = length (baseToTip st)
     \<and> globals st = derived_acc (zip (baseToTip st) (cameraToTag st))"

subsection \<open>Example inputs\<close>

text \<open>
  Concrete inputs for the witnesses: a solver that returns the identity, a file
  system where nothing can be written, a reading with both poses, and the state
  after one capture from the start.
\<close>

abbreviation demo_solver :: screw_solver where
  "demo_solver \<equiv> \<lambda>_ _ _ _. (affine_ident, \<lparr>initial_cost = 1, final_cost = 0,
     summary_termination = CONVERGENCE, num_successful_steps = 3, num_unsuccessful_steps = 1\<rparr>)"

abbreviation demo_config :: node_config where
  "demo_config \<equiv> \<lparr>EETFname = ''ee'', cameraTFname = ''cam'', transformPairsRecordFile = ''in.yml'', transformPairsLoadFile = ''in.yml'',
     calibratedTransformFile = ''out.yml''\<rparr>"

abbreviation demo_fs :: file_system where
  "demo_fs \<equiv> \<lparr>fs_files = Map.empty, fs_writable = (\<lambda>_. False)\<rparr>"

abbreviation demo_reading :: tf_reading where
  "demo_reading \<equiv> \<lparr>cam_lookup = Some affine_ident, ee_lookup = Some affine_ident\<rparr>"

abbreviation demo_state :: session where
  "demo_state \<equiv> \<lparr>baseToTip = [affine_ident], cameraToTag = [affine_ident],
     globals = add_pair acc_init affine_ident affine_ident, files = demo_fs, log = [Info_first_added]\<rparr>"

abbreviation demo_fs_w :: file_system where
  "demo_fs_w \<equiv> \<lparr>fs_files = Map.empty, fs_writable = (\<lambda>_. True)\<rparr>"

abbreviation demo_state_w :: session where
  "demo_state_w \<equiv> \<lparr>baseToTip = [affine_ident], cameraToTag = [affine_ident],
     globals = add_pair acc_init affine_ident affine_ident,
     files = fs_store demo_fs_w ''in.yml''
       [(''frameCount'', FInt 1), (key_T1 0, mat_node affine_ident), (key_T2 0, mat_node affine_ident)],
     log = [Info_first_added]\<rparr>"

abbreviation demo_state_w2 :: session where
  "demo_state_w2 \<equiv> \<lparr>baseToTip = [affine_ident, affine_ident], cameraToTag = [affine_ident, affine_ident],
     globals = add_pair (add_pair acc_init affine_ident affine_ident) affine_ident affine_ident,
     files = fs_store demo_fs_w ''in.yml''
       [(''frameCount'', FInt 2), (key_T1 0, mat_node affine_ident), (key_T2 0, mat_node affine_ident),
        (key_T1 1, mat_node affine_ident), (key_T2 1, mat_node affine_ident)],
     log = [Info_first_added, Info_pair_added]\<rparr>"

section \<open>Lemmas\<close>

lemma zip_butlast:
  "length xs = length ys \<Longrightarrow> zip (butlast xs) (butlast ys) = butlast (zip xs ys)"
proof (induction xs ys rule: list_induct2)
  case (Cons x xs y ys)
  then show ?case by (cases xs; cases ys) auto
qed simp

lemma derived_acc_butlast:
  assumes "2 \<le> length ps"
  shows "derived_acc (butlast ps) = (derived_acc ps)\<lparr>
           rvecsArm := butlast (rvecsArm (derived_acc ps)),
           tvecsArm := butlast (tvecsArm (derived_acc ps)),
           rvecsFiducial := butlast (rvecsFiducial (derived_acc ps)),
           tvecsFiducial := butlast (tvecsFiducial (derived_acc ps))\<rparr>"
proof -
  obtain p0 q qs where ps: "ps = p0 # q # qs"
    using assms by (cases ps; cases "tl ps") auto
  then show ?thesis
    by (simp add: derived_acc_def acc_of_def map_butlast)
qed

lemma session_inv_init: "session_inv (session_init fsys)"
  by (simp add: session_inv_def session_init_def)

lemma addFrame_frame [simp]: "files (addFrame st rd) = files st"
  by (simp add: addFrame_def Let_def split: option.split)

lemma addFrame_inv: "session_inv st \<Longrightarrow> session_inv (addFrame st rd)"
  by (auto simp: addFrame_def Let_def session_inv_def add_pair_derived_acc split: option.split)

lemma capture_inv: "capture cfg st rd = Inr st' \<Longrightarrow> session_inv st \<Longrightarrow> session_inv st'"
  using addFrame_inv [of st rd]
  by (auto simp: capture_def Let_def session_inv_def split: prod.splits)

lemma pop_back_Inr [simp]: "pop_back xs = Inr ys \<longleftrightarrow> xs \<noteq> [] \<and> ys = butlast xs"
  by (auto simp: pop_back_def)

lemma delete_last_Inr:
  "delete_last st = Inr st' \<longleftrightarrow>
     rvecsArm (globals st) \<noteq> [] \<and> tvecsArm (globals st) \<noteq> [] \<and>
     rvecsFiducial (globals st) \<noteq> [] \<and> tvecsFiducial (globals st) \<noteq> [] \<and>
     baseToTip st \<noteq> [] \<and> cameraToTag st \<noteq> [] \<and>
     st' = st\<lparr>baseToTip := butlast (baseToTip st), cameraToTag := butlast (cameraToTag st),
              globals := (globals st)\<lparr>rvecsArm := butlast (rvecsArm (globals st)),
                 tvecsArm := butlast (tvecsArm (globals st)),
                 rvecsFiducial := butlast (rvecsFiducial (globals st)),
                 tvecsFiducial := butlast (tvecsFiducial (globals st))\<rparr>,
              log := log st @ [Info_deleted (length (rvecsArm (globals st)))]\<rparr>"
  by (auto simp: delete_last_def Let_def)

lemma rvecsArm_derived_two:
  "rvecsArm (derived_acc ps) \<noteq> [] \<Longrightarrow> 2 \<le> length ps"
  by (cases ps) (auto simp: derived_acc_lists acc_init_def Suc_le_eq)

lemma delete_last_inv: "delete_last st = Inr st' \<Longrightarrow> session_inv st \<Longrightarrow> session_inv st'"
proof -
  assume del: "delete_last st = Inr st'" and inv: "session_inv st"
  let ?ps = "zip (baseToTip st) (cameraToTag st)"
  from inv have g: "globals st = derived_acc ?ps" and len: "length (cameraToTag st) = length (baseToTip st)"
    by (simp_all add: session_inv_def)
  from del have "rvecsArm (globals st) \<noteq> []"
    by (simp add: delete_last_Inr)
  with g have "2 \<le> length ?ps"
    using rvecsArm_derived_two by metis
  then have "derived_acc (butlast ?ps) = (globals st)\<lparr>
           rvecsArm := butlast (rvecsArm (globals st)), tvecsArm := butlast (tvecsArm (globals st)),
           rvecsFiducial := butlast (rvecsFiducial (globals st)),
           tvecsFiducial := butlast (tvecsFiducial (globals st))\<rparr>"
    using g by (simp add: derived_acc_butlast)
  with del len show ?thesis
    by (simp add: delete_last_Inr session_inv_def zip_butlast)
qed

lemma finalize_files_only:
  "finalize solver cfg st = Inr st' \<Longrightarrow> baseToTip st' = baseToTip st \<and> cameraToTag st' = cameraToTag st \<and> globals st' = globals st"
  by (auto simp: finalize_def Let_def split: prod.splits)

lemma session_inv_log [simp]: "session_inv (st\<lparr>log := l\<rparr>) = session_inv st"
  by (simp add: session_inv_def)

lemma main_step_inv:
  assumes "main_step solver cfg st key rd = Inr (st', go)" and "session_inv st"
  shows "session_inv st'"
proof -
  consider "is_key CHR ''s'' CHR ''S'' key" "capture cfg st rd = Inr st'"
    | "is_key CHR ''d'' CHR ''D'' key" "delete_last st = Inr st'"
    | "is_key CHR ''q'' CHR ''Q'' key" "finalize solver cfg st = Inr st'"
    | "st' = st\<lparr>log := log st @ [Info_key_pressed key]\<rparr>"
    using assms(1) unfolding main_step_def by (auto split: if_splits)
  then show ?thesis
  proof cases
    case 1
    from 1(2) assms(2) show ?thesis by (rule capture_inv)
  next
    case 2
    from 2(2) assms(2) show ?thesis by (rule delete_last_inv)
  next
    case 3
    then show ?thesis using assms(2) by (auto simp: session_inv_def dest: finalize_files_only)
  next
    case 4
    then show ?thesis using assms(2) by simp
  qed
qed

lemma reachable_inv:
  "reachable solver cfg fsys0 st \<Longrightarrow> session_inv st"
proof (induction rule: reachable.induct)
  case start
  show ?case by (rule session_inv_init)
next
  case (step st key rd st')
  then show ?case by (blast intro: main_step_inv)
qed


lemma deriveAll_Nil_iff: "deriveAll ps = [] \<longleftrightarrow> length ps < 2"
  by (cases ps) auto

lemma reachable_derived:
  "reachable solver cfg fsys0 st \<Longrightarrow>
   length (cameraToTag st) = length (baseToTip st) \<and>
   globals st = derived_acc (zip (baseToTip st) (cameraToTag st))"
  using reachable_inv by (simp add: session_inv_def)

lemma main_step_s:
  "main_step solver cfg st (of_char CHR ''s'') rd = Inr (st', go) \<Longrightarrow> capture cfg st rd = Inr st' \<and> go"
  by (auto simp: main_step_def is_key_def)

lemma main_step_d:
  "main_step solver cfg st (of_char CHR ''d'') rd = Inr (st', go) \<Longrightarrow> delete_last st = Inr st' \<and> go"
  by (auto simp: main_step_def is_key_def)

lemma delete_last_files: "delete_last st = Inr st' \<Longrightarrow> files st' = files st"
  by (simp add: delete_last_Inr)

lemma capture_file:
  assumes "capture cfg st rd = Inr st'" and "fs_writable (files st) (transformPairsRecordFile cfg)"
  shows "\<exists>d. write_pairs 0 (baseToTip st') (cameraToTag st') = Inr d \<and>
    fs_files (files st') (transformPairsRecordFile cfg)
      = Some ((''frameCount'', FInt (int_of_size (length (baseToTip st')))) # d)"
  using assms
  by (auto simp: capture_def writeTransformPairsToFile_def fs_store_def Let_def split: prod.splits)

lemma main_step_q_files:
  "bind_res (main_step solver cfg st (of_char CHR ''q'') rd) (\<lambda>(st', go). Inr (files st')) =
   (case run_solver solver (globals st) of (r, s) \<Rightarrow> writeCalibration r (calibratedTransformFile cfg) s (files st))"
  by (simp add: main_step_def is_key_def finalize_def Let_def split: prod.split)

lemma finalize_Inr_report:
  assumes "finalize solver cfg st = Inr st'" and "run_solver solver (globals st) = (r, s)"
  shows "last (log st') = Info_report (reportCalibration (EETFname cfg) (cameraTFname cfg) r)
    \<and> writeCalibration r (calibratedTransformFile cfg) s (files st) = Inr (files st')"
  using assms by (cases "length (rvecsArm (globals st)) < 5") (auto simp: finalize_def Let_def bind_res_eq_Inr)

lemma run_keys_reachable:
  "reachable solver cfg fsys0 st \<Longrightarrow> run_keys solver cfg st ks = Inr (st', go) \<Longrightarrow>
   session_inv st' \<and> (go \<longrightarrow> reachable solver cfg fsys0 st')"
proof (induction ks arbitrary: st)
  case Nil
  then show ?case using reachable_inv by auto
next
  case (Cons k ks)
  obtain key rd where k: "k = (key, rd)" by (cases k)
  from Cons.prems(2) k obtain st1 go1 where step: "main_step solver cfg st key rd = Inr (st1, go1)"
    and rest: "(if go1 then run_keys solver cfg st1 ks else Inr (st1, False)) = Inr (st', go)"
    by (auto split: prod.splits)
  show ?case
  proof (cases go1)
    case True
    with step have "main_step solver cfg st key rd = Inr (st1, True)" by simp
    with Cons.prems(1) have "reachable solver cfg fsys0 st1" by (rule reachable.step)
    then show ?thesis using Cons.IH rest True by simp
  next
    case False
    then show ?thesis
      using rest step main_step_inv [OF step reachable_inv [OF Cons.prems(1)]] by simp
  qed
qed

subsection \<open>A session after one capture\<close>

lemma demo_capture:
  "main_step demo_solver demo_config (session_init demo_fs) (of_char CHR ''s'') demo_reading
     = Inr (demo_state, True)"
  by (simp add: main_step_def is_key_def capture_def addFrame_def writeTransformPairsToFile_def
      session_init_def acc_init_def Let_def)

lemma reachable_one_capture: "reachable demo_solver demo_config demo_fs demo_state"
  by (rule reachable.step [OF reachable.start demo_capture])

lemma int_of_size_small_lengths [simp]: "int_of_size (Suc 0) = 1" "int_of_size (Suc (Suc 0)) = 2"
  by (simp_all add: int_of_size_small)

lemma demo_capture_w:
  "main_step demo_solver demo_config (session_init demo_fs_w) (of_char CHR ''s'') demo_reading
     = Inr (demo_state_w, True)"
  by (simp add: main_step_def is_key_def capture_def addFrame_def writeTransformPairsToFile_def
      session_init_def acc_init_def Let_def)

lemma demo_capture_w2:
  "main_step demo_solver demo_config demo_state_w (of_char CHR ''s'') demo_reading
     = Inr (demo_state_w2, True)"
  by (simp add: main_step_def is_key_def capture_def addFrame_def writeTransformPairsToFile_def
      add_pair_def acc_init_def fs_store_def Let_def)

lemma reachable_demo_w: "reachable demo_solver demo_config demo_fs_w demo_state_w"
  by (rule reachable.step [OF reachable.start demo_capture_w])

section \<open>Properties\<close>

text \<open>
  C3. In every state the capture loop can reach, the two pose vectors have the same
  length and the four global motion vectors the solver will receive are exactly the
  rotation vectors and translations of \<open>deriveAll\<close> of the stored pairs: the
  incremental accumulation of \<open>addFrame\<close>, interleaved with undos, agrees with
  the batch derivation.
\<close>

theorem reachable_solver_inputs:
  assumes "reachable solver cfg fsys0 st"
  shows "length (cameraToTag st) = length (baseToTip st)
    \<and> rvecsArm (globals st) = map (rot_vec \<circ> fst) (deriveAll (zip (baseToTip st) (cameraToTag st)))
    \<and> tvecsArm (globals st) = map (aff_translation \<circ> fst) (deriveAll (zip (baseToTip st) (cameraToTag st)))
    \<and> rvecsFiducial (globals st) = map (rot_vec \<circ> snd) (deriveAll (zip (baseToTip st) (cameraToTag st)))
    \<and> tvecsFiducial (globals st) = map (aff_translation \<circ> snd) (deriveAll (zip (baseToTip st) (cameraToTag st)))"
  using reachable_derived [OF assms] by (simp add: derived_acc_lists)

theorem reachable_solver_inputs_witness:
  "reachable demo_solver demo_config demo_fs demo_state \<and>
   length (cameraToTag demo_state) = length (baseToTip demo_state) \<and>
   rvecsArm (globals demo_state) = map (rot_vec \<circ> fst) (deriveAll (zip (baseToTip demo_state) (cameraToTag demo_state)))"
  using reachable_solver_inputs [OF reachable_one_capture] reachable_one_capture by simp

text \<open>
  C4. Undo (key \<open>d\<close>) in a reachable state with fewer than two stored pairs pops an
  empty motion vector, which is undefined behaviour; in particular a capture followed
  by an undo from the empty store does not restore it, contrary to the spec's undo
  contract (no-op when empty, restore after append).
\<close>

theorem undo_needs_two_pairs:
  assumes "reachable solver cfg fsys0 st" and "length (baseToTip st) < 2"
  shows "main_step solver cfg st (of_char CHR ''d'') rd = Inl Pop_back_empty"
proof -
  have "rvecsArm (globals st) = []"
    using reachable_derived [OF assms(1)] assms(2) by (simp add: derived_acc_lists deriveAll_Nil_iff)
  then show ?thesis
    by (simp add: main_step_def is_key_def delete_last_def pop_back_def Let_def)
qed

lemma capture_Some:
  assumes "session_inv st" "ee_lookup rd = Some e" "cam_lookup rd = Some c"
  shows "\<exists>fsys. capture cfg st rd = Inr (st\<lparr>baseToTip := baseToTip st @ [e],
     cameraToTag := cameraToTag st @ [c], globals := add_pair (globals st) e c,
     log := log st @ [if firstTransform (globals st) then Info_first_added else Info_pair_added],
     files := fsys\<rparr>)"
proof -
  have "length (baseToTip st @ [e]) \<le> length (cameraToTag st @ [c])"
    using assms(1) by (simp add: session_inv_def)
  then obtain d where "write_pairs 0 (baseToTip st @ [e]) (cameraToTag st @ [c]) = Inr d"
    using write_pairs_total by blast
  then show ?thesis
    using assms
    by (intro exI [of _ "if fs_writable (files st) (transformPairsRecordFile cfg)
          then fs_store (files st) (transformPairsRecordFile cfg)
                 ((''frameCount'', FInt (int_of_size (length (baseToTip st @ [e])))) # d)
          else files st"])
       (simp add: capture_def addFrame_def writeTransformPairsToFile_def Let_def)
qed

theorem undo_needs_two_pairs_witness:
  "reachable demo_solver demo_config demo_fs demo_state \<and> length (baseToTip demo_state) < 2 \<and>
   main_step demo_solver demo_config demo_state (of_char CHR ''d'') demo_reading = Inl Pop_back_empty"
  using undo_needs_two_pairs [OF reachable_one_capture, of demo_reading] reachable_one_capture by simp

text \<open>
  C6. With at least one pair stored, a successful capture followed by an undo leaves
  both pose vectors and the motion accumulator as they were.
\<close>

theorem capture_then_undo_restores:
  assumes "reachable solver cfg fsys0 st" and "baseToTip st \<noteq> []"
    and "ee_lookup rd = Some e" and "cam_lookup rd = Some c"
  shows "\<exists>st' st''. main_step solver cfg st (of_char CHR ''s'') rd = Inr (st', True)
    \<and> main_step solver cfg st' (of_char CHR ''d'') rd' = Inr (st'', True)
    \<and> baseToTip st'' = baseToTip st \<and> cameraToTag st'' = cameraToTag st \<and> globals st'' = globals st"
proof -
  have inv: "session_inv st" using assms(1) by (rule reachable_inv)
  then obtain fsys where cap: "capture cfg st rd = Inr (st\<lparr>baseToTip := baseToTip st @ [e],
     cameraToTag := cameraToTag st @ [c], globals := add_pair (globals st) e c,
     log := log st @ [if firstTransform (globals st) then Info_first_added else Info_pair_added],
     files := fsys\<rparr>)" (is "_ = Inr ?st'")
    using capture_Some assms(3,4) by blast
  have inv': "session_inv ?st'" using cap inv by (rule capture_inv)
  have g': "globals ?st' = derived_acc (zip (baseToTip st @ [e]) (cameraToTag st @ [c]))"
    using inv' by (simp add: session_inv_def)
  have two: "2 \<le> length (zip (baseToTip st @ [e]) (cameraToTag st @ [c]))"
    using inv assms(2) by (cases "baseToTip st") (auto simp: session_inv_def)
  then have "rvecsArm (globals ?st') \<noteq> [] \<and> tvecsArm (globals ?st') \<noteq> []
      \<and> rvecsFiducial (globals ?st') \<noteq> [] \<and> tvecsFiducial (globals ?st') \<noteq> []"
    unfolding g' by (cases "zip (baseToTip st @ [e]) (cameraToTag st @ [c])")
      (auto simp: derived_acc_lists Suc_le_eq)
  then obtain st'' where del: "delete_last ?st' = Inr st''"
    by (simp add: delete_last_Inr)
  have inv'': "session_inv st''" using del inv' by (rule delete_last_inv)
  have lists: "baseToTip st'' = baseToTip st" "cameraToTag st'' = cameraToTag st"
    using del by (simp_all add: delete_last_Inr)
  have "globals st'' = globals st"
    using inv inv'' lists by (simp add: session_inv_def)
  then show ?thesis
    using cap del lists by (simp add: main_step_def is_key_def)
qed

theorem capture_then_undo_restores_witness:
  "reachable demo_solver demo_config demo_fs demo_state \<and> baseToTip demo_state \<noteq> [] \<and>
   ee_lookup demo_reading = Some affine_ident \<and> cam_lookup demo_reading = Some affine_ident \<and>
   (\<exists>st' st''. main_step demo_solver demo_config demo_state (of_char CHR ''s'') demo_reading = Inr (st', True)
    \<and> main_step demo_solver demo_config st' (of_char CHR ''d'') demo_reading = Inr (st'', True)
    \<and> baseToTip st'' = baseToTip demo_state \<and> cameraToTag st'' = cameraToTag demo_state
    \<and> globals st'' = globals demo_state)"
  using capture_then_undo_restores [OF reachable_one_capture, of demo_reading affine_ident affine_ident demo_reading]
    reachable_one_capture by simp

text \<open>
  C7. A capture whose tf lookup fails for either frame leaves the stored pairs and the
  accumulator unchanged and logs a warning: the acquisition failure is recoverable.
\<close>

theorem failed_lookup_keeps_pairs:
  assumes "reachable solver cfg fsys0 st"
    and "ee_lookup rd = None \<or> cam_lookup rd = None"
  shows "\<exists>st'. main_step solver cfg st (of_char CHR ''s'') rd = Inr (st', True)
    \<and> baseToTip st' = baseToTip st \<and> cameraToTag st' = cameraToTag st
    \<and> globals st' = globals st \<and> Warn_tf_missing \<in> set (log st')"
proof -
  have inv: "session_inv st" using assms(1) by (rule reachable_inv)
  have add: "addFrame st rd = st\<lparr>log := log st @
      (if cam_lookup rd = None then [Warn_cam_tf_failed] else []) @
      (if ee_lookup rd = None then [Warn_ee_tf_failed] else []) @ [Warn_tf_missing]\<rparr>"
    using assms(2) by (auto simp: addFrame_def Let_def split: option.split)
  obtain d where "write_pairs 0 (baseToTip st) (cameraToTag st) = Inr d"
    using inv write_pairs_total by (fastforce simp: session_inv_def)
  then show ?thesis
    by (auto simp: main_step_def is_key_def capture_def add writeTransformPairsToFile_def Let_def)
qed

theorem failed_lookup_keeps_pairs_witness:
  "reachable demo_solver demo_config demo_fs demo_state \<and>
   (ee_lookup \<lparr>cam_lookup = Some affine_ident, ee_lookup = None\<rparr> = None
    \<or> cam_lookup \<lparr>cam_lookup = Some affine_ident, ee_lookup = None\<rparr> = None) \<and>
   (\<exists>st'. main_step demo_solver demo_config demo_state (of_char CHR ''s'') \<lparr>cam_lookup = Some affine_ident, ee_lookup = None\<rparr>
      = Inr (st', True)
    \<and> baseToTip st' = baseToTip demo_state \<and> cameraToTag st' = cameraToTag demo_state
    \<and> globals st' = globals demo_state \<and> Warn_tf_missing \<in> set (log st'))"
  using failed_lookup_keeps_pairs [OF reachable_one_capture,
      of "\<lparr>cam_lookup = Some affine_ident, ee_lookup = None\<rparr>"] reachable_one_capture by simp

text \<open>
  C8. Finalize (key \<open>q\<close>) in a reachable state hands the solver \<open>deriveAll\<close> of
  the stored pairs, prints the report of its result, writes the result, ends the loop,
  and logs the warning exactly when fewer than five motions (six pairs) are stored:
  the minimum count is advisory.
\<close>

theorem finalize_solves_derived:
  assumes "reachable solver cfg fsys0 st"
  shows "main_step solver cfg st (of_char CHR ''q'') rd =
    bind_res (writeCalibration (fst (run_solver solver (derived_acc (zip (baseToTip st) (cameraToTag st)))))
                (calibratedTransformFile cfg)
                (snd (run_solver solver (derived_acc (zip (baseToTip st) (cameraToTag st))))) (files st))
      (\<lambda>fsys. Inr (st\<lparr>log := log st @ (if length (baseToTip st) < 6 then [Warn_few_pairs] else [])
                          @ [Info_report (reportCalibration (EETFname cfg) (cameraTFname cfg)
                               (fst (run_solver solver (derived_acc (zip (baseToTip st) (cameraToTag st))))))],
                       files := fsys\<rparr>, False))"
proof -
  have g: "globals st = derived_acc (zip (baseToTip st) (cameraToTag st))"
    and len: "length (cameraToTag st) = length (baseToTip st)"
    using reachable_derived [OF assms] by simp_all
  have "length (rvecsArm (globals st)) = length (baseToTip st) - 1"
    using g len by (simp add: derived_acc_lists)
  then show ?thesis
    using g by (auto simp: main_step_def is_key_def finalize_def Let_def split: prod.split)
qed

theorem finalize_solves_derived_witness:
  "reachable demo_solver demo_config demo_fs demo_state \<and>
   main_step demo_solver demo_config demo_state (of_char CHR ''q'') demo_reading =
    bind_res (writeCalibration (fst (run_solver demo_solver (derived_acc (zip (baseToTip demo_state) (cameraToTag demo_state)))))
                (calibratedTransformFile demo_config)
                (snd (run_solver demo_solver (derived_acc (zip (baseToTip demo_state) (cameraToTag demo_state))))) (files demo_state))
      (\<lambda>fsys. Inr (demo_state\<lparr>log := log demo_state @ (if length (baseToTip demo_state) < 6 then [Warn_few_pairs] else [])
                          @ [Info_report (reportCalibration (EETFname demo_config) (cameraTFname demo_config)
                               (fst (run_solver demo_solver (derived_acc (zip (baseToTip demo_state) (cameraToTag demo_state))))))],
                       files := fsys\<rparr>, False))"
  using finalize_solves_derived [OF reachable_one_capture, of demo_reading] reachable_one_capture by simp




end
