(* ===== verification/PairStore.thy ===== *)
theory PairStore
  imports Session
begin

text \<open>
  The Pose Pair Store of the specification (section 4.1) as an abstract data type,
  and the refinement of it by the capture session. The abstract state is the list of
  pose pairs; \<open>append\<close> adds a pair at the end, \<open>removeLast\<close> drops the last pair
  (a no-op on the empty store), and the cached relative motions are always
  \<open>deriveAll\<close> of the pairs. The session's state is abstracted to the pairs of its
  two pose vectors (\<open>pairs_of\<close>), each key press to the store operations it
  performs (\<open>key_op\<close>, \<open>key_ops\<close>), and the lemmas show that the key loop of
  \<open>main\<close> implements the store: every run of keys that does not fault leaves the
  pairs the abstract operations compute, with the motion vectors of \<open>deriveAll\<close>.
\<close>

section \<open>Abstract store\<close>

datatype store_op = Append pose_pair | RemoveLast

fun store_step :: "pose_pair list \<Rightarrow> store_op \<Rightarrow> pose_pair list" where
  "store_step ps (Append p) = ps @ [p]"
| "store_step ps RemoveLast = butlast ps"

definition store_run :: "pose_pair list \<Rightarrow> store_op list \<Rightarrow> pose_pair list" where
  "store_run ps ops = foldl store_step ps ops"

section \<open>Abstraction of the session\<close>

definition pairs_of :: "session \<Rightarrow> pose_pair list" where
  "pairs_of st = zip (baseToTip st) (cameraToTag st)"

text \<open>
  The store operations of one key press: \<open>s\<close> with both poses appends them,
  \<open>s\<close> with a failed lookup and every other key change nothing, \<open>d\<close> removes
  the last pair.
\<close>

definition key_op :: "int \<Rightarrow> tf_reading \<Rightarrow> store_op list" where
  "key_op key rd =
     (if is_key CHR ''s'' CHR ''S'' key then
        (case (ee_lookup rd, cam_lookup rd) of (Some e, Some c) \<Rightarrow> [Append (e, c)] | _ \<Rightarrow> [])
      else if is_key CHR ''d'' CHR ''D'' key then [RemoveLast]
      else [])"

text \<open>The operations of a key sequence, up to the first \<open>q\<close>, which ends the loop.\<close>

fun key_ops :: "(int \<times> tf_reading) list \<Rightarrow> store_op list" where
  "key_ops [] = []"
| "key_ops ((key, rd) # ks) =
     key_op key rd @ (if is_key CHR ''q'' CHR ''Q'' key then [] else key_ops ks)"

section \<open>Refinement\<close>

lemma store_run_append [simp]: "store_run ps (ops @ ops') = store_run (store_run ps ops) ops'"
  by (simp add: store_run_def)

lemma store_run_simps [simp]:
  "store_run ps [] = ps" "store_run ps (op # ops) = store_run (store_step ps op) ops"
  by (simp_all add: store_run_def)

lemma capture_pairs:
  assumes "capture cfg st rd = Inr st'" and "session_inv st"
  shows "pairs_of st' = pairs_of st @
    (case (ee_lookup rd, cam_lookup rd) of (Some e, Some c) \<Rightarrow> [(e, c)] | _ \<Rightarrow> [])"
  using assms
  by (auto simp: capture_def addFrame_def Let_def pairs_of_def session_inv_def bind_res_eq_Inr
      split: option.splits prod.splits)

lemma delete_last_pairs:
  assumes "delete_last st = Inr st'" and "session_inv st"
  shows "pairs_of st' = butlast (pairs_of st)"
  using assms by (auto simp: delete_last_Inr pairs_of_def session_inv_def zip_butlast)

lemma main_step_pairs:
  assumes "main_step solver cfg st key rd = Inr (st', go)" and "session_inv st"
  shows "pairs_of st' = store_run (pairs_of st) (key_op key rd)
    \<and> (go \<longleftrightarrow> \<not> is_key CHR ''q'' CHR ''Q'' key)"
proof -
  consider "is_key CHR ''s'' CHR ''S'' key" "capture cfg st rd = Inr st'" "go"
    | "is_key CHR ''d'' CHR ''D'' key" "delete_last st = Inr st'" "go"
    | "is_key CHR ''q'' CHR ''Q'' key" "finalize solver cfg st = Inr st'" "\<not> go"
    | "\<not> is_key CHR ''s'' CHR ''S'' key" "\<not> is_key CHR ''d'' CHR ''D'' key"
      "\<not> is_key CHR ''q'' CHR ''Q'' key" "st' = st\<lparr>log := log st @ [Info_key_pressed key]\<rparr>" "go"
    using assms(1) unfolding main_step_def by (auto split: if_splits)
  then show ?thesis
  proof cases
    case 1
    then show ?thesis
      using capture_pairs [OF _ assms(2)] by (auto simp: key_op_def is_key_def split: option.splits)
  next
    case 2
    then show ?thesis
      using delete_last_pairs [OF _ assms(2)] by (auto simp: key_op_def is_key_def)
  next
    case 3
    then show ?thesis
      using finalize_files_only [OF 3(2)] by (auto simp: key_op_def pairs_of_def is_key_def)
  next
    case 4
    then show ?thesis by (simp add: key_op_def pairs_of_def)
  qed
qed

lemma run_keys_pairs:
  "session_inv st \<Longrightarrow> run_keys solver cfg st ks = Inr (st', go) \<Longrightarrow>
   pairs_of st' = store_run (pairs_of st) (key_ops ks)"
proof (induction ks arbitrary: st)
  case Nil
  then show ?case by simp
next
  case (Cons k ks)
  obtain key rd where k: "k = (key, rd)" by fastforce
  from Cons.prems(2) obtain st1 go1 where
    m: "main_step solver cfg st key rd = Inr (st1, go1)"
    and r: "(if go1 then run_keys solver cfg st1 ks else Inr (st1, False)) = Inr (st', go)"
    by (auto simp: k bind_res_eq_Inr split: prod.splits)
  note p = main_step_pairs [OF m Cons.prems(1)]
  have inv1: "session_inv st1" using main_step_inv [OF m Cons.prems(1)] .
  show ?case
  proof (cases go1)
    case True
    then show ?thesis using Cons.IH [OF inv1] r p by (simp add: k)
  next
    case False
    then show ?thesis using r p by (simp add: k)
  qed
qed

abbreviation demo_keys :: "(int \<times> tf_reading) list" where
  "demo_keys \<equiv> [(of_char CHR ''s'', demo_reading), (of_char CHR ''s'', demo_reading),
                (of_char CHR ''d'', demo_reading)]"

section \<open>Properties\<close>

text \<open>
  C21. The key loop of \<open>main\<close> refines the Pose Pair Store of the specification:
  from a reachable state, every run of key presses that does not fault ends with
  exactly the pairs the abstract \<open>append\<close>/\<open>removeLast\<close> operations of those keys
  compute (a capture whose lookup fails appends nothing, \<open>q\<close> ends the run), and the
  motion accumulator of the final state is the one derived from those pairs.
\<close>

theorem run_keys_refines_store:
  assumes "reachable solver cfg fsys0 st" and "run_keys solver cfg st ks = Inr (st', go)"
  shows "pairs_of st' = store_run (pairs_of st) (key_ops ks) \<and> globals st' = derived_acc (pairs_of st')"
proof -
  have inv: "session_inv st" using reachable_inv [OF assms(1)] .
  have "session_inv st'" using run_keys_reachable [OF assms] by blast
  then show ?thesis
    using run_keys_pairs [OF inv assms(2)] by (simp add: session_inv_def pairs_of_def)
qed

theorem run_keys_refines_store_witness:
  "\<exists>st' go. reachable demo_solver demo_config demo_fs_w (session_init demo_fs_w)
   \<and> run_keys demo_solver demo_config (session_init demo_fs_w) demo_keys = Inr (st', go)
   \<and> pairs_of st' = store_run (pairs_of (session_init demo_fs_w)) (key_ops demo_keys)
   \<and> globals st' = derived_acc (pairs_of st')"
proof -
  obtain st'' where d: "main_step demo_solver demo_config demo_state_w2 (of_char CHR ''d'') demo_reading
      = Inr (st'', True)"
    by (simp add: main_step_def is_key_def delete_last_def pop_back_def add_pair_def acc_init_def Let_def)
  have run: "run_keys demo_solver demo_config (session_init demo_fs_w) demo_keys = Inr (st'', True)"
    by (simp only: run_keys.simps demo_capture_w demo_capture_w2 d bind_res_Inr prod.case if_True)
  show ?thesis
    using run_keys_refines_store [OF reachable.start run] reachable.start run by blast
qed

end
