(* ===== verification/NodeMain.thy ===== *)
theory NodeMain
  imports MainLoop
begin

text \<open>
  The node's entry point, \<open>main\<close> (\<open>src/src/handeye_calibration.cpp\<close>, lines
  396--496), after the parameters are read: with \<open>load_transforms_from_file\<close> it
  calibrates once from the pair file (\<open>main_from_file\<close>); otherwise it starts the
  capture session from empty globals and runs the key loop (\<open>main_loop\<close>) until a
  shutdown, a \<open>q\<close> or a fault. The result is the file system the node leaves. The
  lemmas follow the main use case end to end: a run of captures with both poses
  available, then \<open>q\<close>, leaves a pair file that reads back as exactly the captured
  poses and a calibration file holding the solver's result on their relative motions.
\<close>

section \<open>The entry point\<close>

definition handeye_main ::
  "screw_solver \<Rightarrow> node_config \<Rightarrow> bool \<Rightarrow> file_system \<Rightarrow> event stream \<Rightarrow> (fault + file_system) option" where
  "handeye_main solver cfg loadTransformsFromFile fsys evs =
     (if loadTransformsFromFile then Some (main_from_file solver cfg fsys)
      else map_option (\<lambda>r. bind_res r (\<lambda>st. Inr (files st))) (main_loop solver cfg (session_init fsys) evs))"

text \<open>The key presses of a run of captures, one \<open>s\<close> per reading.\<close>

definition capture_keys :: "tf_reading list \<Rightarrow> (int \<times> tf_reading) list" where
  "capture_keys rds = map (\<lambda>rd. (of_char CHR ''s'', rd)) rds"

section \<open>Lemmas\<close>

lemma main_loop_prefix:
  "run_keys solver cfg st ks = Inr (st', True) \<Longrightarrow>
   main_loop solver cfg st (key_events ks @- evs) = main_loop solver cfg st' evs"
proof (induction ks arbitrary: st)
  case Nil
  then show ?case by (simp add: key_events_def)
next
  case (Cons k ks)
  obtain key rd where k: "k = (key, rd)" by fastforce
  from Cons.prems obtain st1 where
    m: "main_step solver cfg st key rd = Inr (st1, True)"
    and r: "run_keys solver cfg st1 ks = Inr (st', True)"
    by (auto simp: k bind_res_eq_Inr split: prod.splits if_splits)
  show ?case using Cons.IH [OF r] m by (simp add: k key_events_def main_loop_Key)
qed

lemma capture_good:
  assumes "session_inv st" and "ee_lookup rd = Some e" and "cam_lookup rd = Some c"
  shows "\<exists>st'. capture cfg st rd = Inr st' \<and> baseToTip st' = baseToTip st @ [e]
    \<and> cameraToTag st' = cameraToTag st @ [c] \<and> session_inv st'
    \<and> fs_writable (files st') = fs_writable (files st)
    \<and> (\<forall>f. f \<noteq> transformPairsRecordFile cfg \<longrightarrow> fs_files (files st') f = fs_files (files st) f)"
proof -
  obtain st' where cap: "capture cfg st rd = Inr st'"
    using capture_Some [OF assms] by blast
  have "baseToTip st' = baseToTip st @ [e] \<and> cameraToTag st' = cameraToTag st @ [c]"
    using capture_Some [OF assms, of cfg] cap by auto
  moreover have "session_inv st'" using capture_inv [OF cap assms(1)] .
  moreover have "fs_writable (files st') = fs_writable (files st)
    \<and> (\<forall>f. f \<noteq> transformPairsRecordFile cfg \<longrightarrow> fs_files (files st') f = fs_files (files st) f)"
    using cap by (auto simp: capture_def writeTransformPairsToFile_def fs_store_def Let_def bind_res_eq_Inr
        split: prod.splits if_splits)
  ultimately show ?thesis using cap by blast
qed

lemma run_captures:
  assumes "session_inv st" and "\<forall>rd\<in>set rds. ee_lookup rd \<noteq> None \<and> cam_lookup rd \<noteq> None"
  shows "\<exists>st'. run_keys solver cfg st (capture_keys rds) = Inr (st', True)
    \<and> baseToTip st' = baseToTip st @ map (the \<circ> ee_lookup) rds
    \<and> cameraToTag st' = cameraToTag st @ map (the \<circ> cam_lookup) rds
    \<and> session_inv st' \<and> fs_writable (files st') = fs_writable (files st)
    \<and> (\<forall>f. f \<noteq> transformPairsRecordFile cfg \<longrightarrow> fs_files (files st') f = fs_files (files st) f)
    \<and> (rds \<noteq> [] \<longrightarrow> fs_writable (files st) (transformPairsRecordFile cfg) \<longrightarrow>
        (\<exists>d. write_pairs 0 (baseToTip st') (cameraToTag st') = Inr d \<and>
          fs_files (files st') (transformPairsRecordFile cfg)
            = Some ((''frameCount'', FInt (int_of_size (length (baseToTip st')))) # d)))"
  using assms
proof (induction rds arbitrary: st)
  case Nil
  then show ?case by (simp add: capture_keys_def)
next
  case (Cons rd rds)
  obtain e c where ec: "ee_lookup rd = Some e" "cam_lookup rd = Some c" using Cons.prems(2) by auto
  obtain st1 where cap: "capture cfg st rd = Inr st1"
    and l1: "baseToTip st1 = baseToTip st @ [e]" "cameraToTag st1 = cameraToTag st @ [c]"
    and i1: "session_inv st1" and w1: "fs_writable (files st1) = fs_writable (files st)"
    and o1: "\<forall>f. f \<noteq> transformPairsRecordFile cfg \<longrightarrow> fs_files (files st1) f = fs_files (files st) f"
    using capture_good [OF Cons.prems(1) ec] by blast
  have m: "main_step solver cfg st (of_char CHR ''s'') rd = Inr (st1, True)"
    using cap by (simp add: main_step_def is_key_def)
  have h: "\<forall>rd\<in>set rds. ee_lookup rd \<noteq> None \<and> cam_lookup rd \<noteq> None" using Cons.prems(2) by simp
  obtain st' where r: "run_keys solver cfg st1 (capture_keys rds) = Inr (st', True)"
    and l: "baseToTip st' = baseToTip st1 @ map (the \<circ> ee_lookup) rds"
      "cameraToTag st' = cameraToTag st1 @ map (the \<circ> cam_lookup) rds"
    and i: "session_inv st'" and w: "fs_writable (files st') = fs_writable (files st1)"
    and o: "\<forall>f. f \<noteq> transformPairsRecordFile cfg \<longrightarrow> fs_files (files st') f = fs_files (files st1) f"
    and p: "rds \<noteq> [] \<longrightarrow> fs_writable (files st1) (transformPairsRecordFile cfg) \<longrightarrow>
        (\<exists>d. write_pairs 0 (baseToTip st') (cameraToTag st') = Inr d \<and>
          fs_files (files st') (transformPairsRecordFile cfg)
            = Some ((''frameCount'', FInt (int_of_size (length (baseToTip st')))) # d))"
    using Cons.IH [OF i1 h] by blast
  have run: "run_keys solver cfg st (capture_keys (rd # rds)) = Inr (st', True)"
    using m r by (simp add: capture_keys_def)
  have fl: "fs_writable (files st) (transformPairsRecordFile cfg) \<longrightarrow>
        (\<exists>d. write_pairs 0 (baseToTip st') (cameraToTag st') = Inr d \<and>
          fs_files (files st') (transformPairsRecordFile cfg)
            = Some ((''frameCount'', FInt (int_of_size (length (baseToTip st')))) # d))"
  proof (cases rds)
    case Nil
    then have "st' = st1" using r by (simp add: capture_keys_def)
    then show ?thesis using capture_file [OF cap] by blast
  next
    case (Cons a list)
    then show ?thesis using p w1 by simp
  qed
  show ?case using run l l1 i w w1 o o1 fl ec by auto
qed

lemma writeCalibration_doc_fixed:
  assumes "- (2 ^ 31) \<le> num_unsuccessful_steps s + num_successful_steps s"
    and "num_unsuccessful_steps s + num_successful_steps s < 2 ^ 31"
  shows "\<exists>doc. \<forall>fsys. fs_writable fsys f \<longrightarrow> writeCalibration r f s fsys = Inr (fs_store fsys f doc)"
  using assms by (auto simp: writeCalibration_def int32_add_def Let_def)

lemma read_pairs_file_other:
  "fs_files fsys' filename = fs_files fsys filename \<Longrightarrow>
   readTransformPairsFromFile filename t1 t2 fsys' = readTransformPairsFromFile filename t1 t2 fsys"
  by (simp add: readTransformPairsFromFile_def fs_open_read_def)

lemma record_readback:
  assumes good: "\<forall>rd\<in>set rds. ee_lookup rd \<noteq> None \<and> cam_lookup rd \<noteq> None"
    and ne: "rds \<noteq> []" and len: "length rds < 2 ^ 31"
    and w: "fs_writable fsys (transformPairsRecordFile cfg)"
  shows "\<exists>st1. run_keys solver cfg (session_init fsys) (capture_keys rds) = Inr (st1, True)
    \<and> globals st1 = derived_acc (zip (map (the \<circ> ee_lookup) rds) (map (the \<circ> cam_lookup) rds))
    \<and> fs_writable (files st1) = fs_writable fsys
    \<and> readTransformPairsFromFile (transformPairsRecordFile cfg) [] [] (files st1)
        = Inr (0, map (the \<circ> ee_lookup) rds, map (the \<circ> cam_lookup) rds)"
proof -
  let ?st0 = "session_init fsys"
  have s0: "baseToTip ?st0 = []" "cameraToTag ?st0 = []" "files ?st0 = fsys"
    by (simp_all add: session_init_def)
  obtain st1 where run: "run_keys solver cfg ?st0 (capture_keys rds) = Inr (st1, True)"
    and b0: "baseToTip st1 = baseToTip ?st0 @ map (the \<circ> ee_lookup) rds"
    and c0: "cameraToTag st1 = cameraToTag ?st0 @ map (the \<circ> cam_lookup) rds"
    and i: "session_inv st1" and ws0: "fs_writable (files st1) = fs_writable (files ?st0)"
    and p0: "rds \<noteq> [] \<longrightarrow> fs_writable (files ?st0) (transformPairsRecordFile cfg) \<longrightarrow>
        (\<exists>d. write_pairs 0 (baseToTip st1) (cameraToTag st1) = Inr d \<and>
          fs_files (files st1) (transformPairsRecordFile cfg)
            = Some ((''frameCount'', FInt (int_of_size (length (baseToTip st1)))) # d))"
    using run_captures [OF session_inv_init good, of solver cfg] by blast
  have b: "baseToTip st1 = map (the \<circ> ee_lookup) rds" and c: "cameraToTag st1 = map (the \<circ> cam_lookup) rds"
    and ws: "fs_writable (files st1) = fs_writable fsys"
    using b0 c0 ws0 s0 by simp_all
  have p: "\<exists>d. write_pairs 0 (baseToTip st1) (cameraToTag st1) = Inr d \<and>
          fs_files (files st1) (transformPairsRecordFile cfg)
            = Some ((''frameCount'', FInt (int_of_size (length (baseToTip st1)))) # d)"
    using p0 ne w s0 by simp
  obtain d where d: "write_pairs 0 (baseToTip st1) (cameraToTag st1) = Inr d"
    and fl: "fs_files (files st1) (transformPairsRecordFile cfg)
            = Some ((''frameCount'', FInt (int_of_size (length (baseToTip st1)))) # d)"
    using p by blast
  have "readTransformPairsFromFile (transformPairsRecordFile cfg) [] [] (files st1)
      = Inr (0, baseToTip st1, cameraToTag st1)"
    using read_after_write [OF d _ _ fl] b c len by simp
  moreover have "globals st1 = derived_acc (zip (map (the \<circ> ee_lookup) rds) (map (the \<circ> cam_lookup) rds))"
    using i b c by (simp add: session_inv_def)
  ultimately show ?thesis using run b c ws by auto
qed

section \<open>Properties\<close>

text \<open>
  C31. The main use case, end to end: the node started in record mode, given a
  non-empty run of \<open>s\<close> presses whose tf lookups all succeed and then \<open>q\<close>, ends
  normally; the pair file then reads back as exactly the captured poses, and the
  calibration file holds the document \<open>writeCalibration\<close> makes of the solver's
  result on the relative motions of those poses. The assumptions are that both files
  can be written and differ, that the pair count fits an \<open>int\<close>, and that the
  solver's step counts add up within \<open>int\<close>.
\<close>

theorem record_then_quit:
  assumes good: "\<forall>rd\<in>set rds. ee_lookup rd \<noteq> None \<and> cam_lookup rd \<noteq> None"
    and ne: "rds \<noteq> []" and len: "length rds < 2 ^ 31"
    and w: "fs_writable fsys (transformPairsRecordFile cfg)" "fs_writable fsys (calibratedTransformFile cfg)"
    and dif: "transformPairsRecordFile cfg \<noteq> calibratedTransformFile cfg"
    and rs: "run_solver solver (derived_acc (zip (map (the \<circ> ee_lookup) rds) (map (the \<circ> cam_lookup) rds)))
               = (r, s)"
    and steps: "- (2 ^ 31) \<le> num_unsuccessful_steps s + num_successful_steps s"
      "num_unsuccessful_steps s + num_successful_steps s < 2 ^ 31"
  shows "\<exists>fsys' doc. handeye_main solver cfg False fsys
             (key_events (capture_keys rds) @- Key (of_char CHR ''q'') rd' ## evs) = Some (Inr fsys')
    \<and> readTransformPairsFromFile (transformPairsRecordFile cfg) [] [] fsys'
        = Inr (0, map (the \<circ> ee_lookup) rds, map (the \<circ> cam_lookup) rds)
    \<and> writeCalibration r (calibratedTransformFile cfg) s fsys
        = Inr (fs_store fsys (calibratedTransformFile cfg) doc)
    \<and> fs_files fsys' (calibratedTransformFile cfg) = Some doc"
proof -
  obtain st1 where run: "run_keys solver cfg (session_init fsys) (capture_keys rds) = Inr (st1, True)"
    and g0: "globals st1 = derived_acc (zip (map (the \<circ> ee_lookup) rds) (map (the \<circ> cam_lookup) rds))"
    and ws: "fs_writable (files st1) = fs_writable fsys"
    and rb: "readTransformPairsFromFile (transformPairsRecordFile cfg) [] [] (files st1)
        = Inr (0, map (the \<circ> ee_lookup) rds, map (the \<circ> cam_lookup) rds)"
    using record_readback [OF good ne len w(1)] by blast
  obtain doc where doc: "\<forall>fsys. fs_writable fsys (calibratedTransformFile cfg) \<longrightarrow>
      writeCalibration r (calibratedTransformFile cfg) s fsys = Inr (fs_store fsys (calibratedTransformFile cfg) doc)"
    using writeCalibration_doc_fixed [OF steps] by blast
  have wc: "writeCalibration r (calibratedTransformFile cfg) s (files st1)
      = Inr (fs_store (files st1) (calibratedTransformFile cfg) doc)"
    using doc w(2) ws by simp
  obtain st2 where fin: "finalize solver cfg st1 = Inr st2"
    and f2: "files st2 = fs_store (files st1) (calibratedTransformFile cfg) doc"
    using finalize_Inr_files [OF _ wc] rs g0 by fastforce
  have "main_step solver cfg st1 (of_char CHR ''q'') rd' = Inr (st2, False)"
    using fin by (simp add: main_step_def is_key_def)
  then have m: "handeye_main solver cfg False fsys
      (key_events (capture_keys rds) @- Key (of_char CHR ''q'') rd' ## evs) = Some (Inr (files st2))"
    by (simp add: handeye_main_def main_loop_prefix [OF run] main_loop_Key)
  have "fs_files (files st2) (transformPairsRecordFile cfg) = fs_files (files st1) (transformPairsRecordFile cfg)"
    using dif by (simp add: f2 fs_store_def)
  then have "readTransformPairsFromFile (transformPairsRecordFile cfg) [] [] (files st2)
      = Inr (0, map (the \<circ> ee_lookup) rds, map (the \<circ> cam_lookup) rds)"
    using rb read_pairs_file_other by metis
  moreover have "fs_files (files st2) (calibratedTransformFile cfg) = Some doc"
    by (simp add: f2 fs_store_def)
  ultimately show ?thesis using m doc w(2) by blast
qed

theorem record_then_quit_witness:
  "ee_lookup demo_reading \<noteq> None \<and> cam_lookup demo_reading \<noteq> None
   \<and> [demo_reading] \<noteq> [] \<and> length [demo_reading] < 2 ^ 31
   \<and> fs_writable demo_fs_w (transformPairsRecordFile demo_config)
   \<and> fs_writable demo_fs_w (calibratedTransformFile demo_config)
   \<and> transformPairsRecordFile demo_config \<noteq> calibratedTransformFile demo_config
   \<and> run_solver demo_solver (derived_acc (zip (map (the \<circ> ee_lookup) [demo_reading])
        (map (the \<circ> cam_lookup) [demo_reading]))) = (affine_ident, demo_summary)
   \<and> - (2 ^ 31) \<le> num_unsuccessful_steps demo_summary + num_successful_steps demo_summary
   \<and> num_unsuccessful_steps demo_summary + num_successful_steps demo_summary < 2 ^ 31
   \<and> (\<exists>fsys' doc. handeye_main demo_solver demo_config False demo_fs_w
         (key_events (capture_keys [demo_reading]) @- Key (of_char CHR ''q'') demo_reading ## sconst Shutdown)
           = Some (Inr fsys')
     \<and> readTransformPairsFromFile (transformPairsRecordFile demo_config) [] [] fsys'
         = Inr (0, map (the \<circ> ee_lookup) [demo_reading], map (the \<circ> cam_lookup) [demo_reading])
     \<and> writeCalibration affine_ident (calibratedTransformFile demo_config) demo_summary demo_fs_w
         = Inr (fs_store demo_fs_w (calibratedTransformFile demo_config) doc)
     \<and> fs_files fsys' (calibratedTransformFile demo_config) = Some doc)"
proof -
  have rs: "run_solver demo_solver (derived_acc (zip (map (the \<circ> ee_lookup) [demo_reading])
        (map (the \<circ> cam_lookup) [demo_reading]))) = (affine_ident, demo_summary)"
    by (simp add: run_solver_def)
  show ?thesis
    using record_then_quit [of "[demo_reading]" demo_fs_w demo_config, OF _ _ _ _ _ _ rs,
        of demo_reading "sconst Shutdown"] rs
    by simp
qed

end
