(* ===== verification/NodeParams.thy ===== *)
theory NodeParams
  imports NodeMain
begin

text \<open>
  The parameters of \<open>main\<close> (lines 398--416): each \<open>nh.param(name, var, default)\<close>
  reads a private parameter of the node, or keeps the default when the parameter is
  not set (or has another type). The parameter server is a map from names to
  values; \<open>node_params\<close> gives the configuration and the load-mode flag, and
  \<open>node_main\<close> is \<open>main\<close> from the parameter reading on. The tf frame names of the
  marker and of the robot base (\<open>ARTagTF\<close>, \<open>baseTF\<close>) only name the tf lookups,
  whose results are inputs of the model, so they are not part of the configuration.
  The lemmas show that the record run writes no file but the pair file and the
  calibration file, and that with the default names a load run does not read the
  file a record run wrote.
\<close>

section \<open>Parameters\<close>

datatype param_value = PStr string | PBool bool

type_synonym param_server = "string \<rightharpoonup> param_value"

definition param_string :: "param_server \<Rightarrow> string \<Rightarrow> string \<Rightarrow> string" where
  "param_string ps name dflt = (case ps name of Some (PStr v) \<Rightarrow> v | _ \<Rightarrow> dflt)"

definition param_bool :: "param_server \<Rightarrow> string \<Rightarrow> bool \<Rightarrow> bool" where
  "param_bool ps name dflt = (case ps name of Some (PBool v) \<Rightarrow> v | _ \<Rightarrow> dflt)"

definition node_params :: "param_server \<Rightarrow> node_config \<times> bool" where
  "node_params ps =
     (\<lparr>EETFname = param_string ps ''EETF'' ''/ee_fixed_link'',
       cameraTFname = param_string ps ''cameraTF'' ''/camera_2_link'',
       transformPairsRecordFile = param_string ps ''transform_pairs_record_filename'' ''TransformPairsInput.yml'',
       transformPairsLoadFile = param_string ps ''transform_pairs_load_filename'' ''TransformPairsOutput.yml'',
       calibratedTransformFile = param_string ps ''output_calibrated_transform_filename'' ''CalibratedTransform.yml''\<rparr>,
      param_bool ps ''load_transforms_from_file'' False)"

definition node_main ::
  "screw_solver \<Rightarrow> param_server \<Rightarrow> file_system \<Rightarrow> event stream \<Rightarrow> (fault + file_system) option" where
  "node_main solver ps fsys evs = (case node_params ps of (cfg, load) \<Rightarrow> handeye_main solver cfg load fsys evs)"

section \<open>Lemmas\<close>

lemma capture_files_other:
  "capture cfg st rd = Inr st' \<Longrightarrow> f \<noteq> transformPairsRecordFile cfg \<Longrightarrow> fs_files (files st') f = fs_files (files st) f"
  by (auto simp: capture_def writeTransformPairsToFile_def fs_store_def Let_def bind_res_eq_Inr
      split: prod.splits if_splits)

lemma writeCalibration_files_other:
  "writeCalibration r f s fsys = Inr fsys' \<Longrightarrow> g \<noteq> f \<Longrightarrow> fs_files fsys' g = fs_files fsys g"
  by (auto simp: writeCalibration_def fs_store_def Let_def split: if_splits)

lemma main_step_files_other:
  assumes m: "main_step solver cfg st key rd = Inr (st', go)"
    and f: "f \<noteq> transformPairsRecordFile cfg" "f \<noteq> calibratedTransformFile cfg"
  shows "fs_files (files st') f = fs_files (files st) f"
proof -
  consider "capture cfg st rd = Inr st'" | "delete_last st = Inr st'" | "finalize solver cfg st = Inr st'"
    | "st' = st\<lparr>log := log st @ [Info_key_pressed key]\<rparr>"
    using m unfolding main_step_def by (auto simp: bind_res_eq_Inr split: if_splits)
  then show ?thesis
  proof cases
    case 1
    then show ?thesis using capture_files_other f(1) by blast
  next
    case 2
    then show ?thesis by (simp add: delete_last_files)
  next
    case 3
    obtain r s where "run_solver solver (globals st) = (r, s)" by fastforce
    then show ?thesis
      using finalize_Inr_report [OF 3] writeCalibration_files_other f(2) by blast
  next
    case 4
    then show ?thesis by simp
  qed
qed

lemma main_loop_files_other:
  assumes "main_loop solver cfg st evs = Some r"
  shows "\<forall>st'. r = Inr st' \<longrightarrow> f \<noteq> transformPairsRecordFile cfg \<longrightarrow> f \<noteq> calibratedTransformFile cfg
    \<longrightarrow> fs_files (files st') f = fs_files (files st) f"
proof (induction rule: main_loop.raw_induct [OF _ assms])
  case (1 loop solver cfg st evs r)
  show ?case
  proof (intro allI impI)
    fix st'
    assume r: "r = Inr st'" and f1: "f \<noteq> transformPairsRecordFile cfg" and f2: "f \<noteq> calibratedTransformFile cfg"
    show "fs_files (files st') f = fs_files (files st) f"
    proof (cases "shd evs")
      case Shutdown
      then show ?thesis using 1(2) r by simp
    next
      case (Key key rd)
      show ?thesis
      proof (cases "main_step solver cfg st key rd")
        case (Inl e)
        then show ?thesis using 1(2) Key r by simp
      next
        case (Inr p)
        obtain st1 go where p: "p = (st1, go)" by fastforce
        have e1: "fs_files (files st1) f = fs_files (files st) f"
          using main_step_files_other [OF Inr [unfolded p] f1 f2] .
        show ?thesis
        proof (cases go)
          case True
          then have "loop solver cfg st1 (stl evs) = Some (Inr st')" using 1(2) Key Inr p r by simp
          then show ?thesis using 1(1) [of solver cfg st1 "stl evs" "Inr st'"] e1 f1 f2 by simp
        next
          case False
          then show ?thesis using 1(2) Key Inr p r e1 by simp
        qed
      qed
    qed
  qed
qed

lemma node_params_defaults:
  "node_params Map.empty = (\<lparr>EETFname = ''/ee_fixed_link'', cameraTFname = ''/camera_2_link'',
     transformPairsRecordFile = ''TransformPairsInput.yml'', transformPairsLoadFile = ''TransformPairsOutput.yml'',
     calibratedTransformFile = ''CalibratedTransform.yml''\<rparr>, False)"
  "node_params [''load_transforms_from_file'' \<mapsto> PBool True] = (\<lparr>EETFname = ''/ee_fixed_link'',
     cameraTFname = ''/camera_2_link'', transformPairsRecordFile = ''TransformPairsInput.yml'',
     transformPairsLoadFile = ''TransformPairsOutput.yml'', calibratedTransformFile = ''CalibratedTransform.yml''\<rparr>, True)"
  by (simp_all add: node_params_def param_string_def param_bool_def)

section \<open>Properties\<close>

text \<open>
  C38. With the default parameter values, load mode does not load what record mode
  saved: record mode writes the pairs to \<open>TransformPairsInput.yml\<close> while load mode
  reads \<open>TransformPairsOutput.yml\<close>. If that file does not exist, then after any
  record run that ends normally, a second run with only
  \<open>load_transforms_from_file\<close> set finds no pair file and hands the solver empty
  motion vectors, writing its result on no data to the calibration file, whatever
  was recorded.
\<close>

theorem default_load_misses_recording:
  assumes "fs_files fsys ''TransformPairsOutput.yml'' = None"
    and "node_main solver Map.empty fsys evs = Some (Inr fsys1)"
  shows "fs_files fsys1 ''TransformPairsOutput.yml'' = None
    \<and> node_main solver [''load_transforms_from_file'' \<mapsto> PBool True] fsys1 evs'
      = Some (case solver [] [] [] [] of (r, s) \<Rightarrow> writeCalibration r ''CalibratedTransform.yml'' s fsys1)"
proof -
  obtain r where ml: "main_loop solver (fst (node_params Map.empty)) (session_init fsys) evs = Some r"
    and rr: "bind_res r (\<lambda>st. Inr (files st)) = Inr fsys1"
    using assms(2) by (auto simp: node_main_def handeye_main_def node_params_defaults)
  obtain st' where st': "r = Inr st'" and fs1: "files st' = fsys1"
    using rr by (cases r) auto
  have "fs_files fsys1 ''TransformPairsOutput.yml'' = fs_files (files (session_init fsys)) ''TransformPairsOutput.yml''"
    using main_loop_files_other [OF ml, of "''TransformPairsOutput.yml''"] st' fs1
    by (simp add: node_params_defaults)
  then have miss: "fs_files fsys1 ''TransformPairsOutput.yml'' = None"
    using assms(1) by (simp add: session_init_def)
  then show ?thesis
    by (simp add: node_main_def handeye_main_def node_params_defaults main_from_file_def
        readTransformPairsFromFile_def fs_open_read_def estimateHandEye_def run_solver_def acc_init_def
        split: prod.split)
qed

theorem default_load_misses_recording_witness:
  "\<exists>fsys1. fs_files demo_fs_w ''TransformPairsOutput.yml'' = None
   \<and> node_main demo_solver Map.empty demo_fs_w (Key (of_char CHR ''q'') demo_reading ## sconst Shutdown)
       = Some (Inr fsys1)
   \<and> fs_files fsys1 ''TransformPairsOutput.yml'' = None
   \<and> node_main demo_solver [''load_transforms_from_file'' \<mapsto> PBool True] fsys1 (sconst Shutdown)
       = Some (case demo_solver [] [] [] [] of (r, s) \<Rightarrow> writeCalibration r ''CalibratedTransform.yml'' s fsys1)"
proof -
  obtain fsys1 where run: "node_main demo_solver Map.empty demo_fs_w (Key (of_char CHR ''q'') demo_reading ## sconst Shutdown)
       = Some (Inr fsys1)"
    by (simp add: node_main_def handeye_main_def node_params_defaults main_loop_Key main_step_def is_key_def
        finalize_def writeCalibration_def int32_add_def run_solver_def session_init_def Let_def fs_store_def)
  have e: "fs_files demo_fs_w ''TransformPairsOutput.yml'' = None" by simp
  show ?thesis using default_load_misses_recording [OF e run, of "sconst Shutdown"] run by auto
qed

end
