(* ===== verification/RotationVector.thy ===== *)
theory RotationVector
  imports EulerAngles
begin

text \<open>
  What the rotation vectors handed to the solver mean. The specification (glossary)
  defines an axis-angle vector as a 3-vector whose direction is the rotation axis
  and whose length is the angle; the rotation it stands for is given by Rodrigues'
  formula (\<open>rodrigues\<close>). The lemmas show that for every rotation matrix
  \<open>R\<close>, Rodrigues' formula applied to \<open>eigenRotToEigenVector3dAngleAxis R\<close>
  (lines 30--35, through Eigen's quaternion and angle-axis code) gives back
  \<open>R\<close>. The proof goes through the rotation matrix of a quaternion
  (\<open>quat_matrix\<close>, Eigen's \<open>toRotationMatrix\<close>): Shepperd's method yields a
  quaternion whose matrix is \<open>R\<close> on each of its four branches (the three
  vector-first branches are one lemma applied to the cyclic re-indexings
  \<open>mcycle\<close> of \<open>R\<close>), and the angle-axis of a unit quaternion turned into a
  matrix by Rodrigues' formula is the quaternion's matrix.
\<close>

section \<open>Definitions\<close>

text \<open>The rotation matrix of a quaternion.\<close>

definition quat_matrix :: "quat \<Rightarrow> mat3" where
  "quat_matrix q =
     (let x = qx q; y = qy q; z = qz q; w = qw q in
      \<lparr>e00 = 1 - 2 * (y * y + z * z), e01 = 2 * (x * y - z * w), e02 = 2 * (x * z + y * w),
       e10 = 2 * (x * y + z * w), e11 = 1 - 2 * (x * x + z * z), e12 = 2 * (y * z - x * w),
       e20 = 2 * (x * z - y * w), e21 = 2 * (y * z + x * w), e22 = 1 - 2 * (x * x + y * y)\<rparr>)"

text \<open>Re-indexing \<open>i \<mapsto> i + 1 (mod 3)\<close> of the rows and columns, and of the quaternion.\<close>

definition mcycle :: "mat3 \<Rightarrow> mat3" where
  "mcycle m = \<lparr>e00 = e11 m, e01 = e12 m, e02 = e10 m, e10 = e21 m, e11 = e22 m, e12 = e20 m,
                e20 = e01 m, e21 = e02 m, e22 = e00 m\<rparr>"

definition quat_cycle :: "quat \<Rightarrow> quat" where
  "quat_cycle q = \<lparr>qx = qy q, qy = qz q, qz = qx q, qw = qw q\<rparr>"

text \<open>The quaternion of the vector-first branch with \<open>i = 0\<close>.\<close>

definition vector_branch_quat :: "mat3 \<Rightarrow> quat" where
  "vector_branch_quat m =
     (let t = sqrt (e00 m - e11 m - e22 m + 1); h = 1 / 2 / t in
      \<lparr>qx = 1 / 2 * t, qy = (e10 m + e01 m) * h, qz = (e20 m + e02 m) * h, qw = (e21 m - e12 m) * h\<rparr>)"

text \<open>
  Rodrigues' formula for a rotation vector \<open>r\<close> of length \<open>\<theta>\<close>:
  \<open>I + (sin \<theta> / \<theta>) [r]\<^sub>\<times> + ((1 - cos \<theta>) / \<theta>\<^sup>2) [r]\<^sub>\<times>\<^sup>2\<close>, written out entry by entry.
\<close>

definition rodrigues :: "vec3 \<Rightarrow> mat3" where
  "rodrigues r =
     (let th = vnorm r in
      if th = 0 then mident
      else (let k1 = sin th / th; k2 = (1 - cos th) / (th * th); a = vx r; b = vy r; c = vz r in
        \<lparr>e00 = 1 - k2 * (b * b + c * c), e01 = - k1 * c + k2 * (a * b), e02 = k1 * b + k2 * (a * c),
         e10 = k1 * c + k2 * (a * b), e11 = 1 - k2 * (a * a + c * c), e12 = - k1 * a + k2 * (b * c),
         e20 = - k1 * b + k2 * (a * c), e21 = k1 * a + k2 * (b * c), e22 = 1 - k2 * (a * a + b * b)\<rparr>))"

section \<open>Shepperd's method inverts \<open>quat_matrix\<close>\<close>

lemma rotation_polynomial_identities:
  fixes m00 m01 m02 m10 m11 m12 m20 m21 m22 :: real
  assumes cof: "m00 = m11 * m22 - m12 * m21" "m01 = m12 * m20 - m10 * m22" "m02 = m10 * m21 - m11 * m20"
      "m10 = m21 * m02 - m22 * m01" "m11 = m22 * m00 - m20 * m02" "m12 = m20 * m01 - m21 * m00"
      "m20 = m01 * m12 - m02 * m11" "m21 = m02 * m10 - m00 * m12" "m22 = m00 * m11 - m01 * m10"
    and col: "m00 * m00 + m10 * m10 + m20 * m20 = 1" "m01 * m01 + m11 * m11 + m21 * m21 = 1"
      "m02 * m02 + m12 * m12 + m22 * m22 = 1"
      "m00 * m01 + m10 * m11 + m20 * m21 = 0" "m00 * m02 + m10 * m12 + m20 * m22 = 0"
      "m01 * m02 + m11 * m12 + m21 * m22 = 0"
  shows "(m02 - m20) * (m02 - m20) + (m10 - m01) * (m10 - m01) = 2 * (m00 + m11 + m22 + 1) * (1 - m00)"
    "(m21 - m12) * (m21 - m12) + (m10 - m01) * (m10 - m01) = 2 * (m00 + m11 + m22 + 1) * (1 - m11)"
    "(m21 - m12) * (m21 - m12) + (m02 - m20) * (m02 - m20) = 2 * (m00 + m11 + m22 + 1) * (1 - m22)"
    "(m21 - m12) * (m02 - m20) = (m00 + m11 + m22 + 1) * (m01 + m10)"
    "(m21 - m12) * (m10 - m01) = (m00 + m11 + m22 + 1) * (m02 + m20)"
    "(m02 - m20) * (m10 - m01) = (m00 + m11 + m22 + 1) * (m12 + m21)"
    "(m10 + m01) * (m10 + m01) + (m20 + m02) * (m20 + m02) = 2 * (m00 - m11 - m22 + 1) * (1 - m00)"
    "(m00 - m11 - m22 + 1) * (m00 - m11 - m22 + 1) + (m20 + m02) * (m20 + m02)
       = 2 * (m00 - m11 - m22 + 1) * (1 - m11)"
    "(m00 - m11 - m22 + 1) * (m00 - m11 - m22 + 1) + (m10 + m01) * (m10 + m01)
       = 2 * (m00 - m11 - m22 + 1) * (1 - m22)"
    "(m20 + m02) * (m21 - m12) = (m00 - m11 - m22 + 1) * (m10 - m01)"
    "(m10 + m01) * (m21 - m12) = (m00 - m11 - m22 + 1) * (m02 - m20)"
    "(m10 + m01) * (m20 + m02) = (m00 - m11 - m22 + 1) * (m21 + m12)"
  using assms by algebra+

lemma rotation_orthonormal:
  assumes "rotation_matrix m"
  shows "e00 m * e00 m + e10 m * e10 m + e20 m * e20 m = 1"
    "e01 m * e01 m + e11 m * e11 m + e21 m * e21 m = 1"
    "e02 m * e02 m + e12 m * e12 m + e22 m * e22 m = 1"
    "e00 m * e01 m + e10 m * e11 m + e20 m * e21 m = 0"
    "e00 m * e02 m + e10 m * e12 m + e20 m * e22 m = 0"
    "e01 m * e02 m + e11 m * e12 m + e21 m * e22 m = 0"
proof -
  have "mmul (mtrans m) m = mident" using assms by (simp add: rotation_matrix_def)
  then have "e00 (mmul (mtrans m) m) = 1" "e11 (mmul (mtrans m) m) = 1" "e22 (mmul (mtrans m) m) = 1"
    "e01 (mmul (mtrans m) m) = 0" "e02 (mmul (mtrans m) m) = 0" "e12 (mmul (mtrans m) m) = 0"
    by (simp_all add: eigen_defs)
  then show "e00 m * e00 m + e10 m * e10 m + e20 m * e20 m = 1"
    "e01 m * e01 m + e11 m * e11 m + e21 m * e21 m = 1"
    "e02 m * e02 m + e12 m * e12 m + e22 m * e22 m = 1"
    "e00 m * e01 m + e10 m * e11 m + e20 m * e21 m = 0"
    "e00 m * e02 m + e10 m * e12 m + e20 m * e22 m = 0"
    "e01 m * e02 m + e11 m * e12 m + e21 m * e22 m = 0"
    by (simp_all add: eigen_defs)
qed

lemma mcycle_fields [simp]:
  "e00 (mcycle m) = e11 m" "e01 (mcycle m) = e12 m" "e02 (mcycle m) = e10 m"
  "e10 (mcycle m) = e21 m" "e11 (mcycle m) = e22 m" "e12 (mcycle m) = e20 m"
  "e20 (mcycle m) = e01 m" "e21 (mcycle m) = e02 m" "e22 (mcycle m) = e00 m"
  by (simp_all add: mcycle_def)

lemma mcycle_mcycle_mcycle [simp]: "mcycle (mcycle (mcycle m)) = m"
  by (simp add: mcycle_def)

lemma rotation_mcycle: "rotation_matrix m \<Longrightarrow> rotation_matrix (mcycle m)"
  by (simp add: rotation_matrix_def mcycle_def mdet_def cofactor3_def mcoeff_def eigen_defs algebra_simps)

lemma quat_matrix_cycle: "quat_matrix (quat_cycle q) = mcycle (quat_matrix q)"
  by (simp add: quat_matrix_def quat_cycle_def mcycle_def Let_def algebra_simps)

lemma shepperd_entries:
  fixes m00 m01 m02 m10 m11 m12 m20 m21 m22 u s x y z w :: real
  assumes i: "(m10 + m01) * (m10 + m01) + (m20 + m02) * (m20 + m02) = 2 * u * (1 - m00)"
    "u * u + (m20 + m02) * (m20 + m02) = 2 * u * (1 - m11)"
    "u * u + (m10 + m01) * (m10 + m01) = 2 * u * (1 - m22)"
    "(m20 + m02) * (m21 - m12) = u * (m10 - m01)"
    "(m10 + m01) * (m21 - m12) = u * (m02 - m20)"
    "(m10 + m01) * (m20 + m02) = u * (m21 + m12)"
    and s: "s * s = u" "s \<noteq> 0"
    and q: "x * 2 = s" "w * (2 * s) = m21 - m12" "y * (2 * s) = m10 + m01" "z * (2 * s) = m20 + m02"
  shows "1 - 2 * (y * y + z * z) = m00" "2 * (x * y - z * w) = m01" "2 * (x * z + y * w) = m02"
    "2 * (x * y + z * w) = m10" "1 - 2 * (x * x + z * z) = m11" "2 * (y * z - x * w) = m12"
    "2 * (x * z - y * w) = m20" "2 * (y * z + x * w) = m21" "1 - 2 * (x * x + y * y) = m22"
  using assms by algebra+

lemma shepperd_scalar_entries:
  fixes m00 m01 m02 m10 m11 m12 m20 m21 m22 u s x y z w :: real
  assumes i: "(m02 - m20) * (m02 - m20) + (m10 - m01) * (m10 - m01) = 2 * u * (1 - m00)"
    "(m21 - m12) * (m21 - m12) + (m10 - m01) * (m10 - m01) = 2 * u * (1 - m11)"
    "(m21 - m12) * (m21 - m12) + (m02 - m20) * (m02 - m20) = 2 * u * (1 - m22)"
    "(m21 - m12) * (m02 - m20) = u * (m01 + m10)"
    "(m21 - m12) * (m10 - m01) = u * (m02 + m20)"
    "(m02 - m20) * (m10 - m01) = u * (m12 + m21)"
    and s: "s * s = u" "s \<noteq> 0"
    and q: "w * 2 = s" "x * (2 * s) = m21 - m12" "y * (2 * s) = m02 - m20" "z * (2 * s) = m10 - m01"
  shows "1 - 2 * (y * y + z * z) = m00" "2 * (x * y - z * w) = m01" "2 * (x * z + y * w) = m02"
    "2 * (x * y + z * w) = m10" "1 - 2 * (x * x + z * z) = m11" "2 * (y * z - x * w) = m12"
    "2 * (x * z - y * w) = m20" "2 * (y * z + x * w) = m21" "1 - 2 * (x * x + y * y) = m22"
  using assms by algebra+

lemma quat_matrix_vector_branch:
  assumes r: "rotation_matrix m" and u: "0 < e00 m - e11 m - e22 m + 1"
  shows "quat_matrix (vector_branch_quat m) = m"
proof -
  define t where "t = sqrt (e00 m - e11 m - e22 m + 1)"
  have t: "t * t = e00 m - e11 m - e22 m + 1" "t \<noteq> 0" using u by (simp_all add: t_def)
  define q where "q = vector_branch_quat m"
  have f: "qx q * 2 = t" "qw q * (2 * t) = e21 m - e12 m" "qy q * (2 * t) = e10 m + e01 m"
    "qz q * (2 * t) = e20 m + e02 m"
    using t(2) by (simp_all add: q_def vector_branch_quat_def Let_def t_def [symmetric])
  note i = rotation_polynomial_identities [OF rotation_facts(1-9) [OF r] rotation_orthonormal [OF r]]
  note e = shepperd_entries [OF i(7-12) t f]
  show ?thesis
    unfolding q_def [symmetric] quat_matrix_def Let_def using e by (simp add: mat3.equality)
qed

lemma quat_matrix_scalar_branch:
  assumes r: "rotation_matrix m" and p: "0 < mtrace m"
  shows "quat_matrix (quat_of_rotation m) = m"
proof -
  define t where "t = sqrt (mtrace m + 1)"
  have t: "t * t = e00 m + e11 m + e22 m + 1" "t \<noteq> 0" using p by (simp_all add: t_def mtrace_def)
  define q where "q = quat_of_rotation m"
  have f: "qw q * 2 = t" "qx q * (2 * t) = e21 m - e12 m" "qy q * (2 * t) = e02 m - e20 m"
    "qz q * (2 * t) = e10 m - e01 m"
    using t(2) p by (simp_all add: q_def quat_of_rotation_def Let_def t_def [symmetric])
  note i = rotation_polynomial_identities [OF rotation_facts(1-9) [OF r] rotation_orthonormal [OF r]]
  note e = shepperd_scalar_entries [OF i(1-6) t f]
  show ?thesis
    unfolding q_def [symmetric] quat_matrix_def Let_def using e by (simp add: mat3.equality)
qed

lemma quat_matrix_quat_of_rotation:
  assumes r: "rotation_matrix m"
  shows "quat_matrix (quat_of_rotation m) = m"
proof (cases "0 < mtrace m")
  case True
  then show ?thesis using quat_matrix_scalar_branch [OF r] by blast
next
  case False
  then have t: "e00 m + e11 m + e22 m \<le> 0" by (simp add: mtrace_def)
  have r1: "rotation_matrix (mcycle m)" and r2: "rotation_matrix (mcycle (mcycle m))"
    using rotation_mcycle [OF r] rotation_mcycle [OF rotation_mcycle [OF r]] by simp_all
  consider "\<not> e00 m < e11 m" "\<not> e00 m < e22 m" | "e00 m < e11 m" "\<not> e11 m < e22 m"
    | "e00 m < e11 m" "e11 m < e22 m" | "\<not> e00 m < e11 m" "e00 m < e22 m" by blast
  then show ?thesis
  proof cases
    case 1
    have "quat_of_rotation m = vector_branch_quat m"
      using False 1 by (simp add: quat_of_rotation_def vector_branch_quat_def Let_def quat_set_def
          quat_zero_def mcoeff_def)
    moreover have "0 < e00 m - e11 m - e22 m + 1" using 1 t by linarith
    ultimately show ?thesis using quat_matrix_vector_branch [OF r] by simp
  next
    case 2
    have "quat_of_rotation m = quat_cycle (quat_cycle (vector_branch_quat (mcycle m)))"
      using False 2 by (simp add: quat_of_rotation_def vector_branch_quat_def Let_def quat_set_def
          quat_zero_def mcoeff_def quat_cycle_def)
    moreover have "0 < e00 (mcycle m) - e11 (mcycle m) - e22 (mcycle m) + 1" using 2 t by simp
    ultimately show ?thesis using quat_matrix_vector_branch [OF r1] by (simp add: quat_matrix_cycle)
  next
    case 3
    have "0 < e00 (mcycle (mcycle m)) - e11 (mcycle (mcycle m)) - e22 (mcycle (mcycle m)) + 1"
      using 3 t by simp
    moreover have "quat_of_rotation m = quat_cycle (vector_branch_quat (mcycle (mcycle m)))"
      using False 3 by (simp add: quat_of_rotation_def vector_branch_quat_def Let_def quat_set_def
          quat_zero_def mcoeff_def quat_cycle_def)
    ultimately show ?thesis using quat_matrix_vector_branch [OF r2] by (simp add: quat_matrix_cycle)
  next
    case 4
    have "0 < e00 (mcycle (mcycle m)) - e11 (mcycle (mcycle m)) - e22 (mcycle (mcycle m)) + 1"
      using 4 t by simp
    moreover have "quat_of_rotation m = quat_cycle (vector_branch_quat (mcycle (mcycle m)))"
      using False 4 by (simp add: quat_of_rotation_def vector_branch_quat_def Let_def quat_set_def
          quat_zero_def mcoeff_def quat_cycle_def)
    ultimately show ?thesis using quat_matrix_vector_branch [OF r2] by (simp add: quat_matrix_cycle)
  qed
qed

section \<open>Rodrigues' formula of the angle-axis\<close>

lemma rodrigues_quat_entries:
  fixes x y z w n d st ct ux uy uz :: real
  assumes u: "ux * d = x" "uy * d = y" "uz * d = z" and d: "d * d = n * n"
    and t: "st = 2 * w * d" "ct = 1 - 2 * (n * n)"
  shows "1 - (1 - ct) * (uy * uy + uz * uz) = 1 - 2 * (y * y + z * z)"
    "- st * uz + (1 - ct) * (ux * uy) = 2 * (x * y - z * w)"
    "st * uy + (1 - ct) * (ux * uz) = 2 * (x * z + y * w)"
    "st * uz + (1 - ct) * (ux * uy) = 2 * (x * y + z * w)"
    "1 - (1 - ct) * (ux * ux + uz * uz) = 1 - 2 * (x * x + z * z)"
    "- st * ux + (1 - ct) * (uy * uz) = 2 * (y * z - x * w)"
    "- st * uy + (1 - ct) * (ux * uz) = 2 * (x * z - y * w)"
    "st * ux + (1 - ct) * (uy * uz) = 2 * (y * z + x * w)"
    "1 - (1 - ct) * (ux * ux + uy * uy) = 1 - 2 * (x * x + y * y)"
  unfolding t u [symmetric] d [symmetric] by algebra+

lemma rodrigues_vscale:
  assumes "0 < th" and "vnorm u = 1"
  shows "rodrigues (vscale th u) =
    \<lparr>e00 = 1 - (1 - cos th) * (vy u * vy u + vz u * vz u),
     e01 = - sin th * vz u + (1 - cos th) * (vx u * vy u),
     e02 = sin th * vy u + (1 - cos th) * (vx u * vz u),
     e10 = sin th * vz u + (1 - cos th) * (vx u * vy u),
     e11 = 1 - (1 - cos th) * (vx u * vx u + vz u * vz u),
     e12 = - sin th * vx u + (1 - cos th) * (vy u * vz u),
     e20 = - sin th * vy u + (1 - cos th) * (vx u * vz u),
     e21 = sin th * vx u + (1 - cos th) * (vy u * vz u),
     e22 = 1 - (1 - cos th) * (vx u * vx u + vy u * vy u)\<rparr>"
proof -
  have "vnorm (vscale th u) = th" using assms by (simp add: vnorm_vscale)
  then show ?thesis
    using assms(1) by (simp add: rodrigues_def Let_def vscale_def field_simps)
qed

lemma sin_cos_double_atan2:
  assumes "0 < n" and "w * w + n * n = 1"
  shows "sin (2 * atan2 n \<bar>w\<bar>) = 2 * n * \<bar>w\<bar> \<and> cos (2 * atan2 n \<bar>w\<bar>) = 1 - 2 * (n * n)"
proof -
  have s: "sqrt (\<bar>w\<bar>\<^sup>2 + n\<^sup>2) = 1" using assms(2) by (simp add: power2_eq_square)
  have "cos (atan2 n \<bar>w\<bar>) = \<bar>w\<bar>" "sin (atan2 n \<bar>w\<bar>) = n"
    using atan2_cos_sin [of "\<bar>w\<bar>" n] assms(1) s by simp_all
  then show ?thesis by (simp add: sin_double cos_double_sin power2_eq_square)
qed

lemma rodrigues_angle_axis:
  assumes q: "quat_sqnorm q = 1"
  shows "rodrigues (vscale (aa_angle (angle_axis_of_quat q)) (aa_axis (angle_axis_of_quat q))) = quat_matrix q"
proof (cases "vnorm (quat_vec q) = 0")
  case True
  then have "qx q = 0" "qy q = 0" "qz q = 0"
    by (simp_all add: vnorm_def vsqnorm_def quat_vec_def add_nonneg_eq_0_iff)
  then show ?thesis
    using True by (simp add: angle_axis_of_quat_def rodrigues_def quat_matrix_def vscale_def vnorm_def
        vsqnorm_def eigen_defs)
next
  case False
  define n where "n = vnorm (quat_vec q)"
  define w where "w = qw q"
  define d where "d = (if w < 0 then - n else n)"
  define th where "th = 2 * atan2 n \<bar>w\<bar>"
  define u where "u = vscale (1 / d) (quat_vec q)"
  have n0: "0 < n" using False vnorm_nonneg [of "quat_vec q"] unfolding n_def by linarith
  have nn: "n * n = qx q * qx q + qy q * qy q + qz q * qz q"
    by (simp add: n_def vnorm_def vsqnorm_def quat_vec_def)
  have wn: "w * w + n * n = 1" using q nn by (simp add: quat_sqnorm_def w_def power2_eq_square)
  have d0: "d \<noteq> 0" "d * d = n * n" using n0 by (simp_all add: d_def)
  have aa: "angle_axis_of_quat q = \<lparr>aa_angle = th, aa_axis = u\<rparr>"
    using False by (simp add: angle_axis_of_quat_def Let_def n_def w_def d_def th_def u_def)
  have th0: "0 < th"
    using atan2_nonneg_bounds [of n "\<bar>w\<bar>"] n0 by (simp add: th_def)
  have "vnorm u = 1"
    using angle_axis_of_quat_vector_norm [of q] False d0(1)
    by (simp add: u_def vnorm_vscale n_def d_def)
  note r = rodrigues_vscale [OF th0 this]
  have st: "sin th = 2 * w * d" and ct: "cos th = 1 - 2 * (n * n)"
    using sin_cos_double_atan2 [OF n0 wn] by (auto simp: th_def d_def)
  have uf: "vx u * d = qx q" "vy u * d = qy q" "vz u * d = qz q"
    using d0(1) by (simp_all add: u_def vscale_def quat_vec_def)
  note e = rodrigues_quat_entries [OF uf d0(2) st ct]
  have "rodrigues (vscale th u) = quat_matrix q"
    unfolding r quat_matrix_def Let_def using e by (simp add: w_def mat3.equality)
  then show ?thesis by (simp add: aa)
qed

section \<open>Properties\<close>

text \<open>
  C29. The rotation vector is exact: for every rotation matrix \<open>R\<close>, the vector
  \<open>eigenRotToEigenVector3dAngleAxis R\<close> (angle times axis) stands for \<open>R\<close>
  itself, that is, Rodrigues' formula applied to it gives back \<open>R\<close>, whichever
  branch of Eigen's conversion runs.
\<close>

theorem rotation_vector_exact:
  assumes "rotation_matrix m"
  shows "rodrigues (eigenRotToEigenVector3dAngleAxis m) = m"
  using rodrigues_angle_axis [OF quat_of_rotation_unit [OF assms]] quat_matrix_quat_of_rotation [OF assms]
  by (simp add: eigenRotToEigenVector3dAngleAxis_def Let_def)

theorem rotation_vector_exact_witness:
  "rotation_matrix (rot_z (pi / 2)) \<and>
   rodrigues (eigenRotToEigenVector3dAngleAxis (rot_z (pi / 2))) = rot_z (pi / 2)"
  using rotation_vector_exact [OF rotation_matrix_rot_z] rotation_matrix_rot_z by blast

end
