(* ===== verification/SolverContract.thy ===== *)
theory SolverContract
  imports Session RotationVector
begin

text \<open>
  The contract of the AX=XB Estimator (specification, section 4.3) as an abstract
  specification of the solver parameter, and what the node guarantees for every
  solver that meets it. The solver (\<open>camodocal::HandEyeCalibration::estimateHandEyeScrew\<close>,
  called at line 195) is not part of the repository; its contract is modelled from the
  specification: the transform returned is rigid, and the refinement minimises the
  residual between \<open>A\<^sub>i X\<close> and \<open>X B\<^sub>i\<close>, so whenever some rigid transform makes every
  residual zero the returned transform does too (exact arithmetic, exact optimum).
  Here \<open>A\<^sub>i\<close> and \<open>B\<^sub>i\<close> are the motions the solver reads from its inputs: the rotation
  of each axis-angle vector by Rodrigues' formula, with the translation beside it.
  The lemmas show that the vectors the session hands the solver stand for exactly
  the relative motions of the captured poses, so that the contract applies to the
  true hand-eye transform of a rig.
\<close>

section \<open>The contract\<close>

definition motion_of :: "vec3 \<Rightarrow> vec3 \<Rightarrow> affine3" where
  "motion_of r t = \<lparr>aff_linear = rodrigues r, aff_translation = t\<rparr>"

text \<open>A transform with zero residual on every motion of the solver's input.\<close>

definition solves_motions :: "affine3 \<Rightarrow> motion_acc \<Rightarrow> bool" where
  "solves_motions X acc \<longleftrightarrow> (\<forall>k < length (rvecsArm acc).
     affine_mul (motion_of (rvecsArm acc ! k) (tvecsArm acc ! k)) X
       = affine_mul X (motion_of (rvecsFiducial acc ! k) (tvecsFiducial acc ! k)))"

definition solver_contract :: "screw_solver \<Rightarrow> motion_acc \<Rightarrow> bool" where
  "solver_contract solver acc \<longleftrightarrow>
     rigid (fst (run_solver solver acc))
     \<and> ((\<exists>Z. rigid Z \<and> solves_motions Z acc) \<longrightarrow> solves_motions (fst (run_solver solver acc)) acc)"

section \<open>Lemmas\<close>

lemma rodrigues_rot_vec_relative:
  assumes "rigid e0" and "rigid e"
  shows "rodrigues (rot_vec (affine_mul (affine_inverse e0) e)) = mmul (mtrans (aff_linear e0)) (aff_linear e)"
proof -
  have r0: "rotation_matrix (aff_linear e0)" and r: "rotation_matrix (aff_linear e)"
    using assms by (simp_all add: rigid_def)
  have l: "aff_linear (affine_mul (affine_inverse e0) e) = mmul (mtrans (aff_linear e0)) (aff_linear e)"
    using relative_motion_linear [OF assms(1)] rotation_minverse [OF r0] by simp
  have "rotation_matrix (mmul (mtrans (aff_linear e0)) (aff_linear e))"
    using rotation_matrix_mmul [OF rotation_matrix_minverse [OF r0] r] rotation_minverse [OF r0] by simp
  then show ?thesis
    using rodrigues_angle_axis [OF quat_of_rotation_unit] quat_matrix_quat_of_rotation l
    by (simp add: rot_vec_def affine_rotation_def eigenRotToEigenVector3dAngleAxis_def Let_def)
qed

text \<open>The motion the solver reads back from a relative motion's vectors is that motion.\<close>

lemma motion_of_relative:
  assumes "rigid e0" and "rigid e"
  shows "motion_of (rot_vec (affine_mul (affine_inverse e0) e)) (aff_translation (affine_mul (affine_inverse e0) e))
    = affine_mul (affine_inverse e0) e"
proof -
  have "aff_linear (affine_mul (affine_inverse e0) e) = mmul (mtrans (aff_linear e0)) (aff_linear e)"
    using relative_motion_linear [OF assms(1)] rotation_minverse assms(1) by (simp add: rigid_def)
  then show ?thesis
    using rodrigues_rot_vec_relative [OF assms] by (intro affine3.equality) (simp_all add: motion_of_def)
qed

lemma solves_motions_pairs:
  assumes len: "length cs = length bs" and rb: "list_all rigid bs" and rc: "list_all rigid cs"
  shows "solves_motions Z (derived_acc (zip bs cs)) \<longleftrightarrow>
    (\<forall>k. Suc k < length bs \<longrightarrow>
       affine_mul (affine_mul (affine_inverse (hd bs)) (bs ! Suc k)) Z
         = affine_mul Z (affine_mul (affine_inverse (hd cs)) (cs ! Suc k)))"
proof (cases bs)
  case Nil
  then show ?thesis by (simp add: solves_motions_def derived_acc_def acc_init_def)
next
  case (Cons b0 bs')
  obtain c0 cs' where c: "cs = c0 # cs'" using len Cons by (cases cs) auto
  have m: "motion_of (rot_vec (affine_mul (affine_inverse b0) (bs' ! k))) (aff_translation (affine_mul (affine_inverse b0) (bs' ! k)))
        = affine_mul (affine_inverse b0) (bs' ! k)"
    "motion_of (rot_vec (affine_mul (affine_inverse c0) (cs' ! k))) (aff_translation (affine_mul (affine_inverse c0) (cs' ! k)))
        = affine_mul (affine_inverse c0) (cs' ! k)"
    if k: "k < length bs'" for k
    using rb rc len k Cons c by (auto intro!: motion_of_relative simp: list_all_iff)
  show ?thesis
    using len m by (auto simp: solves_motions_def derived_acc_lists relative_to_def Cons c)
qed

lemma rig_solves_motions:
  assumes len: "length cs = length bs" and rb: "list_all rigid bs" and rc: "list_all rigid cs"
    and rig: "rig_consistent X Y (zip bs cs)"
  shows "solves_motions X (derived_acc (zip bs cs))"
proof -
  have "affine_mul (affine_mul (affine_inverse (hd bs)) (bs ! Suc k)) X
      = affine_mul X (affine_mul (affine_inverse (hd cs)) (cs ! Suc k))" if k: "Suc k < length bs" for k
  proof -
    have "(hd bs, hd cs) \<in> set (zip bs cs)"
      using k len by (cases bs; cases cs) auto
    moreover have "(bs ! Suc k, cs ! Suc k) \<in> set (zip bs cs)"
      using nth_mem [of "Suc k" "zip bs cs"] k len by simp
    moreover have "rigid (hd bs)" "rigid (hd cs)"
      using rb rc k len by (cases bs; cases cs; simp)+
    ultimately show ?thesis
      using relative_to_AX_XB [of "(hd bs, hd cs)" X Y "(bs ! Suc k, cs ! Suc k)"] rig
      by (auto simp: relative_to_def rig_consistent_def list_all_iff)
  qed
  then show ?thesis using solves_motions_pairs [OF assms(1-3)] by blast
qed

lemma q_finalizes:
  assumes "main_step solver cfg st (of_char CHR ''q'') rd = Inr (st', go)"
    and "run_solver solver (globals st) = (r, s)"
    and "fs_writable (files st) (calibratedTransformFile cfg)"
  shows "last (log st') = Info_report (reportCalibration (EETFname cfg) (cameraTFname cfg) r)
    \<and> (\<exists>doc. fs_files (files st') (calibratedTransformFile cfg) = Some doc
      \<and> map_of doc ''handToEyeTF'' = Some (FMat 1 7 [vx (aff_translation r), vy (aff_translation r), vz (aff_translation r),
           qx (quat_of_rotation (affine_rotation r)), qy (quat_of_rotation (affine_rotation r)),
           qz (quat_of_rotation (affine_rotation r)), qw (quat_of_rotation (affine_rotation r))])
      \<and> map_of doc ''handToEyeTransform'' = Some (mat_node r))"
proof -
  have "finalize solver cfg st = Inr st'"
    using assms(1) by (auto simp: main_step_def is_key_def bind_res_eq_Inr)
  note rep = finalize_Inr_report [OF this assms(2)]
  then show ?thesis using writeCalibration_doc [OF conjunct2 [OF rep] assms(3)] by blast
qed

section \<open>Properties\<close>

text \<open>
  C32. End-to-end correctness up to the solver: if the poses of a reachable session
  are rigid and come from a rig with a rigid hand-eye transform \<open>X\<close> (every pair
  closes \<open>E X = Y C\<close>), and the solver meets its contract on the session's vectors,
  then \<open>q\<close> writes to the calibration file a rigid transform \<open>Z\<close> that satisfies
  \<open>A\<^sub>k Z = Z B\<^sub>k\<close> for every captured relative motion \<open>A\<^sub>k = E\<^sub>0\<^sup>-\<^sup>1 E\<^sub>k\<^sub>+\<^sub>1\<close>,
  \<open>B\<^sub>k = C\<^sub>0\<^sup>-\<^sup>1 C\<^sub>k\<^sub>+\<^sub>1\<close>: the stored result fits the data exactly as the true
  transform does.
\<close>

theorem q_writes_exact_solution:
  assumes "reachable solver cfg fsys0 st"
    and "list_all rigid (baseToTip st)" "list_all rigid (cameraToTag st)"
    and "rigid X" "rig_consistent X Y (zip (baseToTip st) (cameraToTag st))"
    and "solver_contract solver (globals st)"
    and "main_step solver cfg st (of_char CHR ''q'') rd = Inr (st', go)"
    and "fs_writable (files st) (calibratedTransformFile cfg)"
  shows "\<exists>Z doc. rigid Z \<and> fs_files (files st') (calibratedTransformFile cfg) = Some doc
    \<and> map_of doc ''handToEyeTransform'' = Some (mat_node Z)
    \<and> (\<forall>k. Suc k < length (baseToTip st) \<longrightarrow>
         affine_mul (affine_mul (affine_inverse (hd (baseToTip st))) (baseToTip st ! Suc k)) Z
           = affine_mul Z (affine_mul (affine_inverse (hd (cameraToTag st))) (cameraToTag st ! Suc k)))"
proof -
  obtain r s where rs: "run_solver solver (globals st) = (r, s)" by fastforce
  have len: "length (cameraToTag st) = length (baseToTip st)"
    and g: "globals st = derived_acc (zip (baseToTip st) (cameraToTag st))"
    using reachable_derived [OF assms(1)] by simp_all
  have "solves_motions X (globals st)"
    using rig_solves_motions [OF len assms(2,3,5)] g by simp
  then have r: "rigid r" and sol: "solves_motions r (derived_acc (zip (baseToTip st) (cameraToTag st)))"
    using assms(4,6) rs g by (auto simp: solver_contract_def)
  show ?thesis
    using q_finalizes [OF assms(7) rs assms(8)] r sol solves_motions_pairs [OF len assms(2,3)] by blast
qed

theorem q_writes_exact_solution_witness:
  "reachable demo_solver demo_config demo_fs_w demo_state_w2
   \<and> list_all rigid (baseToTip demo_state_w2) \<and> list_all rigid (cameraToTag demo_state_w2)
   \<and> rigid affine_ident \<and> rig_consistent affine_ident affine_ident (zip (baseToTip demo_state_w2) (cameraToTag demo_state_w2))
   \<and> solver_contract demo_solver (globals demo_state_w2)
   \<and> (\<exists>st' go. main_step demo_solver demo_config demo_state_w2 (of_char CHR ''q'') demo_reading = Inr (st', go)
     \<and> fs_writable (files demo_state_w2) (calibratedTransformFile demo_config)
     \<and> (\<exists>Z doc. rigid Z \<and> fs_files (files st') (calibratedTransformFile demo_config) = Some doc
       \<and> map_of doc ''handToEyeTransform'' = Some (mat_node Z)
       \<and> (\<forall>k. Suc k < length (baseToTip demo_state_w2) \<longrightarrow>
            affine_mul (affine_mul (affine_inverse (hd (baseToTip demo_state_w2))) (baseToTip demo_state_w2 ! Suc k)) Z
              = affine_mul Z (affine_mul (affine_inverse (hd (cameraToTag demo_state_w2))) (cameraToTag demo_state_w2 ! Suc k)))))"
proof -
  have reach: "reachable demo_solver demo_config demo_fs_w demo_state_w2"
    by (rule reachable.step [OF reachable_demo_w demo_capture_w2])
  have ri: "rigid affine_ident" by (rule rigid_affine_ident)
  have rb: "list_all rigid (baseToTip demo_state_w2)" "list_all rigid (cameraToTag demo_state_w2)"
    using ri by simp_all
  have rig: "rig_consistent affine_ident affine_ident (zip (baseToTip demo_state_w2) (cameraToTag demo_state_w2))"
    by (simp add: rig_consistent_def)
  have g: "globals demo_state_w2 = derived_acc (zip (baseToTip demo_state_w2) (cameraToTag demo_state_w2))"
    using reachable_derived [OF reach] by simp
  have "solves_motions affine_ident (globals demo_state_w2)"
    using rig_solves_motions [OF _ rb rig] g by simp
  then have c: "solver_contract demo_solver (globals demo_state_w2)"
    using ri by (simp add: solver_contract_def run_solver_def)
  obtain st' go where q: "main_step demo_solver demo_config demo_state_w2 (of_char CHR ''q'') demo_reading = Inr (st', go)"
    by (simp add: main_step_def is_key_def finalize_def writeCalibration_def int32_add_def run_solver_def
        add_pair_def acc_init_def Let_def fs_store_def) blast
  have w: "fs_writable (files demo_state_w2) (calibratedTransformFile demo_config)"
    by (simp add: fs_store_def)
  show ?thesis
    using q_writes_exact_solution [OF reach rb ri rig c q w] reach rb ri rig c q w by blast
qed

text \<open>
  C33. The three printed forms of the result describe one rotation: when the solver
  returns a rigid transform (the first half of its contract), \<open>q\<close> stores it as the
  4x4 matrix of a rigid \<open>Z\<close>, and the report it logs (whose matrix is that of \<open>Z\<close>)
  prints a unit quaternion, the one stored in the 7-tuple, whose rotation matrix is
  that of \<open>Z\<close>, and roll-pitch-yaw angles that rebuild that same matrix as
  \<open>R\<^sub>z(yaw) R\<^sub>y(pitch) R\<^sub>x(roll)\<close>.
\<close>

theorem q_report_one_rotation:
  assumes "rigid (fst (run_solver solver (globals st)))"
    and "main_step solver cfg st (of_char CHR ''q'') rd = Inr (st', go)"
    and "fs_writable (files st) (calibratedTransformFile cfg)"
  shows "\<exists>Z r doc. rigid Z \<and> last (log st') = Info_report r \<and> rep_matrix r = affine_matrix Z
    \<and> fs_files (files st') (calibratedTransformFile cfg) = Some doc
    \<and> map_of doc ''handToEyeTransform'' = Some (mat_node Z)
    \<and> map_of doc ''handToEyeTF'' = Some (FMat 1 7 [vx (rep_translation r), vy (rep_translation r), vz (rep_translation r),
         qx (rep_quaternion r), qy (rep_quaternion r), qz (rep_quaternion r), qw (rep_quaternion r)])
    \<and> quat_sqnorm (rep_quaternion r) = 1 \<and> quat_matrix (rep_quaternion r) = aff_linear Z
    \<and> euler_matrix (vz (rep_rpy r)) (vy (rep_rpy r)) (vx (rep_rpy r)) = aff_linear Z"
proof -
  obtain r s where rs: "run_solver solver (globals st) = (r, s)" by fastforce
  have rot: "rotation_matrix (aff_linear r)" using assms(1) rs by (simp add: rigid_def)
  have e: "euler_matrix (vz (rpy_of_rotation (aff_linear r))) (vy (rpy_of_rotation (aff_linear r)))
      (vx (rpy_of_rotation (aff_linear r))) = aff_linear r"
  proof (cases "e21 (aff_linear r) = 0 \<and> e22 (aff_linear r) = 0")
    case True
    then show ?thesis using rpy_reconstructs_gimbal [OF rot] by blast
  next
    case False
    then have "0 < (e21 (aff_linear r))\<^sup>2 + (e22 (aff_linear r))\<^sup>2" by (auto simp: add_pos_nonneg add_nonneg_pos)
    then show ?thesis using rpy_reconstructs_regular [OF rot] by blast
  qed
  have "rigid r" using rot by (simp add: rigid_def)
  then show ?thesis
    using q_finalizes [OF assms(2) rs assms(3)] e quat_of_rotation_unit [OF rot] quat_matrix_quat_of_rotation [OF rot]
    by (intro exI [of _ r]) (auto simp: reportCalibration_def Let_def affine_rotation_def)
qed

theorem q_report_one_rotation_witness:
  "\<exists>st' go. rigid (fst (run_solver demo_solver (globals demo_state_w)))
   \<and> main_step demo_solver demo_config demo_state_w (of_char CHR ''q'') demo_reading = Inr (st', go)
   \<and> fs_writable (files demo_state_w) (calibratedTransformFile demo_config)
   \<and> (\<exists>Z r doc. rigid Z \<and> last (log st') = Info_report r \<and> rep_matrix r = affine_matrix Z
    \<and> fs_files (files st') (calibratedTransformFile demo_config) = Some doc
    \<and> map_of doc ''handToEyeTransform'' = Some (mat_node Z)
    \<and> map_of doc ''handToEyeTF'' = Some (FMat 1 7 [vx (rep_translation r), vy (rep_translation r), vz (rep_translation r),
         qx (rep_quaternion r), qy (rep_quaternion r), qz (rep_quaternion r), qw (rep_quaternion r)])
    \<and> quat_sqnorm (rep_quaternion r) = 1 \<and> quat_matrix (rep_quaternion r) = aff_linear Z
    \<and> euler_matrix (vz (rep_rpy r)) (vy (rep_rpy r)) (vx (rep_rpy r)) = aff_linear Z)"
proof -
  have ri: "rigid (fst (run_solver demo_solver (globals demo_state_w)))"
    by (simp add: run_solver_def)
  obtain st' go where q: "main_step demo_solver demo_config demo_state_w (of_char CHR ''q'') demo_reading = Inr (st', go)"
    by (simp add: main_step_def is_key_def finalize_def writeCalibration_def int32_add_def run_solver_def
        add_pair_def acc_init_def Let_def fs_store_def) blast
  have w: "fs_writable (files demo_state_w) (calibratedTransformFile demo_config)"
    by (simp add: fs_store_def)
  show ?thesis
    using q_report_one_rotation [OF ri q w] ri q w by blast
qed

end
