(* ===== verification/Terminal.thy ===== *)
theory Terminal
  imports Prelude "HOL-Library.Word"
begin

unbundle bit_operations_syntax

text \<open>
  Terminal input: \<open>getch\<close> (\<open>src/src/handeye_calibration.cpp\<close>, lines 283--295),
  which the key loop of \<open>main\<close> calls once per turn. It saves the terminal's
  attributes into a static \<open>termios\<close>, clears the \<open>ICANON\<close> bit of their local
  flags (\<open>c_lflag &= ~(ICANON)\<close>, a 32-bit \<open>tcflag_t\<close>), applies them, reads one
  character with \<open>getchar\<close> and restores the saved attributes. The terminal and
  the C library are modelled from POSIX: the attributes the program touches (the
  local flags, and \<open>VMIN\<close>, which decides whether a non-canonical read waits), the
  bytes typed and not yet read, and whether the input has ended. A read that waits
  for input that has not come is \<open>None\<close>. \<open>tcgetattr\<close> and \<open>tcsetattr\<close> fail
  when standard input is not a terminal; the code ignores their results, and the
  static structures then keep their previous contents (zero at first).
  The lemmas show that a pending key is returned at once, without a newline,
  whatever the line discipline was; that the attributes are restored; that the
  value returned is a byte or \<open>EOF\<close>; and that with no key pending the call waits.
\<close>

section \<open>Terminal and C library\<close>

type_synonym tcflag_t = "32 word"
type_synonym cc_t = "8 word"

record termios =
  c_lflag :: tcflag_t
  c_cc_VMIN :: cc_t

text \<open>\<open>ICANON\<close> is \<open>0000002\<close> in \<open><termios.h>\<close>; \<open>EOF\<close> is \<open>-1\<close>.\<close>

definition ICANON :: tcflag_t where
  "ICANON = 2"

definition EOF :: int where
  "EOF = -1"

record terminal =
  tty_isatty :: bool
  tty_attr :: termios
  tty_input :: "8 word list"
  tty_closed :: bool

definition tcgetattr :: "terminal \<Rightarrow> termios \<Rightarrow> termios" where
  "tcgetattr t old = (if tty_isatty t then tty_attr t else old)"

definition tcsetattr :: "terminal \<Rightarrow> termios \<Rightarrow> terminal" where
  "tcsetattr t a = (if tty_isatty t then t\<lparr>tty_attr := a\<rparr> else t)"

text \<open>
  \<open>getchar\<close> on standard input: in canonical mode a terminal delivers nothing
  before a whole line (a newline, byte 10) has been typed or the input has ended;
  otherwise the next byte is returned as an \<open>unsigned char\<close> widened to \<open>int\<close>.
  With nothing pending the read returns \<open>EOF\<close> at end of input, or when a
  non-canonical terminal has \<open>VMIN = 0\<close>; otherwise it waits.
\<close>

definition getchar :: "terminal \<Rightarrow> (int \<times> terminal) option" where
  "getchar t =
     (if tty_isatty t \<and> c_lflag (tty_attr t) AND ICANON \<noteq> 0 \<and> 10 \<notin> set (tty_input t) \<and> \<not> tty_closed t
      then None
      else (case tty_input t of
              b # bs \<Rightarrow> Some (uint b, t\<lparr>tty_input := bs\<rparr>)
            | [] \<Rightarrow> if tty_closed t \<or> (tty_isatty t \<and> c_cc_VMIN (tty_attr t) = 0) then Some (EOF, t) else None))"

section \<open>getch\<close>

text \<open>The two \<open>static struct termios\<close> of \<open>getch\<close>, zero-initialised.\<close>

record getch_statics =
  oldt :: termios
  newt :: termios

definition getch_init :: getch_statics where
  "getch_init = \<lparr>oldt = \<lparr>c_lflag = 0, c_cc_VMIN = 0\<rparr>, newt = \<lparr>c_lflag = 0, c_cc_VMIN = 0\<rparr>\<rparr>"

definition getch :: "getch_statics \<Rightarrow> terminal \<Rightarrow> (int \<times> getch_statics \<times> terminal) option" where
  "getch s t =
     (let oldt' = tcgetattr t (oldt s);
          newt' = oldt'\<lparr>c_lflag := c_lflag oldt' AND NOT ICANON\<rparr>;
          t = tcsetattr t newt'
      in map_option (\<lambda>(c, t). (c, \<lparr>oldt = oldt', newt = newt'\<rparr>, tcsetattr t oldt')) (getchar t))"

text \<open>The attributes \<open>getch\<close> applies for the read: the saved ones with \<open>ICANON\<close> cleared.\<close>

definition clear_icanon :: "termios \<Rightarrow> termios" where
  "clear_icanon a = a\<lparr>c_lflag := c_lflag a AND NOT ICANON\<rparr>"

section \<open>Lemmas\<close>

lemma bit_two_int: "bit (2::int) n \<longleftrightarrow> n = 1"
  by (cases n) (simp_all add: bit_Suc bit_1_iff)

lemma ICANON_bit: "bit ICANON n \<longleftrightarrow> n = 1"
  using bit_uint_iff [of ICANON n] bit_two_int by (auto simp: ICANON_def)

lemma clear_icanon_lflag: "c_lflag (clear_icanon a) = c_lflag a AND NOT ICANON"
  by (simp add: clear_icanon_def)

lemma clear_icanon_bit: "bit (c_lflag (clear_icanon a)) n \<longleftrightarrow> bit (c_lflag a) n \<and> n \<noteq> 1"
  unfolding clear_icanon_lflag bit_and_iff bit_not_iff ICANON_bit
  by (auto dest: bit_imp_possible_bit)

lemma clear_icanon_noncanonical [simp]: "c_lflag (clear_icanon a) AND ICANON = 0"
  by (simp only: clear_icanon_lflag and.assoc bit.conj_cancel_left and_zero_eq)

lemma clear_icanon_VMIN [simp]: "c_cc_VMIN (clear_icanon a) = c_cc_VMIN a"
  by (simp add: clear_icanon_def)

lemma getchar_isatty: "getchar t = Some (c, t') \<Longrightarrow> tty_isatty t' = tty_isatty t"
  by (auto simp: getchar_def split: if_splits list.splits)

text \<open>On a terminal: save, clear \<open>ICANON\<close>, read, restore the saved attributes.\<close>

lemma getch_tty:
  "tty_isatty t \<Longrightarrow> getch s t =
     map_option (\<lambda>(c, t'). (c, \<lparr>oldt = tty_attr t, newt = clear_icanon (tty_attr t)\<rparr>, t'\<lparr>tty_attr := tty_attr t\<rparr>))
       (getchar (t\<lparr>tty_attr := clear_icanon (tty_attr t)\<rparr>))"
  by (auto simp: getch_def tcgetattr_def tcsetattr_def clear_icanon_def Let_def
      intro!: option.map_cong dest: getchar_isatty)

text \<open>Elsewhere (a pipe or a file) both attribute calls fail and \<open>getch\<close> is \<open>getchar\<close>.\<close>

lemma getch_not_tty:
  "\<not> tty_isatty t \<Longrightarrow> getch s t =
     map_option (\<lambda>(c, t'). (c, \<lparr>oldt = oldt s, newt = clear_icanon (oldt s)\<rparr>, t')) (getchar t)"
  by (auto simp: getch_def tcgetattr_def tcsetattr_def clear_icanon_def Let_def
      intro!: option.map_cong dest: getchar_isatty)

lemma uint_byte: "- 1 \<le> uint (b :: 8 word)" "uint (b :: 8 word) < 256"
proof -
  show "- 1 \<le> uint b" by (rule order_trans [of _ 0]) simp_all
  show "uint b < 256" using uint_lt2p [of b] by simp
qed

lemma getchar_Some:
  "getchar t = Some (c, t') \<Longrightarrow> EOF \<le> c \<and> c < 256 \<and> tty_attr t' = tty_attr t"
  by (auto simp: getchar_def EOF_def uint_byte split: if_splits list.splits)

lemma getch_pending:
  "tty_input t = b # bs \<Longrightarrow> \<exists>s'. getch s t = Some (uint b, s', t\<lparr>tty_input := bs\<rparr>)"
  by (cases "tty_isatty t") (simp_all add: getch_tty getch_not_tty getchar_def)

text \<open>A terminal in its usual state: canonical mode and echo on (\<open>c_lflag = 0x8a3b\<close>), \<open>VMIN = 1\<close>.\<close>

abbreviation demo_tty :: "8 word list \<Rightarrow> terminal" where
  "demo_tty bs \<equiv> \<lparr>tty_isatty = True, tty_attr = \<lparr>c_lflag = 0x8a3b, c_cc_VMIN = 1\<rparr>,
                   tty_input = bs, tty_closed = False\<rparr>"

section \<open>Properties\<close>

text \<open>
  C34. \<open>getch\<close> returns a key where \<open>getchar\<close> would wait: on a terminal in
  canonical mode (the \<open>ICANON\<close> bit set) with a key typed but no newline, a plain
  \<open>getchar\<close> does not return, while \<open>getch\<close> returns the key as \<open>uint b\<close>,
  consumes nothing else and leaves the terminal's attributes as they were.
\<close>

theorem getch_returns_pending_key:
  assumes "tty_isatty t" and "c_lflag (tty_attr t) AND ICANON \<noteq> 0"
    and "tty_input t = b # bs" and "10 \<notin> set (b # bs)" and "\<not> tty_closed t"
  shows "getchar t = None \<and> (\<exists>s'. getch s t = Some (uint b, s', t\<lparr>tty_input := bs\<rparr>))"
  using assms getch_pending [OF assms(3)] by (simp add: getchar_def)

theorem getch_returns_pending_key_witness:
  "tty_isatty (demo_tty [115]) \<and> c_lflag (tty_attr (demo_tty [115])) AND ICANON \<noteq> 0
   \<and> tty_input (demo_tty [115]) = 115 # [] \<and> 10 \<notin> set [115 :: 8 word] \<and> \<not> tty_closed (demo_tty [115])
   \<and> getchar (demo_tty [115]) = None
   \<and> (\<exists>s'. getch getch_init (demo_tty [115]) = Some (uint (115 :: 8 word), s', (demo_tty [115])\<lparr>tty_input := []\<rparr>))"
proof -
  have i: "c_lflag (tty_attr (demo_tty [115])) AND ICANON \<noteq> 0" by (simp add: ICANON_def)
  show ?thesis
    using getch_returns_pending_key [of "demo_tty [115]" 115 "[]" getch_init, OF _ i] i by simp
qed

text \<open>
  C35. What \<open>getch\<close> returns and leaves: the value is a byte \<open>0..255\<close> or \<open>EOF\<close>,
  the terminal's attributes afterwards are those it had before, and on a terminal
  the static copies hold the saved attributes and, for the read, the same
  attributes with exactly bit 1 (\<open>ICANON\<close>) of the 32-bit local flags cleared and
  every other flag and \<open>VMIN\<close> kept.
\<close>

theorem getch_result_bounds:
  assumes "getch s t = Some (c, s', t')"
  shows "EOF \<le> c \<and> c < 256 \<and> tty_attr t' = tty_attr t
    \<and> (tty_isatty t \<longrightarrow> oldt s' = tty_attr t \<and> c_cc_VMIN (newt s') = c_cc_VMIN (tty_attr t)
        \<and> (\<forall>n. bit (c_lflag (newt s')) n \<longleftrightarrow> bit (c_lflag (tty_attr t)) n \<and> n \<noteq> 1))"
proof (cases "tty_isatty t")
  case True
  then obtain t'' where g: "getchar (t\<lparr>tty_attr := clear_icanon (tty_attr t)\<rparr>) = Some (c, t'')"
    and s': "s' = \<lparr>oldt = tty_attr t, newt = clear_icanon (tty_attr t)\<rparr>"
    and t': "t' = t''\<lparr>tty_attr := tty_attr t\<rparr>"
    using assms by (auto simp: getch_tty)
  then show ?thesis using getchar_Some [OF g] by (simp add: clear_icanon_bit)
next
  case False
  then obtain t'' where g: "getchar t = Some (c, t'')" and t': "t' = t''"
    using assms by (auto simp: getch_not_tty)
  then show ?thesis using getchar_Some [OF g] False by simp
qed

theorem getch_result_bounds_witness:
  "\<exists>s' t'. getch getch_init (demo_tty [115]) = Some (115, s', t')
   \<and> EOF \<le> 115 \<and> (115 :: int) < 256 \<and> tty_attr t' = tty_attr (demo_tty [115])
   \<and> (tty_isatty (demo_tty [115]) \<longrightarrow> oldt s' = tty_attr (demo_tty [115])
        \<and> c_cc_VMIN (newt s') = c_cc_VMIN (tty_attr (demo_tty [115]))
        \<and> (\<forall>n. bit (c_lflag (newt s')) n \<longleftrightarrow> bit (c_lflag (tty_attr (demo_tty [115]))) n \<and> n \<noteq> 1))"
proof -
  obtain s' t' where g: "getch getch_init (demo_tty [115]) = Some (115, s', t')"
    by (simp add: getch_tty getchar_def)
  show ?thesis using getch_result_bounds [OF g] g by blast
qed

text \<open>
  C36. \<open>getch\<close> waits: on a terminal with no key pending and the input still open,
  and with \<open>VMIN\<close> not zero (the usual value 1, which \<open>getch\<close> leaves as it is),
  the call does not return until a key comes, although the comment of line 291
  calls the read non-blocking. The loop of \<open>main\<close> therefore tests
  \<open>ros::ok()\<close> only after each key.
\<close>

theorem getch_waits_without_key:
  assumes "tty_isatty t" and "tty_input t = []" and "\<not> tty_closed t" and "c_cc_VMIN (tty_attr t) \<noteq> 0"
  shows "getch s t = None"
  using assms by (simp add: getch_tty getchar_def)

theorem getch_waits_without_key_witness:
  "tty_isatty (demo_tty []) \<and> tty_input (demo_tty []) = [] \<and> \<not> tty_closed (demo_tty [])
   \<and> c_cc_VMIN (tty_attr (demo_tty [])) \<noteq> 0 \<and> getch getch_init (demo_tty []) = None"
  using getch_waits_without_key [of "demo_tty []" getch_init] by simp

end
