(* ===== verification/Console.thy ===== *)
theory Console
  imports MainLoop Terminal
begin

text \<open>
  The key loop of \<open>main\<close> as the source writes it (lines 444--496):
  \<open>while (ros::ok()) { key = getch(); ... }\<close>, with the terminal of theory
  \<open>Terminal\<close> and the static copies of \<open>getch\<close> as part of the state. Each turn
  reads, from an infinite stream, whether \<open>ros::ok()\<close> holds and the tf readings of
  that moment; the key is what \<open>getch\<close> returns. The loop is a
  \<open>partial_function (option)\<close>: \<open>None\<close> is a run that never ends, either because
  no key ever ends it or because \<open>getch\<close> waits for a key that does not come.
  The lemmas show that typed bytes drive the loop exactly as the key sequences of
  \<open>run_keys\<close> do, so that the session's theorems apply to what is typed.
\<close>

section \<open>The loop with the terminal\<close>

partial_function (option) console_loop ::
  "screw_solver \<Rightarrow> node_config \<Rightarrow> session \<Rightarrow> getch_statics \<Rightarrow> terminal \<Rightarrow> (bool \<times> tf_reading) stream
   \<Rightarrow> (fault + session) option" where
  "console_loop solver cfg st s t evs =
     (if \<not> fst (shd evs) then Some (Inr st)
      else (case getch s t of
              None \<Rightarrow> None
            | Some (key, s', t') \<Rightarrow>
                (case main_step solver cfg st key (snd (shd evs)) of
                   Inl e \<Rightarrow> Some (Inl e)
                 | Inr (st', go) \<Rightarrow> if go then console_loop solver cfg st' s' t' (stl evs) else Some (Inr st'))))"

text \<open>The key presses a run of typed bytes makes, with the readings of their turns.\<close>

definition typed_keys :: "8 word list \<Rightarrow> (bool \<times> tf_reading) stream \<Rightarrow> (int \<times> tf_reading) list" where
  "typed_keys bs evs = zip (map uint bs) (map snd (stake (length bs) evs))"

section \<open>Lemmas\<close>

lemma console_loop_pending:
  assumes "tty_input t = b # bs" and "fst (shd evs)"
  shows "\<exists>s'. console_loop solver cfg st s t evs =
    (case main_step solver cfg st (uint b) (snd (shd evs)) of
       Inl e \<Rightarrow> Some (Inl e)
     | Inr (st', go) \<Rightarrow> if go then console_loop solver cfg st' s' (t\<lparr>tty_input := bs\<rparr>) (stl evs) else Some (Inr st'))"
proof -
  obtain s' where g: "getch s t = Some (uint b, s', t\<lparr>tty_input := bs\<rparr>)"
    using getch_pending [OF assms(1)] by blast
  show ?thesis
    by (rule exI [of _ s'], subst console_loop.simps) (simp add: assms(2) g split: sum.split prod.split)
qed

lemma typed_keys_Cons:
  "typed_keys (b # bs) evs = (uint b, snd (shd evs)) # typed_keys bs (stl evs)"
  by (simp add: typed_keys_def)

section \<open>Properties\<close>

text \<open>
  C37. The loop with the terminal refines the key loop of the session: if the bytes
  \<open>bs\<close> are typed ahead, \<open>ros::ok()\<close> holds for as many turns, and the keys they make
  end the run (a \<open>q\<close> or a fault among them), the loop of \<open>main\<close> returns exactly what
  \<open>run_keys\<close> computes on those keys with the readings of their turns; the bytes
  typed after the \<open>q\<close> are never read.
\<close>

theorem console_loop_typed_keys:
  assumes "tty_input t = bs @ rest" and "\<forall>i < length bs. fst (evs !! i)"
    and "\<forall>st'. run_keys solver cfg st (typed_keys bs evs) \<noteq> Inr (st', True)"
  shows "console_loop solver cfg st s t evs
    = Some (bind_res (run_keys solver cfg st (typed_keys bs evs)) (\<lambda>(st', go). Inr st'))"
  using assms
proof (induction bs arbitrary: st s t evs)
  case Nil
  then show ?case by (simp add: typed_keys_def)
next
  case (Cons b bs)
  have "fst (evs !! 0)" using Cons.prems(2) by blast
  then have ok: "fst (shd evs)" by simp
  have inp: "tty_input t = b # (bs @ rest)" using Cons.prems(1) by simp
  obtain s' where c: "console_loop solver cfg st s t evs =
    (case main_step solver cfg st (uint b) (snd (shd evs)) of
       Inl e \<Rightarrow> Some (Inl e)
     | Inr (st', go) \<Rightarrow> if go then console_loop solver cfg st' s' (t\<lparr>tty_input := bs @ rest\<rparr>) (stl evs) else Some (Inr st'))"
    using console_loop_pending [OF inp ok] by blast
  show ?case
  proof (cases "main_step solver cfg st (uint b) (snd (shd evs))")
    case (Inl e)
    then show ?thesis using c by (simp add: typed_keys_Cons)
  next
    case (Inr r)
    obtain st1 go where r: "r = (st1, go)" by fastforce
    show ?thesis
    proof (cases go)
      case True
      have "\<forall>i < length bs. fst (stl evs !! i)" using Cons.prems(2) by auto
      moreover have "\<forall>st'. run_keys solver cfg st1 (typed_keys bs (stl evs)) \<noteq> Inr (st', True)"
        using Cons.prems(3) Inr r True by (simp add: typed_keys_Cons)
      ultimately have "console_loop solver cfg st1 s' (t\<lparr>tty_input := bs @ rest\<rparr>) (stl evs)
          = Some (bind_res (run_keys solver cfg st1 (typed_keys bs (stl evs))) (\<lambda>(st', go). Inr st'))"
        using Cons.IH [of "t\<lparr>tty_input := bs @ rest\<rparr>"] by simp
      then show ?thesis using c Inr r True by (simp add: typed_keys_Cons)
    next
      case False
      then show ?thesis using c Inr r by (simp add: typed_keys_Cons)
    qed
  qed
qed

lemma main_step_q_stops:
  "main_step solver cfg st (of_char CHR ''q'') rd \<noteq> Inr (st', True)"
  by (cases "finalize solver cfg st") (simp_all add: main_step_def is_key_def)

theorem console_loop_typed_keys_witness:
  "tty_input (demo_tty [113]) = [113] @ []
   \<and> fst (sconst (True, demo_reading) !! 0)
   \<and> (\<forall>st'. run_keys demo_solver demo_config demo_state_w (typed_keys [113] (sconst (True, demo_reading)))
          \<noteq> Inr (st', True))
   \<and> console_loop demo_solver demo_config demo_state_w getch_init (demo_tty [113]) (sconst (True, demo_reading))
     = Some (bind_res (run_keys demo_solver demo_config demo_state_w (typed_keys [113] (sconst (True, demo_reading))))
         (\<lambda>(st', go). Inr st'))"
proof -
  have k: "typed_keys [113] (sconst (True, demo_reading)) = [(of_char CHR ''q'', demo_reading)]"
    by (simp add: typed_keys_def)
  have r: "\<forall>st'. run_keys demo_solver demo_config demo_state_w (typed_keys [113] (sconst (True, demo_reading)))
          \<noteq> Inr (st', True)"
    unfolding k using main_step_q_stops [of demo_solver demo_config demo_state_w demo_reading]
    by (auto simp: bind_res_eq_Inr split: prod.splits if_splits)
  have i: "tty_input (demo_tty [113]) = [113] @ []" by simp
  have o: "\<forall>i < length [113 :: 8 word]. fst (sconst (True, demo_reading) !! i)" by simp
  show ?thesis using console_loop_typed_keys [OF i o r] r by simp
qed

end
