(* ===== verification/TfSource.thy ===== *)
theory TfSource
  imports PairStore NodeParams SolverContract
begin

text \<open>
  The pose source of \<open>addFrame\<close> (\<open>src/src/handeye_calibration.cpp\<close>, lines
  297--327): at \<open>now = ros::Time::now()\<close> the node asks the tf listener, with a
  timeout of ten seconds, for the camera in the marker frame
  (\<open>waitForTransform/lookupTransform(ARTagTFname, cameraTFname, now)\<close>) and for the
  end effector in the base frame (\<open>(baseTFname, EETFname, now)\<close>), and converts the
  \<open>tf::StampedTransform\<close>s with \<open>tf::transformTFToEigen\<close>. The listener is the
  pose-source collaborator of the specification (section 6,
  \<open>lookupPose(frameA, frameB, timestamp, timeout) \<rightarrow> transform | TimeoutError\<close>): a
  parameter of the model giving, for two frames, a time and a timeout, the transform
  if it becomes available in time. A session driven by a listener
  (\<open>reachable_tf\<close>) is a session of theory \<open>Session\<close> whose tf readings are the
  listener's answers at some time. The lemmas show that such a session is reachable
  in the sense of \<open>Session\<close>, that both poses of every stored pair are the answers
  for one and the same instant, and that a pose source observing a rig keeps every
  stored pair consistent with the rig, which is what the theorems on the solver's
  inputs assume.
\<close>

section \<open>tf transforms and the listener\<close>

text \<open>\<open>tf::Transform\<close>: a rotation basis and an origin.\<close>

record tf_transform =
  tf_basis :: mat3
  tf_origin :: vec3

text \<open>
  \<open>tf::transformTFToEigen\<close> copies the basis into the linear part and the origin into
  the translation of the \<open>Affine3d\<close>.
\<close>

definition transformTFToEigen :: "tf_transform \<Rightarrow> affine3" where
  "transformTFToEigen t = \<lparr>aff_linear = tf_basis t, aff_translation = tf_origin t\<rparr>"

text \<open>\<open>waitForTransform\<close> then \<open>lookupTransform\<close>: target frame, source frame, time, timeout.\<close>

type_synonym tf_listener = "string \<Rightarrow> string \<Rightarrow> real \<Rightarrow> real \<Rightarrow> tf_transform option"

text \<open>The two frame names of lines 407 and 409 that only name tf lookups.\<close>

record tf_frames =
  ARTagTFname :: string
  baseTFname :: string

definition tf_frames_of :: "param_server \<Rightarrow> tf_frames" where
  "tf_frames_of ps = \<lparr>ARTagTFname = param_string ps ''ARTagTF'' ''/camera_2/ar_marker_0'',
                       baseTFname = param_string ps ''baseTF'' ''/base_link''\<rparr>"

text \<open>The readings \<open>addFrame\<close> obtains at \<open>now\<close> (lines 299--327).\<close>

definition lookup_frames :: "tf_listener \<Rightarrow> tf_frames \<Rightarrow> node_config \<Rightarrow> real \<Rightarrow> tf_reading" where
  "lookup_frames listener fr cfg now =
     \<lparr>cam_lookup = map_option transformTFToEigen (listener (ARTagTFname fr) (cameraTFname cfg) now 10),
      ee_lookup = map_option transformTFToEigen (listener (baseTFname fr) (EETFname cfg) now 10)\<rparr>"

text \<open>The states of a session whose every turn reads the listener at some time.\<close>

inductive reachable_tf ::
  "screw_solver \<Rightarrow> tf_listener \<Rightarrow> tf_frames \<Rightarrow> node_config \<Rightarrow> file_system \<Rightarrow> session \<Rightarrow> bool"
  for solver listener fr cfg fsys0 where
  start: "reachable_tf solver listener fr cfg fsys0 (session_init fsys0)"
| step: "reachable_tf solver listener fr cfg fsys0 st
         \<Longrightarrow> main_step solver cfg st key (lookup_frames listener fr cfg now) = Inr (st', True)
         \<Longrightarrow> reachable_tf solver listener fr cfg fsys0 st'"

text \<open>
  A pose source observing a rig: whenever both lookups answer at a time \<open>t\<close>, both
  poses are rigid and close the loop \<open>E X = Y C\<close> with the hand-eye transform
  \<open>X\<close> and the base-to-marker transform \<open>Y\<close>.
\<close>

definition rig_source :: "tf_listener \<Rightarrow> tf_frames \<Rightarrow> node_config \<Rightarrow> affine3 \<Rightarrow> affine3 \<Rightarrow> bool" where
  "rig_source listener fr cfg X Y \<longleftrightarrow>
     (\<forall>t e c. listener (baseTFname fr) (EETFname cfg) t 10 = Some e
        \<longrightarrow> listener (ARTagTFname fr) (cameraTFname cfg) t 10 = Some c
        \<longrightarrow> rigid (transformTFToEigen e) \<and> rigid (transformTFToEigen c)
          \<and> affine_mul (transformTFToEigen e) X = affine_mul Y (transformTFToEigen c))"

text \<open>The pairs a listener can give: both poses answered for one instant.\<close>

definition same_instant :: "tf_listener \<Rightarrow> tf_frames \<Rightarrow> node_config \<Rightarrow> pose_pair \<Rightarrow> bool" where
  "same_instant listener fr cfg p \<longleftrightarrow>
     (\<exists>t e c. listener (baseTFname fr) (EETFname cfg) t 10 = Some e
        \<and> listener (ARTagTFname fr) (cameraTFname cfg) t 10 = Some c
        \<and> p = (transformTFToEigen e, transformTFToEigen c))"

section \<open>Lemmas\<close>

lemma reachable_tf_reachable:
  "reachable_tf solver listener fr cfg fsys0 st \<Longrightarrow> reachable solver cfg fsys0 st"
  by (induction rule: reachable_tf.induct) (auto intro: reachable.intros)

text \<open>What a key stores keeps any property that the listener's answers for one instant have.\<close>

lemma store_run_key_op_all:
  assumes "list_all P ps"
    and "\<forall>e c. listener (baseTFname fr) (EETFname cfg) now 10 = Some e
       \<longrightarrow> listener (ARTagTFname fr) (cameraTFname cfg) now 10 = Some c
       \<longrightarrow> P (transformTFToEigen e, transformTFToEigen c)"
  shows "list_all P (store_run ps (key_op key (lookup_frames listener fr cfg now)))"
  using assms
  by (auto simp: key_op_def lookup_frames_def list_all_iff split: option.splits dest: in_set_butlastD)

text \<open>
  The invariant scheme of a listener-driven session: every stored pair has each
  property that all pairs of answers for one instant have.
\<close>

lemma reachable_tf_pairs_all:
  assumes "reachable_tf solver listener fr cfg fsys0 st"
    and "\<forall>t e c. listener (baseTFname fr) (EETFname cfg) t 10 = Some e
       \<longrightarrow> listener (ARTagTFname fr) (cameraTFname cfg) t 10 = Some c
       \<longrightarrow> P (transformTFToEigen e, transformTFToEigen c)"
  shows "list_all P (pairs_of st)"
  using assms(1)
proof (induction rule: reachable_tf.induct)
  case start
  then show ?case by (simp add: pairs_of_def session_init_def)
next
  case (step st key now st')
  have "session_inv st" using reachable_inv [OF reachable_tf_reachable [OF step.hyps(1)]] .
  then have "pairs_of st' = store_run (pairs_of st) (key_op key (lookup_frames listener fr cfg now))"
    using main_step_pairs [OF step.hyps(2)] by blast
  then show ?case using store_run_key_op_all [OF step.IH] assms(2) by simp
qed

text \<open>A pose source observing a rig gives a session with the rig's hypotheses.\<close>

lemma reachable_tf_rig:
  assumes "reachable_tf solver listener fr cfg fsys0 st" and "rig_source listener fr cfg X Y"
  shows "list_all rigid (baseToTip st) \<and> list_all rigid (cameraToTag st)
    \<and> rig_consistent X Y (zip (baseToTip st) (cameraToTag st))"
proof -
  have len: "length (cameraToTag st) = length (baseToTip st)"
    using reachable_derived [OF reachable_tf_reachable [OF assms(1)]] by simp
  have "list_all (\<lambda>p. rigid (fst p) \<and> rigid (snd p) \<and> affine_mul (fst p) X = affine_mul Y (snd p)) (pairs_of st)"
    using assms(2) by (intro reachable_tf_pairs_all [OF assms(1)]) (auto simp: rig_source_def)
  then have p: "\<forall>p \<in> set (zip (baseToTip st) (cameraToTag st)).
      rigid (fst p) \<and> rigid (snd p) \<and> affine_mul (fst p) X = affine_mul Y (snd p)"
    by (simp add: list_all_iff pairs_of_def)
  have b: "baseToTip st = map fst (zip (baseToTip st) (cameraToTag st))"
    and c: "cameraToTag st = map snd (zip (baseToTip st) (cameraToTag st))"
    using len by simp_all
  have "list_all rigid (baseToTip st)"
    using p by (subst b) (auto simp: list_all_iff)
  moreover have "list_all rigid (cameraToTag st)"
    using p by (subst c) (auto simp: list_all_iff)
  moreover have "rig_consistent X Y (zip (baseToTip st) (cameraToTag st))"
    using p by (auto simp: rig_consistent_def list_all_iff)
  ultimately show ?thesis by blast
qed

text \<open>A listener that answers the identity for every lookup.\<close>

abbreviation still_listener :: tf_listener where
  "still_listener \<equiv> \<lambda>_ _ _ _. Some \<lparr>tf_basis = mident, tf_origin = vzero\<rparr>"

lemma lookup_frames_still: "lookup_frames still_listener fr cfg now = demo_reading"
  by (simp add: lookup_frames_def transformTFToEigen_def affine_ident_def)

lemma still_ident: "transformTFToEigen \<lparr>tf_basis = mident, tf_origin = vzero\<rparr> = affine_ident"
  by (simp add: transformTFToEigen_def affine_ident_def)

lemma reachable_tf_demo:
  "reachable_tf demo_solver still_listener (tf_frames_of Map.empty) demo_config demo_fs_w demo_state_w"
proof -
  have s: "main_step demo_solver demo_config (session_init demo_fs_w) (of_char CHR ''s'')
      (lookup_frames still_listener (tf_frames_of Map.empty) demo_config 0) = Inr (demo_state_w, True)"
    by (simp only: lookup_frames_still demo_capture_w)
  show ?thesis by (rule reachable_tf.step [OF reachable_tf.start s])
qed

section \<open>Properties\<close>

text \<open>
  C39. The invariant of the specification's pose pairs, "the two streams in a pair
  always represent the same logical instant": in every state of a session driven by
  the listener, both poses of every stored pair are the listener's answers for one
  and the same time \<open>now\<close>, the end effector in the base frame and the camera in
  the marker frame, converted by \<open>transformTFToEigen\<close>.
\<close>

theorem tf_pairs_same_instant:
  assumes "reachable_tf solver listener fr cfg fsys0 st"
  shows "list_all (same_instant listener fr cfg) (pairs_of st)"
  using assms by (rule reachable_tf_pairs_all) (auto simp: same_instant_def)

theorem tf_pairs_same_instant_witness:
  "reachable_tf demo_solver still_listener (tf_frames_of Map.empty) demo_config demo_fs_w demo_state_w
   \<and> list_all (same_instant still_listener (tf_frames_of Map.empty) demo_config) (pairs_of demo_state_w)"
  using tf_pairs_same_instant [OF reachable_tf_demo] reachable_tf_demo by blast

text \<open>
  C40. End-to-end correctness of a calibration session up to the solver: if the pose
  source observes a rig with a rigid hand-eye transform \<open>X\<close> (every pair of answers
  for one instant is rigid and closes \<open>E X = Y C\<close>), and the solver meets its
  contract on the session's vectors, then in every state the session can reach by
  keys with the listener's answers, \<open>q\<close> stores a rigid transform \<open>Z\<close> that
  satisfies \<open>A\<^sub>k Z = Z B\<^sub>k\<close> for every captured relative motion.
\<close>

theorem tf_session_q_exact:
  assumes "reachable_tf solver listener fr cfg fsys0 st" and "rig_source listener fr cfg X Y" and "rigid X"
    and "solver_contract solver (globals st)"
    and "main_step solver cfg st (of_char CHR ''q'') rd = Inr (st', go)"
    and "fs_writable (files st) (calibratedTransformFile cfg)"
  shows "\<exists>Z doc. rigid Z \<and> fs_files (files st') (calibratedTransformFile cfg) = Some doc
    \<and> map_of doc ''handToEyeTransform'' = Some (mat_node Z)
    \<and> (\<forall>k. Suc k < length (baseToTip st) \<longrightarrow>
         affine_mul (affine_mul (affine_inverse (hd (baseToTip st))) (baseToTip st ! Suc k)) Z
           = affine_mul Z (affine_mul (affine_inverse (hd (cameraToTag st))) (cameraToTag st ! Suc k)))"
proof -
  obtain r s where rs: "run_solver solver (globals st) = (r, s)" by fastforce
  have len: "length (cameraToTag st) = length (baseToTip st)"
    and g: "globals st = derived_acc (zip (baseToTip st) (cameraToTag st))"
    using reachable_derived [OF reachable_tf_reachable [OF assms(1)]] by simp_all
  have rb: "list_all rigid (baseToTip st)" and rc: "list_all rigid (cameraToTag st)"
    and rig: "rig_consistent X Y (zip (baseToTip st) (cameraToTag st))"
    using reachable_tf_rig [OF assms(1,2)] by simp_all
  have "solves_motions X (globals st)"
    using rig_solves_motions [OF len rb rc rig] g by simp
  then have "rigid r" and sol: "solves_motions r (derived_acc (zip (baseToTip st) (cameraToTag st)))"
    using assms(3,4) rs g by (auto simp: solver_contract_def)
  then show ?thesis
    using q_finalizes [OF assms(5) rs assms(6)] solves_motions_pairs [OF len rb rc] by blast
qed

theorem tf_session_q_exact_witness:
  "reachable_tf demo_solver still_listener (tf_frames_of Map.empty) demo_config demo_fs_w demo_state_w
   \<and> rig_source still_listener (tf_frames_of Map.empty) demo_config affine_ident affine_ident \<and> rigid affine_ident
   \<and> solver_contract demo_solver (globals demo_state_w)
   \<and> (\<exists>st' go. main_step demo_solver demo_config demo_state_w (of_char CHR ''q'') demo_reading = Inr (st', go)
     \<and> fs_writable (files demo_state_w) (calibratedTransformFile demo_config)
     \<and> (\<exists>Z doc. rigid Z \<and> fs_files (files st') (calibratedTransformFile demo_config) = Some doc
       \<and> map_of doc ''handToEyeTransform'' = Some (mat_node Z)
       \<and> (\<forall>k. Suc k < length (baseToTip demo_state_w) \<longrightarrow>
            affine_mul (affine_mul (affine_inverse (hd (baseToTip demo_state_w))) (baseToTip demo_state_w ! Suc k)) Z
              = affine_mul Z (affine_mul (affine_inverse (hd (cameraToTag demo_state_w))) (cameraToTag demo_state_w ! Suc k)))))"
proof -
  have g: "rig_source still_listener (tf_frames_of Map.empty) demo_config affine_ident affine_ident"
    by (simp add: rig_source_def still_ident)
  have c: "solver_contract demo_solver (globals demo_state_w)"
    by (simp add: solver_contract_def run_solver_def solves_motions_def add_pair_def acc_init_def)
  obtain st' go where q: "main_step demo_solver demo_config demo_state_w (of_char CHR ''q'') demo_reading = Inr (st', go)"
    by (simp add: main_step_def is_key_def finalize_def writeCalibration_def int32_add_def run_solver_def
        add_pair_def acc_init_def Let_def fs_store_def) blast
  have w: "fs_writable (files demo_state_w) (calibratedTransformFile demo_config)"
    by (simp add: fs_store_def)
  show ?thesis
    using tf_session_q_exact [OF reachable_tf_demo g rigid_affine_ident c q w] reachable_tf_demo g c q w by blast
qed

end
