(* ===== verification/Spec2Isabelle.thy ===== *)
theory Spec2Isabelle
  imports PairStore Report NodeParams RotationVector SolverContract Console TfSource
begin

text \<open>
  \<^bold>\<open>Hand-eye calibration node: a verification development.\<close>

  The program (\<open>src/src/handeye_calibration.cpp\<close>, one ROS node) records pairs of
  poses of a robot arm (base to end effector, \<open>baseToTip\<close>) and of a camera
  relative to a fiducial marker (\<open>cameraToTag\<close>), derives from them the motions of
  both frames relative to the first pair, hands those to the AX=XB solver of the
  camodocal library, and prints and stores the estimated hand-eye transform. In
  capture mode the key loop of \<open>main\<close> reads keys: \<open>s\<close> looks up both poses,
  stores them (\<open>addFrame\<close>) and rewrites the pair file; \<open>d\<close> drops the last pair
  and its motion; \<open>q\<close> runs \<open>estimateHandEye\<close> on the stored motions and writes the
  calibration file. In load mode \<open>main\<close> reads the pair file and calibrates once.
  The parts and their theories, in import order:

  \<^item> \<^bold>\<open>Prelude\<close>: the fault type (every undefined behaviour and every error path
    of the program is a value of it), the sequencing \<open>bind_res\<close> of the result type
    \<open>fault + 'a\<close>, shared list lemmas and the theorem collections.
  \<^item> \<^bold>\<open>Eigen arithmetic\<close> (theory \<open>Geometry\<close>): \<open>Vector3d\<close>, \<open>Matrix3d\<close>
    and \<open>Affine3d\<close> as records of reals, with the product, the inverse
    (Eigen's cofactor formula), the rotation and translation parts and the
    \<open>4\<times>4\<close> matrix view. Lemmas: transforms form a group on which rigid transforms
    are a subgroup; the inverse is two-sided whenever the determinant is not zero;
    the inverse of a rotation is its transpose.
  \<^item> \<^bold>\<open>Rotation vectors\<close> (theory \<open>AngleAxis\<close>):
    \<open>eigenRotToEigenVector3dAngleAxis\<close> (lines 30--35) with Eigen's
    matrix-to-quaternion (\<open>quat_of_rotation\<close>) and quaternion-to-angle-axis
    conversions. Lemmas: the angle lies in \<open>[0, \<pi>]\<close> and is the length of the
    returned vector (C15); the identity gives the zero vector; the quaternion of
    every rotation matrix has norm 1, on all four branches of Shepperd's method.
  \<^item> \<^bold>\<open>Meaning of the rotation vectors\<close> (theory \<open>RotationVector\<close>):
    Rodrigues' formula (\<open>rodrigues\<close>) gives the rotation a vector of the
    specification's axis-angle form stands for. Lemmas: the quaternion of every
    rotation matrix has that matrix as its rotation matrix, on all four branches of
    Shepperd's method; Rodrigues' formula of the angle-axis of a unit quaternion is
    the quaternion's matrix; so \<open>rodrigues (eigenRotToEigenVector3dAngleAxis R) = R\<close>
    for every rotation \<open>R\<close> (C29).
  \<^item> \<^bold>\<open>Relative motion deriver\<close> (theory \<open>Deriver\<close>): the accumulation loop
    shared by \<open>estimateHandEye\<close> (lines 171--236) and \<open>addFrame\<close> (lines
    297--394) as \<open>add_pair\<close>/\<open>accumulate\<close> over the record \<open>motion_acc\<close> (the
    program's globals of lines 20--27); the solver call, with the camodocal solver
    as a parameter \<open>screw_solver\<close>; the specification \<open>deriveAll\<close>. Lemmas: the
    loop computes \<open>deriveAll\<close> (C1); on a rig with a fixed hand-eye transform every
    motion handed to the solver satisfies \<open>A X = X B\<close> (C2); derived motions are
    rigid (C16); pure translations give zero rotation vectors (C14).
  \<^item> \<^bold>\<open>Files\<close> (theory \<open>Storage\<close>): \<open>cv::FileStorage\<close> as a file system of
    key/node lists with a writability predicate; \<open>writeTransformPairsToFile\<close>
    (lines 37--74), \<open>readTransformPairsFromFile\<close> (lines 77--122) and
    \<open>writeCalibration\<close> (lines 238--279), with the decimal key names \<open>T1_n\<close>,
    \<open>T2_n\<close>. Lemmas: write then read gives back the pairs (C5); the calibration
    record written (C9); unwritable files are left alone (C17); keys are injective
    and parse back (C18); the stored quaternion of a rigid result is a unit
    quaternion (C22).
  \<^item> \<^bold>\<open>Capture session\<close> (theory \<open>Session\<close>): the globals, \<open>addFrame\<close>, and
    the key loop of \<open>main\<close> (lines 396--496) as the record \<open>session\<close>, a step
    function \<open>main_step\<close> per key, \<open>run_keys\<close> over a key sequence, the load-mode
    branch \<open>main_from_file\<close>, and the inductive relation \<open>reachable\<close>. Pose
    lookups (\<open>tf_reading\<close>) are inputs. Lemmas: in every reachable state the
    motion vectors are \<open>deriveAll\<close> of the stored pairs (C3, by rule induction);
    undo with fewer than two pairs is the \<open>pop_back\<close> on an empty vector (C4);
    capture then undo restores the state (C6); a failed lookup keeps the pairs (C7);
    \<open>q\<close> solves the derived motions (C8); key sequences keep the invariant (C13).
  \<^item> \<^bold>\<open>Main loop\<close> (theory \<open>MainLoop\<close>): \<open>while (ros::ok())\<close> of
    lines 444--496 over an infinite stream of events (a key with its tf readings, or
    the shutdown that makes \<open>ros::ok()\<close> false) as the
    \<open>partial_function (option)\<close> \<open>main_loop\<close>, \<open>None\<close> being a loop that never
    ends. Lemmas: the loop terminates on every input with a shutdown or a \<open>q\<close>
    (C23, by induction on the position); \<open>q\<close> ends it in every state with the
    calibration written unless the step count overflows (C24, liveness); on a finite
    key list followed by a shutdown it computes what \<open>run_keys\<close> computes (C25).
  \<^item> \<^bold>\<open>Entry point\<close> (theory \<open>NodeMain\<close>): \<open>main\<close> after its parameters
    (lines 396--496) as \<open>handeye_main\<close>: load mode runs \<open>main_from_file\<close>, record
    mode starts the session from empty globals and runs \<open>main_loop\<close>. Lemma: the
    main use case end to end, captures with both poses then \<open>q\<close>, leaves a pair file
    that reads back as the captured poses and a calibration file with the solver's
    result on their motions (C31).
  \<^item> \<^bold>\<open>Parameters\<close> (theory \<open>NodeParams\<close>): the \<open>nh.param\<close> calls of
    \<open>main\<close> (lines 406--416) over a parameter server (a map from names to values),
    with the defaults of the source, as \<open>node_params\<close>, and \<open>main\<close> from there on as
    \<open>node_main\<close>. Lemmas: the record loop writes no file but the pair file and the
    calibration file (by induction over the \<open>partial_function\<close>, \<open>raw_induct\<close>);
    with the default names a load run does not read what a record run wrote and
    calibrates on no data (C38).
  \<^item> \<^bold>\<open>Pose source\<close> (theory \<open>TfSource\<close>): the tf lookups of \<open>addFrame\<close>
    (lines 299--327), both at one \<open>now\<close> with a ten-second timeout, over the
    listener, a parameter that is the pose-source collaborator of the specification
    (section 6); \<open>transformTFToEigen\<close>; the frame names from the parameters; the
    inductive relation \<open>reachable_tf\<close> of sessions whose readings are the listener's
    answers. Lemmas: such sessions are reachable sessions; an invariant scheme
    proved once by rule induction; both poses of every stored pair are answers for one
    instant (C39, the specification's pose-pair invariant); a pose source observing
    a rig keeps the rig's hypotheses, so that, with a solver meeting its contract,
    \<open>q\<close> stores an exact solution in every such session (C40, end to end).
  \<^item> \<^bold>\<open>Pose Pair Store\<close> (theory \<open>PairStore\<close>): the store of the
    specification (section 4.1) as an abstract data type, a list of pose pairs with
    \<open>store_step\<close> for \<open>append\<close> and \<open>removeLast\<close>; the session abstracted to
    its pairs (\<open>pairs_of\<close>) and each key press to its store operations
    (\<open>key_op\<close>). Lemma: the key loop refines the store, every non-faulting run of
    keys leaving the abstractly computed pairs and their derived motions (C21).
  \<^item> \<^bold>\<open>Euler angles\<close> (theory \<open>EulerAngles\<close>): Eigen's
    \<open>eulerAngles(2, 1, 0)\<close> (Tait-Bryan branch of Eigen 3.3) and the roll-pitch-yaw
    triple the reporter prints (lines 144--151). Lemmas: for every rotation matrix
    the printed angles rebuild it as \<open>Rz(yaw) Ry(pitch) Rx(roll)\<close>, gimbal lock
    included (C26); the yaw lies in \<open>[0, \<pi>]\<close>, pitch and roll in \<open>(-\<pi>, \<pi>]\<close>
    (C27); a negative yaw \<open>a\<close> is printed as \<open>(\<pi>, \<pi>, a + \<pi>)\<close> (C28).
  \<^item> \<^bold>\<open>Reporter\<close> (theory \<open>Report\<close>): the values \<open>reportCalibration\<close>
    (lines 124--169) prints; \<open>finalize\<close> logs it as \<open>Info_report\<close>. Lemma:
    the printed inverse is consistent with the printed transform, its quaternion
    being the conjugate up to sign (C19).
  \<^item> \<^bold>\<open>Solver contract\<close> (theory \<open>SolverContract\<close>): the contract of the
    AX=XB Estimator (specification, section 4.3) on the solver parameter
    (\<open>solver_contract\<close>): the returned transform is rigid, and it has zero residual
    on every motion of its input (\<open>solves_motions\<close>, the motions read back from
    the vectors by Rodrigues' formula) whenever some rigid transform does. Lemmas:
    the vectors the session hands the solver read back as exactly the relative
    motions of the poses; on a rig with a rigid hand-eye transform, every solver that
    meets the contract makes \<open>q\<close> store a rigid transform that satisfies
    \<open>A\<^sub>k Z = Z B\<^sub>k\<close> for every captured motion (C32); the matrix, the quaternion
    and the roll-pitch-yaw angles printed and stored for a rigid result describe one
    rotation (C33).
  \<^item> \<^bold>\<open>Terminal input\<close> (theory \<open>Terminal\<close>): \<open>getch\<close> (lines 283--295)
    over a terminal modelled from POSIX (a record of the attributes it touches, the
    bytes pending, end of input), with its two static \<open>termios\<close> copies as a
    record and the local flags as a 32-bit word. Lemmas: a pending key is returned
    at once, canonical mode or not, consuming nothing else (C34); the value is a byte
    or \<open>EOF\<close>, the attributes are restored, and the read runs with exactly the
    \<open>ICANON\<close> bit cleared (C35); with no key pending the call waits (C36). Where a
    plain \<open>getchar\<close> would wait for a newline, \<open>getch\<close> returns the key (C34).
  \<^item> \<^bold>\<open>Key loop with the terminal\<close> (theory \<open>Console\<close>): the loop of lines
    444--496 as the source writes it, \<open>ros::ok()\<close> then \<open>key = getch()\<close> then the
    key's handler, as the \<open>partial_function (option)\<close> \<open>console_loop\<close> over the
    session, the statics of \<open>getch\<close> and the terminal. Lemma: bytes typed ahead
    that end the run drive it exactly as \<open>run_keys\<close> on the keys they make (C37),
    so the session's theorems apply to what is typed.
  \<^item> This theory: properties across components: the offline path agrees with the
    interactive one (C10), a missing pair file runs the solver on nothing (C11),
    undo leaves the pair file stale (C12), the printed report and the stored
    calibration agree (C20); the rotation vectors the session hands the solver stand
    exactly for the relative rotations of the stored poses (C30).

  \<^bold>\<open>Bounds.\<close> The pair count is written as an \<open>int\<close> (\<open>int frameCount =
  baseToTip.size()\<close>), modelled as the 32-bit narrowing \<open>sint (word_of_nat n)\<close>;
  the round-trip lemmas assume fewer than \<open>2^31\<close> pairs, below which the narrowing
  is the identity. The solver's step counts are added as 32-bit \<open>int\<close>s, and an
  overflowing sum is the fault \<open>Signed_overflow\<close>. No loop of the program needs fuel:
  every loop runs over a finite vector or a finite key sequence and is structural
  recursion here, except the main loop, whose input is unbounded: it is a
  \<open>partial_function (option)\<close> and its termination is a theorem (C23). The
  loop counters of \<open>writeTransformPairsToFile\<close> and \<open>estimateHandEye\<close> (lines 51
  and 184, \<open>int i\<close> against \<open>size()\<close>) are list recursion here: they would overflow
  only after \<open>2^31 - 1\<close> pairs, hundreds of gigabytes of poses, beyond the
  \<open>2^31\<close> bound the theorems about the pair count already assume.

  \<^bold>\<open>Not modelled.\<close> The camodocal solver and ceres (a library the program only
  calls: a parameter of the model, specified by its contract and not by its
  algorithm); ROS and tf (\<open>ros::init\<close>, the node handle, the creation of the tf listener
  and the sleeps of lines 398--440; the parameter reading is modelled, and the
  listener's answers are a parameter specified by the pose-source contract, its
  buffer and interpolation being library code): pose lookups are inputs of the model, and in the event-stream loop
  \<open>main_loop\<close> the keys are inputs too (\<open>console_loop\<close> reads them with
  \<open>getch\<close>); console
  output and the YAML text (the printed values are modelled, their formatting is
  not); the \<open>a0 = a2\<close> (proper Euler) branch of \<open>eulerAngles\<close>, which the program
  never calls; floating-point rounding (the
  model computes over \<open>real\<close>).

  \<^bold>\<open>Open.\<close> The solver's algorithm (closed-form initialisation and ceres
  refinement) is library code specified here only by its contract; a model of it would
  be a specification of camodocal, not of this program.
\<close>

section \<open>Properties across components\<close>

text \<open>
  C10. Offline and interactive calibration agree: after a capture in a reachable
  session has written the pair file, running the node in load mode on that file
  (\<open>main_from_file\<close>: read, \<open>estimateHandEye\<close>, write) produces the same file
  system as pressing \<open>q\<close> in the session: the solver receives the same vectors and
  its result is written the same way. The pair count must fit the file's \<open>int\<close>
  \<open>frameCount\<close>.
\<close>

theorem offline_matches_interactive:
  assumes "reachable solver cfg fsys0 st"
    and "main_step solver cfg st (of_char CHR ''s'') rd = Inr (st', True)"
    and "fs_writable (files st) (transformPairsRecordFile cfg)"
    and "transformPairsLoadFile cfg = transformPairsRecordFile cfg"
    and "length (baseToTip st') < 2 ^ 31"
  shows "main_from_file solver cfg (files st') =
    bind_res (main_step solver cfg st' (of_char CHR ''q'') rd') (\<lambda>(st'', go). Inr (files st''))"
proof -
  have cap: "capture cfg st rd = Inr st'" using assms(2) by (simp add: main_step_s)
  have r': "reachable solver cfg fsys0 st'" using assms(1,2) by (rule reachable.step)
  then have len: "length (cameraToTag st') = length (baseToTip st')"
    and g: "globals st' = derived_acc (zip (baseToTip st') (cameraToTag st'))"
    using reachable_derived by simp_all
  obtain d where d: "write_pairs 0 (baseToTip st') (cameraToTag st') = Inr d"
    and fl: "fs_files (files st') (transformPairsRecordFile cfg)
      = Some ((''frameCount'', FInt (int_of_size (length (baseToTip st')))) # d)"
    using capture_file [OF cap assms(3)] by blast
  have rd: "readTransformPairsFromFile (transformPairsLoadFile cfg) [] [] (files st')
      = Inr (0, baseToTip st', cameraToTag st')"
    using read_after_write [OF d _ assms(5) fl] len assms(4) by simp
  have "estimateHandEye solver (baseToTip st') (cameraToTag st') = Inr (run_solver solver (globals st'))"
    using estimateHandEye_derives [of "baseToTip st'" "cameraToTag st'" solver] len g by simp
  then show ?thesis
    unfolding main_step_q_files by (simp add: main_from_file_def rd split: prod.split)
qed

theorem offline_matches_interactive_witness:
  "reachable demo_solver demo_config demo_fs_w (session_init demo_fs_w) \<and>
   main_step demo_solver demo_config (session_init demo_fs_w) (of_char CHR ''s'') demo_reading
     = Inr (demo_state_w, True) \<and>
   fs_writable (files (session_init demo_fs_w)) (transformPairsRecordFile demo_config) \<and>
   transformPairsLoadFile demo_config = transformPairsRecordFile demo_config \<and>
   length (baseToTip demo_state_w) < 2 ^ 31 \<and>
   main_from_file demo_solver demo_config (files demo_state_w) =
     bind_res (main_step demo_solver demo_config demo_state_w (of_char CHR ''q'') demo_reading)
       (\<lambda>(st'', go). Inr (files st''))"
  using offline_matches_interactive [OF reachable.start demo_capture_w, of demo_reading]
    reachable.start demo_capture_w by (simp add: session_init_def)

text \<open>
  C11. When the pair file to load does not exist, the load-mode branch of \<open>main\<close>
  ignores the error code of \<open>readTransformPairsFromFile\<close>, calls the solver on four
  empty vectors and writes whatever it returns as the calibration: neither the I/O
  failure nor the absence of data is reported.
\<close>

theorem missing_pair_file_runs_solver_on_nothing:
  assumes "fs_files fsys (transformPairsLoadFile cfg) = None"
  shows "main_from_file solver cfg fsys =
    (case solver [] [] [] [] of (r, s) \<Rightarrow> writeCalibration r (calibratedTransformFile cfg) s fsys)"
  using assms
  by (simp add: main_from_file_def readTransformPairsFromFile_def fs_open_read_def estimateHandEye_def
      run_solver_def acc_init_def split: prod.split)

theorem missing_pair_file_runs_solver_on_nothing_witness:
  "fs_files demo_fs (transformPairsLoadFile demo_config) = None \<and>
   main_from_file demo_solver demo_config demo_fs =
     (case demo_solver [] [] [] [] of (r, s) \<Rightarrow> writeCalibration r (calibratedTransformFile demo_config) s demo_fs)"
  using missing_pair_file_runs_solver_on_nothing [of demo_fs demo_config demo_solver] by simp

text \<open>
  C12. Undo does not rewrite the pair file: after a capture and an undo the store has
  one pair fewer, but the file still holds the removed pair, and loading it reproduces
  the store as it was before the undo.
\<close>

theorem undo_leaves_stale_pair_file:
  assumes "reachable solver cfg fsys0 st"
    and "main_step solver cfg st (of_char CHR ''s'') rd = Inr (st', True)"
    and "main_step solver cfg st' (of_char CHR ''d'') rd' = Inr (st'', True)"
    and "fs_writable (files st) (transformPairsRecordFile cfg)"
    and "length (baseToTip st') < 2 ^ 31"
  shows "length (baseToTip st'') + 1 = length (baseToTip st') \<and>
    readTransformPairsFromFile (transformPairsRecordFile cfg) [] [] (files st'')
      = Inr (0, baseToTip st', cameraToTag st')"
proof -
  have cap: "capture cfg st rd = Inr st'" using assms(2) by (simp add: main_step_s)
  have del: "delete_last st' = Inr st''" using assms(3) by (simp add: main_step_d)
  have r': "reachable solver cfg fsys0 st'" using assms(1,2) by (rule reachable.step)
  then have len: "length (cameraToTag st') = length (baseToTip st')"
    using reachable_derived by simp
  obtain d where d: "write_pairs 0 (baseToTip st') (cameraToTag st') = Inr d"
    and fl: "fs_files (files st') (transformPairsRecordFile cfg)
      = Some ((''frameCount'', FInt (int_of_size (length (baseToTip st')))) # d)"
    using capture_file [OF cap assms(4)] by blast
  have "readTransformPairsFromFile (transformPairsRecordFile cfg) [] [] (files st')
      = Inr (0, baseToTip st', cameraToTag st')"
    using read_after_write [OF d _ assms(5) fl] len by simp
  moreover have "files st'' = files st'" using del by (rule delete_last_files)
  moreover have "length (baseToTip st'') + 1 = length (baseToTip st')"
    using del by (auto simp: delete_last_Inr)
  ultimately show ?thesis by simp
qed

theorem undo_leaves_stale_pair_file_witness:
  "\<exists>st''. reachable demo_solver demo_config demo_fs_w demo_state_w \<and>
   main_step demo_solver demo_config demo_state_w (of_char CHR ''s'') demo_reading = Inr (demo_state_w2, True) \<and>
   main_step demo_solver demo_config demo_state_w2 (of_char CHR ''d'') demo_reading = Inr (st'', True) \<and>
   fs_writable (files demo_state_w) (transformPairsRecordFile demo_config) \<and>
   length (baseToTip demo_state_w2) < 2 ^ 31 \<and>
   length (baseToTip st'') + 1 = length (baseToTip demo_state_w2) \<and>
   readTransformPairsFromFile (transformPairsRecordFile demo_config) [] [] (files st'')
     = Inr (0, baseToTip demo_state_w2, cameraToTag demo_state_w2)"
proof -
  obtain st'' where d: "main_step demo_solver demo_config demo_state_w2 (of_char CHR ''d'') demo_reading
      = Inr (st'', True)"
    by (simp add: main_step_def is_key_def delete_last_def pop_back_def add_pair_def acc_init_def Let_def)
  show ?thesis
    using undo_leaves_stale_pair_file [OF reachable_demo_w demo_capture_w2 d]
      reachable_demo_w demo_capture_w2 d by (auto simp: fs_store_def)
qed

text \<open>
  C20. What the node prints and what it stores agree: when \<open>q\<close> succeeds and the
  calibration file can be written, the last entry of the log is the report of the
  result, with the configured frame names, and the file holds that report's
  translation and quaternion as \<open>handToEyeTF\<close> and its \<open>4\<times>4\<close> matrix as
  \<open>handToEyeTransform\<close>.
\<close>

theorem report_matches_calibration_file:
  assumes "main_step solver cfg st (of_char CHR ''q'') rd = Inr (st', go)"
    and "fs_writable (files st) (calibratedTransformFile cfg)"
  shows "\<exists>r doc. last (log st') = Info_report r \<and> rep_frames r = (EETFname cfg, cameraTFname cfg)
    \<and> fs_files (files st') (calibratedTransformFile cfg) = Some doc
    \<and> map_of doc ''handToEyeTF'' = Some (FMat 1 7 [vx (rep_translation r), vy (rep_translation r), vz (rep_translation r),
         qx (rep_quaternion r), qy (rep_quaternion r), qz (rep_quaternion r), qw (rep_quaternion r)])
    \<and> map_of doc ''handToEyeTransform'' = Some (FMat 4 4 (concat (rep_matrix r)))"
proof -
  obtain r s where rs: "run_solver solver (globals st) = (r, s)" by fastforce
  have fin: "finalize solver cfg st = Inr st'"
    using assms(1) by (auto simp: main_step_def is_key_def bind_res_eq_Inr)
  note rep = finalize_Inr_report [OF fin rs]
  obtain doc where doc: "fs_files (files st') (calibratedTransformFile cfg) = Some doc"
    and tf: "map_of doc ''handToEyeTF'' = Some (FMat 1 7 [vx (aff_translation r), vy (aff_translation r), vz (aff_translation r),
         qx (quat_of_rotation (affine_rotation r)), qy (quat_of_rotation (affine_rotation r)),
         qz (quat_of_rotation (affine_rotation r)), qw (quat_of_rotation (affine_rotation r))])"
    and m: "map_of doc ''handToEyeTransform'' = Some (mat_node r)"
    using writeCalibration_doc [OF conjunct2 [OF rep] assms(2)] by blast
  show ?thesis
    using rep doc tf m by (auto simp: reportCalibration_def mat_node_def Let_def)
qed

theorem report_matches_calibration_file_witness:
  "\<exists>st' go. main_step demo_solver demo_config demo_state_w (of_char CHR ''q'') demo_reading = Inr (st', go)
   \<and> fs_writable (files demo_state_w) (calibratedTransformFile demo_config)
   \<and> (\<exists>r doc. last (log st') = Info_report r \<and> rep_frames r = (EETFname demo_config, cameraTFname demo_config)
    \<and> fs_files (files st') (calibratedTransformFile demo_config) = Some doc
    \<and> map_of doc ''handToEyeTF'' = Some (FMat 1 7 [vx (rep_translation r), vy (rep_translation r), vz (rep_translation r),
         qx (rep_quaternion r), qy (rep_quaternion r), qz (rep_quaternion r), qw (rep_quaternion r)])
    \<and> map_of doc ''handToEyeTransform'' = Some (FMat 4 4 (concat (rep_matrix r))))"
proof -
  obtain st' go where q: "main_step demo_solver demo_config demo_state_w (of_char CHR ''q'') demo_reading = Inr (st', go)"
    by (simp add: main_step_def is_key_def finalize_def writeCalibration_def int32_add_def run_solver_def
        add_pair_def acc_init_def Let_def fs_store_def) blast
  have w: "fs_writable (files demo_state_w) (calibratedTransformFile demo_config)"
    by (simp add: fs_store_def)
  show ?thesis
    using report_matches_calibration_file [OF q w] q w by blast
qed

text \<open>
  C30. The rotation vectors the session hands the solver are exact: in every
  reachable state, for each stored pair after the first (with rigid poses), the
  \<open>k\<close>-th entries of \<open>rvecsArm\<close> and \<open>rvecsFiducial\<close> stand, through
  Rodrigues' formula, for exactly the relative rotations \<open>R\<^sub>0\<^sup>T R\<^sub>k\<^sub>+\<^sub>1\<close> of the arm and of
  the camera.
\<close>

theorem solver_rotation_vectors_exact:
  assumes "reachable solver cfg fsys0 st" and "Suc k < length (baseToTip st)"
    and "rigid (hd (baseToTip st))" "rigid (baseToTip st ! Suc k)"
    and "rigid (hd (cameraToTag st))" "rigid (cameraToTag st ! Suc k)"
  shows "rodrigues (rvecsArm (globals st) ! k)
           = mmul (mtrans (aff_linear (hd (baseToTip st)))) (aff_linear (baseToTip st ! Suc k))
    \<and> rodrigues (rvecsFiducial (globals st) ! k)
           = mmul (mtrans (aff_linear (hd (cameraToTag st)))) (aff_linear (cameraToTag st ! Suc k))"
proof -
  have len: "length (cameraToTag st) = length (baseToTip st)"
    and g: "globals st = derived_acc (zip (baseToTip st) (cameraToTag st))"
    using reachable_derived [OF assms(1)] by simp_all
  obtain b0 bs where b: "baseToTip st = b0 # bs" using assms(2) by (cases "baseToTip st") auto
  obtain c0 cs where c: "cameraToTag st = c0 # cs" using assms(2) len by (cases "cameraToTag st") auto
  have k: "k < length (zip bs cs)" using assms(2) len b c by simp
  show ?thesis
    using assms(3-6) k rodrigues_rot_vec_relative
    by (simp add: g b c derived_acc_lists relative_to_def)
qed

theorem solver_rotation_vectors_exact_witness:
  "reachable demo_solver demo_config demo_fs_w demo_state_w2 \<and> Suc 0 < length (baseToTip demo_state_w2)
   \<and> rigid (hd (baseToTip demo_state_w2)) \<and> rigid (baseToTip demo_state_w2 ! Suc 0)
   \<and> rigid (hd (cameraToTag demo_state_w2)) \<and> rigid (cameraToTag demo_state_w2 ! Suc 0)
   \<and> rodrigues (rvecsArm (globals demo_state_w2) ! 0)
       = mmul (mtrans (aff_linear (hd (baseToTip demo_state_w2)))) (aff_linear (baseToTip demo_state_w2 ! Suc 0))
   \<and> rodrigues (rvecsFiducial (globals demo_state_w2) ! 0)
       = mmul (mtrans (aff_linear (hd (cameraToTag demo_state_w2)))) (aff_linear (cameraToTag demo_state_w2 ! Suc 0))"
proof -
  have r: "reachable demo_solver demo_config demo_fs_w demo_state_w2"
    by (rule reachable.step [OF reachable_demo_w demo_capture_w2])
  show ?thesis
    using solver_rotation_vectors_exact [OF r, of 0] r by simp
qed

end
